theory Spec2Isabelle
  imports Complex_Main
begin

section \<open>Data model of \<^verbatim>\<open>GameCanvas.tsx\<close>\<close>

text \<open>
  JavaScript numbers are modelled as real numbers: rounding and NaN are outside the
  model. Integer-valued quantities (score, lives, hit-points, the behaviour pattern) are
  \<open>int\<close>. The fields \<^verbatim>\<open>x\<close> and \<^verbatim>\<open>y\<close> of \<^verbatim>\<open>Vec2\<close> are called \<open>xc\<close> and \<open>yc\<close>.
  \<^verbatim>\<open>Particle\<close> and \<^verbatim>\<open>Entity\<close> both have \<^verbatim>\<open>pos\<close> and \<^verbatim>\<open>vel\<close>; the record \<open>Body\<close>
  holds these two fields for both.
\<close>

record Vec2 =
  xc :: real
  yc :: real

record Body =
  pos :: Vec2
  vel :: Vec2

record Entity = Body +
  radius :: real
  alive :: bool

record Player = Entity +
  speed :: real
  cooldown :: real

record Bullet = Entity +
  fromPlayer :: bool

record Enemy = Entity +
  hp :: int
  pattern :: int
  t :: real

record Particle = Body +
  life :: real
  color :: string

text \<open>
  The five \<^verbatim>\<open>useState\<close> variables of the component. A value of this type is also what a
  closure created during one render sees: \<^verbatim>\<open>update\<close>, \<^verbatim>\<open>hitPlayer\<close> and \<^verbatim>\<open>spawnWave\<close>
  read \<^verbatim>\<open>score\<close> and \<^verbatim>\<open>lives\<close> from the render they were created in, and write through
  the functional updaters \<^verbatim>\<open>setScore(s => s + 100)\<close> and \<^verbatim>\<open>setLives(l => l - 1)\<close>, which
  act on the current cell.
\<close>

record State =
  running :: bool
  paused :: bool
  gameOver :: bool
  score :: int
  lives :: int

text \<open>
  The state cells together with the \<^verbatim>\<open>useRef\<close> cells the simulation uses.
  \<open>randomCalls\<close> counts the calls of \<^verbatim>\<open>Math.random()\<close> made so far; the values it
  returns are a parameter \<open>rnd\<close> of the functions below, \<open>rnd n\<close> being the result of
  call number \<open>n\<close>.
\<close>

record Game = State +
  keys :: "string \<Rightarrow> bool"
  playerRef :: "Player option"
  bulletsRef :: "Bullet list"
  enemiesRef :: "Enemy list"
  particlesRef :: "Particle list"
  timeRef :: real
  lastTimeRef :: "real option"
  spawnTimerRef :: real
  aimRef :: Vec2
  firingRef :: bool
  randomCalls :: nat

section \<open>Geometry helpers\<close>

definition INTERNAL_WIDTH :: real where
  "INTERNAL_WIDTH = 480"

definition INTERNAL_HEIGHT :: real where
  "INTERNAL_HEIGHT = 720"

definition clamp :: "real \<Rightarrow> real \<Rightarrow> real \<Rightarrow> real" where
  "clamp v mn mx = max mn (min mx v)"

definition dist2 :: "Vec2 \<Rightarrow> Vec2 \<Rightarrow> real" where
  "dist2 a b = (let dx = xc a - xc b; dy = yc a - yc b in dx * dx + dy * dy)"

text \<open>\<^verbatim>\<open>Math.hypot(a, b)\<close>, and the idiom \<^verbatim>\<open>v || 1\<close> on a number.\<close>

definition hypot :: "real \<Rightarrow> real \<Rightarrow> real" where
  "hypot a b = sqrt (a * a + b * b)"

definition orOne :: "real \<Rightarrow> real" where
  "orOne v = (if v = 0 then 1 else v)"

section \<open>Start and restart\<close>

definition startPos :: Vec2 where
  "startPos = \<lparr>xc = INTERNAL_WIDTH / 2, yc = INTERNAL_HEIGHT / 2\<rparr>"

definition newPlayer :: Player where
  "newPlayer = \<lparr>pos = startPos, vel = \<lparr>xc = 0, yc = 0\<rparr>, radius = 12, alive = True,
     speed = 180, cooldown = 0\<rparr>"

definition initGame :: "Game \<Rightarrow> Game" where
  "initGame g = g\<lparr>score := 0, lives := 3, gameOver := False, paused := False,
     playerRef := Some newPlayer, bulletsRef := [], enemiesRef := [], particlesRef := [],
     spawnTimerRef := 0, lastTimeRef := None, running := True\<rparr>"

section \<open>Particle bursts\<close>

text \<open>
  One iteration of the loop of \<^verbatim>\<open>emitExplosion\<close>: three calls of \<^verbatim>\<open>Math.random()\<close>
  (angle, speed, lifetime, in this order) and one \<^verbatim>\<open>push\<close>.
\<close>

definition emitParticle :: "(nat \<Rightarrow> real) \<Rightarrow> real \<Rightarrow> real \<Rightarrow> string \<Rightarrow> nat \<Rightarrow> Game \<Rightarrow> Game" where
  "emitParticle rnd px py col i g =
     (let n = randomCalls g;
          a = (pi * 2 * real i) / 16 + rnd n * 0.3;
          sp = 60 + rnd (n + 1) * 80
      in g\<lparr>particlesRef := particlesRef g @
             [\<lparr>pos = \<lparr>xc = px, yc = py\<rparr>, vel = \<lparr>xc = cos a * sp, yc = sin a * sp\<rparr>,
               life = 0.4 + rnd (n + 2) * 0.3, color = col\<rparr>],
           randomCalls := n + 3\<rparr>)"

definition emitExplosion :: "(nat \<Rightarrow> real) \<Rightarrow> real \<Rightarrow> real \<Rightarrow> string \<Rightarrow> Game \<Rightarrow> Game" where
  "emitExplosion rnd px py col g = fold (emitParticle rnd px py col) [0..<16] g"

section \<open>The player-hit procedure\<close>

text \<open>
  \<open>env\<close> is the render \<^verbatim>\<open>hitPlayer\<close> was created in: the test reads \<^verbatim>\<open>lives\<close> from
  there, while \<^verbatim>\<open>setLives\<close>, \<^verbatim>\<open>setGameOver\<close> and \<^verbatim>\<open>setRunning\<close> write the cells. The
  argument \<open>player\<close> is the object held in \<^verbatim>\<open>playerRef\<close>, so its mutation is written
  back there.
\<close>

definition hitPlayer :: "State \<Rightarrow> (nat \<Rightarrow> real) \<Rightarrow> Player \<Rightarrow> Game \<Rightarrow> Game" where
  "hitPlayer env rnd player g =
     (let g1 = emitExplosion rnd (xc (pos player)) (yc (pos player)) ''hsl(var(--destructive))'' g;
          g2 = g1\<lparr>lives := lives g1 - 1\<rparr>
      in if lives env - 1 \<le> 0
         then g2\<lparr>playerRef := Some (player\<lparr>alive := False\<rparr>), gameOver := True, running := False\<rparr>
         else g2\<lparr>playerRef := Some (player\<lparr>pos := startPos\<rparr>)\<rparr>)"

section \<open>Wave generation\<close>

definition spawnEnemy :: "State \<Rightarrow> (nat \<Rightarrow> real) \<Rightarrow> Game \<Rightarrow> Game" where
  "spawnEnemy env rnd g =
     (let n = randomCalls g;
          side = \<lfloor>rnd n * 4\<rfloor>;
          p = (if side = 0 then \<lparr>xc = rnd (n + 1) * INTERNAL_WIDTH, yc = - 25\<rparr>
               else if side = 1 then \<lparr>xc = INTERNAL_WIDTH + 25, yc = rnd (n + 1) * INTERNAL_HEIGHT\<rparr>
               else if side = 2 then \<lparr>xc = rnd (n + 1) * INTERNAL_WIDTH, yc = INTERNAL_HEIGHT + 25\<rparr>
               else \<lparr>xc = - 25, yc = rnd (n + 1) * INTERNAL_HEIGHT\<rparr>)
      in g\<lparr>enemiesRef := enemiesRef g @
             [\<lparr>pos = p, vel = \<lparr>xc = 0, yc = 0\<rparr>, radius = 14, alive = True,
               hp = 1 + \<lfloor>real_of_int (score env) / 800\<rfloor>, pattern = \<lfloor>rnd (n + 2) * 3\<rfloor>, t = 0\<rparr>],
           randomCalls := n + 3\<rparr>)"

fun spawnLoop :: "State \<Rightarrow> (nat \<Rightarrow> real) \<Rightarrow> nat \<Rightarrow> Game \<Rightarrow> Game" where
  "spawnLoop env rnd 0 g = g"
| "spawnLoop env rnd (Suc k) g = spawnLoop env rnd k (spawnEnemy env rnd g)"

definition spawnWave :: "State \<Rightarrow> (nat \<Rightarrow> real) \<Rightarrow> Game \<Rightarrow> Game" where
  "spawnWave env rnd g =
     (let count = 4 + \<lfloor>rnd (randomCalls g) * 3\<rfloor> + \<lfloor>real_of_int (score env) / 500\<rfloor>
      in spawnLoop env rnd (nat count) (g\<lparr>randomCalls := randomCalls g + 1\<rparr>))"

section \<open>The blocks of \<^verbatim>\<open>update\<close>\<close>

text \<open>
  Each block of \<^verbatim>\<open>update\<close> is a function on the game. \<^verbatim>\<open>update\<close> returns at once when
  there is no player, so the \<open>None\<close> branch of a block that uses the player is never
  taken from \<^verbatim>\<open>update\<close>.
\<close>

definition movePlayer :: "real \<Rightarrow> Game \<Rightarrow> Game" where
  "movePlayer dt g =
     (case playerRef g of None \<Rightarrow> g
      | Some player \<Rightarrow>
         (let left = (keys g ''arrowleft'' \<or> keys g ''a'');
              right = (keys g ''arrowright'' \<or> keys g ''d'');
              up = (keys g ''arrowup'' \<or> keys g ''w'');
              down = (keys g ''arrowdown'' \<or> keys g ''s'');
              velx = (if right then 1 else 0) - (if left then 1 else 0);
              vely = (if down then 1 else 0) - (if up then 1 else 0);
              len = orOne (hypot velx vely);
              px = clamp (xc (pos player) + (velx / len) * speed player * dt) 15 (INTERNAL_WIDTH - 15);
              py = clamp (yc (pos player) + (vely / len) * speed player * dt) 15 (INTERNAL_HEIGHT - 15)
          in g\<lparr>playerRef := Some (player\<lparr>vel := \<lparr>xc = velx, yc = vely\<rparr>, pos := \<lparr>xc = px, yc = py\<rparr>\<rparr>)\<rparr>))"

definition firing :: "Game \<Rightarrow> bool" where
  "firing g = (firingRef g \<or> keys g '' '' \<or> keys g ''space'')"

definition shoot :: "real \<Rightarrow> Game \<Rightarrow> Game" where
  "shoot dt g =
     (case playerRef g of None \<Rightarrow> g
      | Some player \<Rightarrow>
         (let cd = cooldown player - dt in
          if firing g \<and> cd \<le> 0 then
            (let ax = xc (aimRef g) - xc (pos player);
                 ay = yc (aimRef g) - yc (pos player);
                 L = orOne (hypot ax ay);
                 dirx = ax / L;
                 diry = ay / L;
                 speed = 400
             in g\<lparr>bulletsRef := bulletsRef g @
                    [\<lparr>pos = \<lparr>xc = xc (pos player) + dirx * 15, yc = yc (pos player) + diry * 15\<rparr>,
                      vel = \<lparr>xc = dirx * speed, yc = diry * speed\<rparr>,
                      radius = 2, alive = True, fromPlayer = True\<rparr>],
                  playerRef := Some (player\<lparr>cooldown := 0.08\<rparr>)\<rparr>)
          else g\<lparr>playerRef := Some (player\<lparr>cooldown := cd\<rparr>)\<rparr>))"

definition moveBullet :: "real \<Rightarrow> Bullet \<Rightarrow> Bullet" where
  "moveBullet dt b =
     (let b1 = b\<lparr>pos := \<lparr>xc = xc (pos b) + xc (vel b) * dt, yc = yc (pos b) + yc (vel b) * dt\<rparr>\<rparr>
      in if yc (pos b1) < - 10 \<or> yc (pos b1) > INTERNAL_HEIGHT + 10
            \<or> xc (pos b1) < - 10 \<or> xc (pos b1) > INTERNAL_WIDTH + 10
         then b1\<lparr>alive := False\<rparr> else b1)"

definition updateBullets :: "real \<Rightarrow> Game \<Rightarrow> Game" where
  "updateBullets dt g = g\<lparr>bulletsRef := filter alive (map (moveBullet dt) (bulletsRef g))\<rparr>"

definition spawnInterval :: "int \<Rightarrow> real" where
  "spawnInterval sc = max 0.8 (2.0 - real_of_int sc * 0.001)"

definition spawnEnemies :: "State \<Rightarrow> (nat \<Rightarrow> real) \<Rightarrow> real \<Rightarrow> Game \<Rightarrow> Game" where
  "spawnEnemies env rnd dt g =
     (let g1 = g\<lparr>spawnTimerRef := spawnTimerRef g - dt\<rparr>
      in if spawnTimerRef g1 \<le> 0
         then (spawnWave env rnd g1)\<lparr>spawnTimerRef := spawnInterval (score env)\<rparr>
         else g1)"

definition steerEnemy :: "State \<Rightarrow> real \<Rightarrow> Player option \<Rightarrow> Enemy \<Rightarrow> Enemy" where
  "steerEnemy env dt pl e =
     (let e1 = e\<lparr>t := t e + dt\<rparr> in
      case pl of None \<Rightarrow> e1
      | Some player \<Rightarrow>
         (let dx = xc (pos player) - xc (pos e1);
              dy = yc (pos player) - yc (pos e1);
              l = orOne (hypot dx dy);
              base = 35 + min 80 (real_of_int (score env) * 0.03)
          in e1\<lparr>pos := \<lparr>xc = xc (pos e1) + (dx / l) * base * dt,
                         yc = yc (pos e1) + (dy / l) * base * dt\<rparr>\<rparr>))"

definition updateEnemies :: "State \<Rightarrow> real \<Rightarrow> Game \<Rightarrow> Game" where
  "updateEnemies env dt g =
     g\<lparr>enemiesRef := filter alive (map (steerEnemy env dt (playerRef g)) (enemiesRef g))\<rparr>"

text \<open>
  The inner loop of the bullet pass for one bullet: the enemies are scanned in order,
  the first one that overlaps is damaged, and \<^verbatim>\<open>continue outer\<close> ends the scan. The
  loop does not look at the \<^verbatim>\<open>alive\<close> flag of an enemy.
\<close>

fun scanEnemies :: "(nat \<Rightarrow> real) \<Rightarrow> Bullet \<Rightarrow> Enemy list \<Rightarrow> Game \<Rightarrow> Bullet \<times> Enemy list \<times> Game" where
  "scanEnemies rnd b [] g = (b, [], g)"
| "scanEnemies rnd b (e # es) g =
     (let r = radius b + radius e in
      if dist2 (pos b) (pos e) \<le> r * r then
        (let e1 = e\<lparr>hp := hp e - 1\<rparr>;
             g1 = emitExplosion rnd (xc (pos e1)) (yc (pos e1)) ''hsl(var(--accent))'' g
         in if hp e1 \<le> 0
            then (b\<lparr>alive := False\<rparr>, e1\<lparr>alive := False\<rparr> # es,
                  emitExplosion rnd (xc (pos e1)) (yc (pos e1)) ''hsl(var(--primary))''
                    (g1\<lparr>score := score g1 + 100\<rparr>))
            else (b\<lparr>alive := False\<rparr>, e1 # es, g1))
      else (case scanEnemies rnd b es g of (b', es', g') \<Rightarrow> (b', e # es', g')))"

fun bulletLoop :: "(nat \<Rightarrow> real) \<Rightarrow> Bullet list \<Rightarrow> Enemy list \<Rightarrow> Game \<Rightarrow> Bullet list \<times> Enemy list \<times> Game" where
  "bulletLoop rnd [] es g = ([], es, g)"
| "bulletLoop rnd (b # bs) es g =
     (if \<not> fromPlayer b
      then (case bulletLoop rnd bs es g of (bs', es', g') \<Rightarrow> (b # bs', es', g'))
      else (case scanEnemies rnd b es g of (b1, es1, g1) \<Rightarrow>
              (case bulletLoop rnd bs es1 g1 of (bs', es', g') \<Rightarrow> (b1 # bs', es', g'))))"

definition bulletsVsEnemies :: "(nat \<Rightarrow> real) \<Rightarrow> Game \<Rightarrow> Game" where
  "bulletsVsEnemies rnd g =
     (case bulletLoop rnd (bulletsRef g) (enemiesRef g) g of
        (bs, es, g') \<Rightarrow> g'\<lparr>bulletsRef := bs, enemiesRef := es\<rparr>)"

text \<open>The loop of the player pass; it ends at the first overlapping enemy.\<close>

fun playerLoop :: "State \<Rightarrow> (nat \<Rightarrow> real) \<Rightarrow> Player \<Rightarrow> Enemy list \<Rightarrow> Game \<Rightarrow> Enemy list \<times> Game" where
  "playerLoop env rnd player [] g = ([], g)"
| "playerLoop env rnd player (e # es) g =
     (if \<not> alive player then (e # es, g)
      else (let r = radius player + radius e in
            if dist2 (pos player) (pos e) \<le> r * r
            then (e\<lparr>alive := False\<rparr> # es, hitPlayer env rnd player g)
            else (case playerLoop env rnd player es g of (es', g') \<Rightarrow> (e # es', g'))))"

definition enemiesVsPlayer :: "State \<Rightarrow> (nat \<Rightarrow> real) \<Rightarrow> Game \<Rightarrow> Game" where
  "enemiesVsPlayer env rnd g =
     (case playerRef g of None \<Rightarrow> g
      | Some player \<Rightarrow>
         (case playerLoop env rnd player (enemiesRef g) g of
            (es, g') \<Rightarrow> g'\<lparr>enemiesRef := es\<rparr>))"

definition moveParticle :: "real \<Rightarrow> Particle \<Rightarrow> Particle" where
  "moveParticle dt p =
     p\<lparr>life := life p - dt,
       pos := \<lparr>xc = xc (pos p) + xc (vel p) * dt, yc = yc (pos p) + yc (vel p) * dt\<rparr>\<rparr>"

definition updateParticles :: "real \<Rightarrow> Game \<Rightarrow> Game" where
  "updateParticles dt g =
     g\<lparr>particlesRef := filter (\<lambda>p. life p > 0) (map (moveParticle dt) (particlesRef g))\<rparr>"

section \<open>One simulation step\<close>

text \<open>
  \<^verbatim>\<open>update(dt)\<close>: the blocks in the order of the source. \<open>env\<close> is the render the
  running \<^verbatim>\<open>update\<close> was created in.
\<close>

definition update :: "State \<Rightarrow> (nat \<Rightarrow> real) \<Rightarrow> real \<Rightarrow> Game \<Rightarrow> Game" where
  "update env rnd dt g =
     (let g1 = g\<lparr>timeRef := timeRef g + dt\<rparr> in
      case playerRef g1 of None \<Rightarrow> g1
      | Some player \<Rightarrow>
         (let g2 = movePlayer dt g1;
              g3 = shoot dt g2;
              g4 = updateBullets dt g3;
              g5 = spawnEnemies env rnd dt g4;
              g6 = updateEnemies env dt g5;
              g7 = bulletsVsEnemies rnd g6;
              g8 = enemiesVsPlayer env rnd g7
          in updateParticles dt g8))"

section \<open>The frame loop and the renders\<close>

text \<open>
  \<^verbatim>\<open>loop(t)\<close> as installed by the effect with the dependency list
  \<^verbatim>\<open>[running, paused, gameOver]\<close>: it reads the three flags from its render \<open>env\<close>,
  clamps the delta from above (\<open>prev\<close> is the local \<^verbatim>\<open>last\<close>) and calls the \<^verbatim>\<open>update\<close> of the same render. \<^verbatim>\<open>draw\<close>
  changes no cell and is left out. \<open>now\<close> is the timestamp in milliseconds.
\<close>

definition frameDt :: "real \<Rightarrow> real \<Rightarrow> real" where
  "frameDt now prev = min 0.033 ((now - prev) / 1000)"

definition loop :: "State \<Rightarrow> (nat \<Rightarrow> real) \<Rightarrow> real \<Rightarrow> Game \<Rightarrow> Game" where
  "loop env rnd now g =
     (if \<not> running env \<or> paused env \<or> gameOver env then g\<lparr>lastTimeRef := Some now\<rparr>
      else (let prev = (case lastTimeRef g of None \<Rightarrow> now | Some l \<Rightarrow> l);
                dt = frameDt now prev
            in update env rnd dt (g\<lparr>lastTimeRef := Some now\<rparr>)))"

text \<open>
  The component between two events: the cells and refs, and the render whose effect
  installed the running \<^verbatim>\<open>loop\<close>. After an event React renders again; the loop effect
  runs again, and the loop is replaced by the one of the new render, only when one of
  \<^verbatim>\<open>running\<close>, \<^verbatim>\<open>paused\<close>, \<^verbatim>\<open>gameOver\<close> has changed; the effect with the dependency
  list \<^verbatim>\<open>[gameOver]\<close> emits a burst when \<^verbatim>\<open>gameOver\<close> has become true.
\<close>

record App =
  game :: Game
  closure :: State

definition snapshot :: "Game \<Rightarrow> State" where
  "snapshot g = \<lparr>running = running g, paused = paused g, gameOver = gameOver g,
     score = score g, lives = lives g\<rparr>"

definition gameOverBurst :: "(nat \<Rightarrow> real) \<Rightarrow> Game \<Rightarrow> Game" where
  "gameOverBurst rnd g =
     (case playerRef g of None \<Rightarrow> g
      | Some p \<Rightarrow> emitExplosion rnd (xc (pos p)) (yc (pos p)) ''hsl(var(--destructive))'' g)"

definition commit :: "(nat \<Rightarrow> real) \<Rightarrow> App \<Rightarrow> App" where
  "commit rnd a =
     (let g = game a; env = closure a in
      if running g \<noteq> running env \<or> paused g \<noteq> paused env \<or> gameOver g \<noteq> gameOver env
      then \<lparr>game = (if gameOver g \<noteq> gameOver env \<and> gameOver g then gameOverBurst rnd g else g),
            closure = snapshot g\<rparr>
      else a)"

text \<open>
  The events: an animation frame, a click on \<^verbatim>\<open>Start Game\<close> or \<^verbatim>\<open>Play Again\<close>
  (\<^verbatim>\<open>onClick={initGame}\<close>), and the pause toggle \<^verbatim>\<open>setPaused((p) => !p)\<close>.
\<close>

definition frame :: "(nat \<Rightarrow> real) \<Rightarrow> real \<Rightarrow> App \<Rightarrow> App" where
  "frame rnd now a = commit rnd (a\<lparr>game := loop (closure a) rnd now (game a)\<rparr>)"

definition clickStart :: "(nat \<Rightarrow> real) \<Rightarrow> App \<Rightarrow> App" where
  "clickStart rnd a = commit rnd (a\<lparr>game := initGame (game a)\<rparr>)"

definition togglePause :: "(nat \<Rightarrow> real) \<Rightarrow> App \<Rightarrow> App" where
  "togglePause rnd a = commit rnd (a\<lparr>game := (game a)\<lparr>paused := \<not> paused (game a)\<rparr>\<rparr>)"

section \<open>Notions used in the statements\<close>

text \<open>The playfield minus the margin of 15 that \<^verbatim>\<open>update\<close> clamps the player to.\<close>

definition inField :: "Vec2 \<Rightarrow> bool" where
  "inField v \<longleftrightarrow> 15 \<le> xc v \<and> xc v \<le> INTERNAL_WIDTH - 15 \<and> 15 \<le> yc v \<and> yc v \<le> INTERNAL_HEIGHT - 15"

text \<open>
  The component as mounted: the initial values of the \<^verbatim>\<open>useState\<close> and \<^verbatim>\<open>useRef\<close>
  cells, no key held, and a random source that always returns 0.
\<close>

definition noKeys :: "string \<Rightarrow> bool" where
  "noKeys k = False"

definition zeroRandom :: "nat \<Rightarrow> real" where
  "zeroRandom n = 0"

definition mounted :: Game where
  "mounted = \<lparr>running = False, paused = False, gameOver = False, score = 0, lives = 3,
     keys = noKeys, playerRef = None, bulletsRef = [], enemiesRef = [], particlesRef = [],
     timeRef = 0, lastTimeRef = None, spawnTimerRef = 0,
     aimRef = \<lparr>xc = INTERNAL_WIDTH / 2, yc = INTERNAL_HEIGHT / 2 - 120\<rparr>,
     firingRef = False, randomCalls = 0\<rparr>"

definition mountedApp :: App where
  "mountedApp = \<lparr>game = mounted, closure = snapshot mounted\<rparr>"

text \<open>A session just started from the mounted component, and the render that goes with it.\<close>

definition started :: Game where
  "started = initGame mounted"

definition startedEnv :: State where
  "startedEnv = snapshot started"

text \<open>Two games that differ from the started session in the keys held.\<close>

definition holdRight :: "string \<Rightarrow> bool" where
  "holdRight k = (k = ''d'')"

definition holdRightDown :: "string \<Rightarrow> bool" where
  "holdRightDown k = (k = ''d'' \<or> k = ''s'')"

definition gameAxial :: Game where
  "gameAxial = started\<lparr>keys := holdRight\<rparr>"

definition gameDiag :: Game where
  "gameDiag = started\<lparr>keys := holdRightDown\<rparr>"

text \<open>
  The overlap test of the bullet pass, \<^verbatim>\<open>dist2(b.pos, e.pos) <= r * r\<close> with
  \<^verbatim>\<open>r = b.radius + e.radius\<close>, as a predicate.
\<close>

definition bulletHits :: "Bullet \<Rightarrow> Enemy \<Rightarrow> bool" where
  "bulletHits b e \<longleftrightarrow>
     dist2 (pos b) (pos e) \<le> (radius b + radius e) * (radius b + radius e)"

text \<open>
  A player bullet as \<^verbatim>\<open>update\<close> creates it when the aim is straight up, and an enemy as
  \<^verbatim>\<open>spawnWave\<close> creates it, at a given place and with given hit-points.
\<close>

definition bulletAt :: "real \<Rightarrow> real \<Rightarrow> Bullet" where
  "bulletAt px py = \<lparr>pos = \<lparr>xc = px, yc = py\<rparr>, vel = \<lparr>xc = 0, yc = - 400\<rparr>,
     radius = 2, alive = True, fromPlayer = True\<rparr>"

definition enemyAt :: "real \<Rightarrow> real \<Rightarrow> int \<Rightarrow> Enemy" where
  "enemyAt px py h = \<lparr>pos = \<lparr>xc = px, yc = py\<rparr>, vel = \<lparr>xc = 0, yc = 0\<rparr>,
     radius = 14, alive = True, hp = h, pattern = 0, t = 0\<rparr>"

text \<open>
  Counting the bullets pushed over a run of steps. Before each step the input handlers
  may have changed the keys held, the aim and the pointer state; a step belongs to the
  render \<open>env\<close> whose loop runs it. \<open>pushedBullets\<close> is the number of bullets the shooting
  block of one \<^verbatim>\<open>update\<close> pushes.
\<close>

record Input =
  heldKeys :: "string \<Rightarrow> bool"
  aim :: Vec2
  pointerDown :: bool

definition applyInput :: "Input \<Rightarrow> Game \<Rightarrow> Game" where
  "applyInput i g = g\<lparr>keys := heldKeys i, aimRef := aim i, firingRef := pointerDown i\<rparr>"

definition pushedBullets :: "real \<Rightarrow> Game \<Rightarrow> nat" where
  "pushedBullets dt g =
     (case playerRef g of None \<Rightarrow> 0
      | Some player \<Rightarrow> length (bulletsRef (shoot dt (movePlayer dt g))) - length (bulletsRef g))"

fun bulletsSpawned :: "(nat \<Rightarrow> real) \<Rightarrow> (State \<times> Input \<times> real) list \<Rightarrow> Game \<Rightarrow> nat" where
  "bulletsSpawned rnd [] g = 0"
| "bulletsSpawned rnd ((env, i, dt) # ticks) g =
     pushedBullets dt (applyInput i g) +
     bulletsSpawned rnd ticks (update env rnd dt (applyInput i g))"

fun duration :: "(State \<times> Input \<times> real) list \<Rightarrow> real" where
  "duration [] = 0"
| "duration ((env, i, dt) # ticks) = dt + duration ticks"

definition cooldownOf :: "Game \<Rightarrow> real" where
  "cooldownOf g = (case playerRef g of None \<Rightarrow> 0 | Some player \<Rightarrow> cooldown player)"

definition holdFire :: Input where
  "holdFire = \<lparr>heldKeys = noKeys, aim = \<lparr>xc = 240, yc = 240\<rparr>, pointerDown = True\<rparr>"

text \<open>Six steps of 16 ms with the pointer held down, after the start.\<close>

definition fireTick :: "State \<times> Input \<times> real" where
  "fireTick = (startedEnv, holdFire, 16 / 1000)"

definition fireRun :: "(State \<times> Input \<times> real) list" where
  "fireRun = [fireTick, fireTick, fireTick, fireTick, fireTick, fireTick]"

text \<open>
  The game as the collision passes of one \<^verbatim>\<open>update\<close> find it: after the movement,
  shooting, bullet, spawn and enemy blocks.
\<close>

definition beforeCollisions :: "State \<Rightarrow> (nat \<Rightarrow> real) \<Rightarrow> real \<Rightarrow> Game \<Rightarrow> Game" where
  "beforeCollisions env rnd dt g =
     updateEnemies env dt (spawnEnemies env rnd dt (updateBullets dt (shoot dt
       (movePlayer dt (g\<lparr>timeRef := timeRef g + dt\<rparr>)))))"

text \<open>
  A running session with two player bullets, 10 apart, just below one enemy with
  1 hit-point, all far from the player.
\<close>

definition crossfire :: Game where
  "crossfire = started\<lparr>bulletsRef := [bulletAt 240 310, bulletAt 240 300],
     enemiesRef := [enemyAt 240 290 1], spawnTimerRef := 1\<rparr>"

text \<open>
  Closed forms used to compare two steps: the player after the movement block, the
  bullet the shooting block pushes, and the enemies a wave of \<open>k\<close> pushes when the random
  counter stands at \<open>n\<close>.
\<close>

definition movedPlayer :: "(string \<Rightarrow> bool) \<Rightarrow> real \<Rightarrow> Player \<Rightarrow> Player" where
  "movedPlayer ks dt player =
     (let left = (ks ''arrowleft'' \<or> ks ''a'');
          right = (ks ''arrowright'' \<or> ks ''d'');
          up = (ks ''arrowup'' \<or> ks ''w'');
          down = (ks ''arrowdown'' \<or> ks ''s'');
          velx = (if right then 1 else 0) - (if left then 1 else 0);
          vely = (if down then 1 else 0) - (if up then 1 else 0);
          len = orOne (hypot velx vely);
          px = clamp (xc (pos player) + (velx / len) * speed player * dt) 15 (INTERNAL_WIDTH - 15);
          py = clamp (yc (pos player) + (vely / len) * speed player * dt) 15 (INTERNAL_HEIGHT - 15)
      in player\<lparr>vel := \<lparr>xc = velx, yc = vely\<rparr>, pos := \<lparr>xc = px, yc = py\<rparr>\<rparr>)"

definition shotBullet :: "Vec2 \<Rightarrow> Player \<Rightarrow> Bullet" where
  "shotBullet target player =
     (let ax = xc target - xc (pos player);
          ay = yc target - yc (pos player);
          L = orOne (hypot ax ay);
          dirx = ax / L;
          diry = ay / L;
          speed = 400
      in \<lparr>pos = \<lparr>xc = xc (pos player) + dirx * 15, yc = yc (pos player) + diry * 15\<rparr>,
          vel = \<lparr>xc = dirx * speed, yc = diry * speed\<rparr>,
          radius = 2, alive = True, fromPlayer = True\<rparr>)"

definition spawned :: "State \<Rightarrow> (nat \<Rightarrow> real) \<Rightarrow> nat \<Rightarrow> Enemy" where
  "spawned env rnd n =
     (let side = \<lfloor>rnd n * 4\<rfloor>;
          p = (if side = 0 then \<lparr>xc = rnd (n + 1) * INTERNAL_WIDTH, yc = - 25\<rparr>
               else if side = 1 then \<lparr>xc = INTERNAL_WIDTH + 25, yc = rnd (n + 1) * INTERNAL_HEIGHT\<rparr>
               else if side = 2 then \<lparr>xc = rnd (n + 1) * INTERNAL_WIDTH, yc = INTERNAL_HEIGHT + 25\<rparr>
               else \<lparr>xc = - 25, yc = rnd (n + 1) * INTERNAL_HEIGHT\<rparr>)
      in \<lparr>pos = p, vel = \<lparr>xc = 0, yc = 0\<rparr>, radius = 14, alive = True,
          hp = 1 + \<lfloor>real_of_int (score env) / 800\<rfloor>, pattern = \<lfloor>rnd (n + 2) * 3\<rfloor>, t = 0\<rparr>)"

fun wave :: "State \<Rightarrow> (nat \<Rightarrow> real) \<Rightarrow> nat \<Rightarrow> nat \<Rightarrow> Enemy list" where
  "wave env rnd n 0 = []"
| "wave env rnd n (Suc k) = spawned env rnd n # wave env rnd (n + 3) k"

text \<open>The game with the not-alive bullets and enemies taken out of their collections.\<close>

definition culled :: "Game \<Rightarrow> Game" where
  "culled g = g\<lparr>bulletsRef := filter alive (bulletsRef g), enemiesRef := filter alive (enemiesRef g)\<rparr>"

text \<open>A running session with one player bullet just below one enemy, far from the player.\<close>

definition oneShot :: Game where
  "oneShot = started\<lparr>bulletsRef := [bulletAt 240 110], enemiesRef := [enemyAt 240 100 1],
     spawnTimerRef := 1\<rparr>"

text \<open>The playfield with the margin of 10 outside which \<^verbatim>\<open>update\<close> marks a bullet not-alive.\<close>

definition inBounds :: "Vec2 \<Rightarrow> bool" where
  "inBounds v \<longleftrightarrow> - 10 \<le> yc v \<and> yc v \<le> INTERNAL_HEIGHT + 10 \<and> - 10 \<le> xc v \<and> xc v \<le> INTERNAL_WIDTH + 10"

text \<open>
  The started session some time later, at timestamp 0: three enemies with 1 hit-point at
  the same place straight above the player, 26.5 away (not touching), the next wave 1 s
  away. The running loop is the one installed when the session started.
\<close>

definition threeClose :: App where
  "threeClose =
     \<lparr>game = started\<lparr>enemiesRef := [enemyAt 240 (667 / 2) 1, enemyAt 240 (667 / 2) 1,
                                      enemyAt 240 (667 / 2) 1],
                      spawnTimerRef := 1, lastTimeRef := Some 0\<rparr>,
      closure = startedEnv\<rparr>"

text \<open>
  The states the component can reach from its mounting: by a click on the start button,
  by the pause toggle, by input events (which set the keys held, the aim and the pointer
  state) and by animation frames whose timestamps do not decrease, with
  \<^verbatim>\<open>Math.random()\<close> returning values in \<open>[0, 1)\<close>.
\<close>

definition unitRandom :: "(nat \<Rightarrow> real) \<Rightarrow> bool" where
  "unitRandom rnd = (\<forall>n. 0 \<le> rnd n \<and> rnd n < 1)"

definition notBefore :: "real option \<Rightarrow> real \<Rightarrow> bool" where
  "notBefore lt now = (case lt of None \<Rightarrow> True | Some prev \<Rightarrow> prev \<le> now)"

inductive reachable :: "App \<Rightarrow> bool" where
  mount: "reachable mountedApp"
| start: "reachable a \<Longrightarrow> unitRandom rnd \<Longrightarrow> reachable (clickStart rnd a)"
| pause: "reachable a \<Longrightarrow> unitRandom rnd \<Longrightarrow> reachable (togglePause rnd a)"
| input: "reachable a \<Longrightarrow> reachable (a\<lparr>game := applyInput i (game a)\<rparr>)"
| tick: "reachable a \<Longrightarrow> unitRandom rnd \<Longrightarrow> notBefore (lastTimeRef (game a)) now \<Longrightarrow>
         reachable (frame rnd now a)"

text \<open>
  A way into contact. The random source \<open>centreRandom\<close> makes the first wave four enemies
  with 1 hit-point, the first at the middle of the top edge and three at the middle of the
  bottom edge. \<open>approach k\<close> is the session after the first frame and \<open>k\<close> more frames
  of 33 ms with the key \<^verbatim>\<open>w\<close> held: the player has gone up by \<open>5.94 k\<close>, the enemy
  from the top has come down by \<open>1.155 k\<close>, and the three from the bottom follow, at
  least 385 behind the player. In \<open>ambush\<close>, after 50 such frames, the pointer goes down
  with the aim at the top of the field; the first enemy is 30.25 above the player.
\<close>

definition centreRandom :: "nat \<Rightarrow> real" where
  "centreRandom n = (if n < 2 then 0 else 1 / 2)"

definition holdUp :: "string \<Rightarrow> bool" where
  "holdUp k = (k = ''w'')"

definition goUp :: Input where
  "goUp = \<lparr>heldKeys = holdUp, aim = \<lparr>xc = 240, yc = 240\<rparr>, pointerDown = False\<rparr>"

definition goUpFiring :: Input where
  "goUpFiring = \<lparr>heldKeys = holdUp, aim = \<lparr>xc = 240, yc = 0\<rparr>, pointerDown = True\<rparr>"

definition incoming :: "nat \<Rightarrow> Enemy" where
  "incoming k = (enemyAt 240 (- 25 + 231 / 200 * real k) 1)\<lparr>pattern := 1, t := 33 / 1000 * real k\<rparr>"

definition rear :: "nat \<Rightarrow> Enemy" where
  "rear k = (enemyAt 240 (745 - 231 / 200 * real k) 1)\<lparr>pattern := 1, t := 33 / 1000 * real k\<rparr>"

definition approach :: "nat \<Rightarrow> Game" where
  "approach k = started\<lparr>keys := holdUp, lastTimeRef := Some (33 * real k),
     timeRef := 33 / 1000 * real k, spawnTimerRef := 2 - 33 / 1000 * real k,
     randomCalls := 13,
     playerRef := Some (newPlayer\<lparr>vel := \<lparr>xc = 0, yc = - 1\<rparr>,
        pos := \<lparr>xc = 240, yc = 360 - 297 / 50 * real k\<rparr>,
        cooldown := - (33 / 1000 * real k)\<rparr>),
     enemiesRef := [incoming k, rear k, rear k, rear k]\<rparr>"

definition ambush :: App where
  "ambush = \<lparr>game = applyInput goUpFiring (approach 50), closure = startedEnv\<rparr>"

text \<open>
  The frame at 1683 ms from \<open>ambush\<close>: the player as the collision passes find them,
  the game as the bullet pass finds it and as the bullet pass leaves it.
\<close>

definition ambushPlayer :: Player where
  "ambushPlayer = newPlayer\<lparr>vel := \<lparr>xc = 0, yc = - 1\<rparr>, pos := \<lparr>xc = 240, yc = 2853 / 50\<rparr>,
     cooldown := 2 / 25\<rparr>"

definition ambushMoved :: Game where
  "ambushMoved =
     beforeCollisions startedEnv centreRandom (33 / 1000) ((game ambush)\<lparr>lastTimeRef := Some 1683\<rparr>)"

definition ambushShot :: Game where
  "ambushShot = bulletsVsEnemies centreRandom ambushMoved"

text \<open>
  After the contact. \<open>lull 0\<close> is the component after the frame at 1683 ms from
  \<open>ambush\<close>, in which the first enemy is killed and the player hit, and the release of
  the key and of the pointer; \<open>lull j\<close> is the component \<open>j\<close> frames of 33 ms later. The
  random source \<open>halfRandom\<close> makes a wave five enemies at the middle of the bottom edge.
\<close>

definition halfRandom :: "nat \<Rightarrow> real" where
  "halfRandom n = 1 / 2"

definition letGo :: Input where
  "letGo = \<lparr>heldKeys = noKeys, aim = \<lparr>xc = 240, yc = 0\<rparr>, pointerDown = False\<rparr>"

fun lull :: "nat \<Rightarrow> App" where
  "lull 0 = (frame centreRandom 1683 ambush)\<lparr>game :=
     applyInput letGo (game (frame centreRandom 1683 ambush))\<rparr>"
| "lull (Suc j) = frame halfRandom (1683 + 33 * real (Suc j)) (lull j)"

text \<open>
  What holds of \<open>lull j\<close>: the loop is the one installed at the start, the player stands
  at the start position, nothing is held, no bullet is alive, the three enemies from the
  bottom are the alive ones, the score is 100, and the spawn timer has run for \<open>j\<close> more
  frames.
\<close>

definition calm :: "nat \<Rightarrow> App \<Rightarrow> bool" where
  "calm j a \<longleftrightarrow>
     closure a = startedEnv \<and> running (game a) \<and> \<not> paused (game a) \<and> \<not> gameOver (game a) \<and>
     map_option pos (playerRef (game a)) = Some startPos \<and>
     map_option radius (playerRef (game a)) = Some 12 \<and>
     keys (game a) = noKeys \<and> \<not> firingRef (game a) \<and>
     list_all (\<lambda>b. \<not> alive b) (bulletsRef (game a)) \<and>
     filter alive (enemiesRef (game a)) = [rear (51 + j), rear (51 + j), rear (51 + j)] \<and>
     score (game a) = 100 \<and> lives (game a) = 2 \<and>
     lastTimeRef (game a) = Some (1683 + 33 * real j) \<and>
     spawnTimerRef (game a) = 317 / 1000 - 33 / 1000 * real j"

section \<open>Auxiliary facts: what each loop leaves unchanged\<close>

text \<open>A burst changes the particle collection and the random counter only.\<close>

lemma fold_emitParticle_frame:
  "fold (emitParticle rnd px py col) is g =
     g\<lparr>particlesRef := particlesRef (fold (emitParticle rnd px py col) is g),
       randomCalls := randomCalls (fold (emitParticle rnd px py col) is g)\<rparr>"
proof (induction "is" arbitrary: g)
  case Nil
  show ?case by simp
next
  case (Cons i "is")
  let ?g1 = "emitParticle rnd px py col i g"
  let ?r = "fold (emitParticle rnd px py col) is ?g1"
  have "?r = ?g1\<lparr>particlesRef := particlesRef ?r, randomCalls := randomCalls ?r\<rparr>"
    by (rule Cons.IH)
  also have "\<dots> = g\<lparr>particlesRef := particlesRef ?r, randomCalls := randomCalls ?r\<rparr>"
    by (simp add: emitParticle_def Let_def)
  finally show ?case by simp
qed

lemma emitExplosion_frame:
  "emitExplosion rnd px py col g =
     g\<lparr>particlesRef := particlesRef (emitExplosion rnd px py col g),
       randomCalls := randomCalls (emitExplosion rnd px py col g)\<rparr>"
  unfolding emitExplosion_def by (rule fold_emitParticle_frame)

lemma emitExplosion_fields [simp]:
  "running (emitExplosion rnd px py col g) = running g"
  "paused (emitExplosion rnd px py col g) = paused g"
  "gameOver (emitExplosion rnd px py col g) = gameOver g"
  "score (emitExplosion rnd px py col g) = score g"
  "lives (emitExplosion rnd px py col g) = lives g"
  "keys (emitExplosion rnd px py col g) = keys g"
  "playerRef (emitExplosion rnd px py col g) = playerRef g"
  "bulletsRef (emitExplosion rnd px py col g) = bulletsRef g"
  "enemiesRef (emitExplosion rnd px py col g) = enemiesRef g"
  "timeRef (emitExplosion rnd px py col g) = timeRef g"
  "lastTimeRef (emitExplosion rnd px py col g) = lastTimeRef g"
  "spawnTimerRef (emitExplosion rnd px py col g) = spawnTimerRef g"
  "aimRef (emitExplosion rnd px py col g) = aimRef g"
  "firingRef (emitExplosion rnd px py col g) = firingRef g"
  by (subst emitExplosion_frame, simp)+

text \<open>The player-hit procedure, field by field.\<close>

lemma hitPlayer_fields [simp]:
  "lives (hitPlayer env rnd p g) = lives g - 1"
  "score (hitPlayer env rnd p g) = score g"
  "paused (hitPlayer env rnd p g) = paused g"
  "keys (hitPlayer env rnd p g) = keys g"
  "bulletsRef (hitPlayer env rnd p g) = bulletsRef g"
  "enemiesRef (hitPlayer env rnd p g) = enemiesRef g"
  "timeRef (hitPlayer env rnd p g) = timeRef g"
  "lastTimeRef (hitPlayer env rnd p g) = lastTimeRef g"
  "spawnTimerRef (hitPlayer env rnd p g) = spawnTimerRef g"
  "aimRef (hitPlayer env rnd p g) = aimRef g"
  "firingRef (hitPlayer env rnd p g) = firingRef g"
  by (simp_all add: hitPlayer_def Let_def)

lemma hitPlayer_flags [simp]:
  "gameOver (hitPlayer env rnd p g) = (lives env - 1 \<le> 0 \<or> gameOver g)"
  "running (hitPlayer env rnd p g) = (\<not> lives env - 1 \<le> 0 \<and> running g)"
  "playerRef (hitPlayer env rnd p g) =
     Some (if lives env - 1 \<le> 0 then p\<lparr>alive := False\<rparr> else p\<lparr>pos := startPos\<rparr>)"
  by (simp_all add: hitPlayer_def Let_def)

text \<open>Wave generation changes the enemy collection and the random counter only.\<close>

lemma spawnLoop_frame:
  "spawnLoop env rnd k g =
     g\<lparr>enemiesRef := enemiesRef (spawnLoop env rnd k g),
       randomCalls := randomCalls (spawnLoop env rnd k g)\<rparr>"
proof (induction k arbitrary: g)
  case 0
  show ?case by simp
next
  case (Suc k)
  let ?g1 = "spawnEnemy env rnd g"
  let ?r = "spawnLoop env rnd k ?g1"
  have "?r = ?g1\<lparr>enemiesRef := enemiesRef ?r, randomCalls := randomCalls ?r\<rparr>"
    by (rule Suc.IH)
  also have "\<dots> = g\<lparr>enemiesRef := enemiesRef ?r, randomCalls := randomCalls ?r\<rparr>"
    by (simp add: spawnEnemy_def Let_def)
  finally show ?case by simp
qed

lemma spawnWave_frame:
  "spawnWave env rnd g =
     g\<lparr>enemiesRef := enemiesRef (spawnWave env rnd g),
       randomCalls := randomCalls (spawnWave env rnd g)\<rparr>"
proof -
  let ?g1 = "g\<lparr>randomCalls := randomCalls g + 1\<rparr>"
  let ?k = "nat (4 + \<lfloor>rnd (randomCalls g) * 3\<rfloor> + \<lfloor>real_of_int (score env) / 500\<rfloor>)"
  have eq: "spawnWave env rnd g = spawnLoop env rnd ?k ?g1"
    by (simp add: spawnWave_def Let_def)
  have "spawnLoop env rnd ?k ?g1 =
          ?g1\<lparr>enemiesRef := enemiesRef (spawnLoop env rnd ?k ?g1),
               randomCalls := randomCalls (spawnLoop env rnd ?k ?g1)\<rparr>"
    by (rule spawnLoop_frame)
  then show ?thesis unfolding eq by simp
qed

lemma spawnWave_fields [simp]:
  "running (spawnWave env rnd g) = running g"
  "paused (spawnWave env rnd g) = paused g"
  "gameOver (spawnWave env rnd g) = gameOver g"
  "score (spawnWave env rnd g) = score g"
  "lives (spawnWave env rnd g) = lives g"
  "keys (spawnWave env rnd g) = keys g"
  "playerRef (spawnWave env rnd g) = playerRef g"
  "bulletsRef (spawnWave env rnd g) = bulletsRef g"
  "particlesRef (spawnWave env rnd g) = particlesRef g"
  "timeRef (spawnWave env rnd g) = timeRef g"
  "lastTimeRef (spawnWave env rnd g) = lastTimeRef g"
  "spawnTimerRef (spawnWave env rnd g) = spawnTimerRef g"
  "aimRef (spawnWave env rnd g) = aimRef g"
  "firingRef (spawnWave env rnd g) = firingRef g"
  by (subst spawnWave_frame, simp)+

text \<open>The bullet pass changes the particles, the random counter and the score only.\<close>

lemma scanEnemies_frame:
  "scanEnemies rnd b es g = (b', es', g') \<Longrightarrow>
     g' = g\<lparr>score := score g', particlesRef := particlesRef g', randomCalls := randomCalls g'\<rparr>"
proof (induction es arbitrary: es')
  case Nil
  then show ?case by simp
next
  case (Cons e es)
  show ?case
  proof (cases "dist2 (pos b) (pos e) \<le> (radius b + radius e) * (radius b + radius e)")
    case True
    let ?e1 = "e\<lparr>hp := hp e - 1\<rparr>"
    let ?g1 = "emitExplosion rnd (xc (pos ?e1)) (yc (pos ?e1)) ''hsl(var(--accent))'' g"
    let ?g2 = "emitExplosion rnd (xc (pos ?e1)) (yc (pos ?e1)) ''hsl(var(--primary))''
                 (?g1\<lparr>score := score ?g1 + 100\<rparr>)"
    have g1: "?g1 = g\<lparr>particlesRef := particlesRef ?g1, randomCalls := randomCalls ?g1\<rparr>"
      by (rule emitExplosion_frame)
    have g2: "?g2 = (?g1\<lparr>score := score ?g1 + 100\<rparr>)\<lparr>particlesRef := particlesRef ?g2,
                randomCalls := randomCalls ?g2\<rparr>"
      by (rule emitExplosion_frame)
    from Cons.prems True have "g' = ?g1 \<or> g' = ?g2"
      by (auto simp: Let_def split: if_splits)
    then show ?thesis
    proof
      assume "g' = ?g1"
      then show ?thesis using g1 by simp
    next
      assume eq: "g' = ?g2"
      have "?g2 = g\<lparr>score := score ?g2, particlesRef := particlesRef ?g2,
                randomCalls := randomCalls ?g2\<rparr>"
        by (subst g2, subst g1, simp)
      then show ?thesis using eq by simp
    qed
  next
    case False
    with Cons.prems obtain es1 where "scanEnemies rnd b es g = (b', es1, g')"
      by (auto simp: Let_def split: prod.splits)
    then show ?thesis by (rule Cons.IH)
  qed
qed

lemma bulletLoop_frame:
  "bulletLoop rnd bs es g = (bs', es', g') \<Longrightarrow>
     g' = g\<lparr>score := score g', particlesRef := particlesRef g', randomCalls := randomCalls g'\<rparr>"
proof (induction bs arbitrary: es g bs')
  case Nil
  then show ?case by simp
next
  case (Cons b bs)
  show ?case
  proof (cases "fromPlayer b")
    case False
    with Cons.prems obtain bs1 where "bulletLoop rnd bs es g = (bs1, es', g')"
      by (auto split: prod.splits)
    then show ?thesis by (rule Cons.IH)
  next
    case True
    with Cons.prems obtain b1 es1 g1 bs1 where
      s: "scanEnemies rnd b es g = (b1, es1, g1)" and
      l: "bulletLoop rnd bs es1 g1 = (bs1, es', g')"
      by (auto split: prod.splits)
    from s have f1: "g1 = g\<lparr>score := score g1, particlesRef := particlesRef g1,
        randomCalls := randomCalls g1\<rparr>"
      by (rule scanEnemies_frame)
    from l have f2: "g' = g1\<lparr>score := score g', particlesRef := particlesRef g',
        randomCalls := randomCalls g'\<rparr>"
      by (rule Cons.IH)
    show ?thesis by (subst f2, subst f1, simp)
  qed
qed

lemma bulletsVsEnemies_frame:
  "bulletsVsEnemies rnd g =
     g\<lparr>score := score (bulletsVsEnemies rnd g),
       bulletsRef := bulletsRef (bulletsVsEnemies rnd g),
       enemiesRef := enemiesRef (bulletsVsEnemies rnd g),
       particlesRef := particlesRef (bulletsVsEnemies rnd g),
       randomCalls := randomCalls (bulletsVsEnemies rnd g)\<rparr>"
proof -
  obtain bs es g' where l: "bulletLoop rnd (bulletsRef g) (enemiesRef g) g = (bs, es, g')"
    by (metis prod_cases3)
  then have r: "bulletsVsEnemies rnd g = g'\<lparr>bulletsRef := bs, enemiesRef := es\<rparr>"
    by (simp add: bulletsVsEnemies_def)
  from l have f: "g' = g\<lparr>score := score g', particlesRef := particlesRef g',
      randomCalls := randomCalls g'\<rparr>"
    by (rule bulletLoop_frame)
  show ?thesis unfolding r by (subst f, simp)
qed

lemma bulletsVsEnemies_fields [simp]:
  "running (bulletsVsEnemies rnd g) = running g"
  "paused (bulletsVsEnemies rnd g) = paused g"
  "gameOver (bulletsVsEnemies rnd g) = gameOver g"
  "lives (bulletsVsEnemies rnd g) = lives g"
  "keys (bulletsVsEnemies rnd g) = keys g"
  "playerRef (bulletsVsEnemies rnd g) = playerRef g"
  "timeRef (bulletsVsEnemies rnd g) = timeRef g"
  "lastTimeRef (bulletsVsEnemies rnd g) = lastTimeRef g"
  "spawnTimerRef (bulletsVsEnemies rnd g) = spawnTimerRef g"
  "aimRef (bulletsVsEnemies rnd g) = aimRef g"
  "firingRef (bulletsVsEnemies rnd g) = firingRef g"
  by (subst bulletsVsEnemies_frame, simp)+

text \<open>The player pass either changes nothing or calls the player-hit procedure once.\<close>

lemma playerLoop_cases:
  "playerLoop env rnd p es g = (es', g') \<Longrightarrow> g' = g \<or> g' = hitPlayer env rnd p g"
proof (induction es arbitrary: es')
  case Nil
  then show ?case by simp
next
  case (Cons e es)
  then show ?case
    by (auto simp: Let_def split: if_splits prod.splits)
qed

lemma enemiesVsPlayer_cases:
  assumes "playerRef g = Some p"
  obtains es where "enemiesVsPlayer env rnd g = g\<lparr>enemiesRef := es\<rparr>"
  | es where "enemiesVsPlayer env rnd g = (hitPlayer env rnd p g)\<lparr>enemiesRef := es\<rparr>"
proof -
  obtain es g' where l: "playerLoop env rnd p (enemiesRef g) g = (es, g')"
    by (metis surj_pair)
  with assms have r: "enemiesVsPlayer env rnd g = g'\<lparr>enemiesRef := es\<rparr>"
    by (simp add: enemiesVsPlayer_def)
  from l have "g' = g \<or> g' = hitPlayer env rnd p g"
    by (rule playerLoop_cases)
  with r that show thesis by blast
qed

lemma enemiesVsPlayer_None [simp]:
  "playerRef g = None \<Longrightarrow> enemiesVsPlayer env rnd g = g"
  by (simp add: enemiesVsPlayer_def)

lemma emitExplosion_obtain:
  obtains ps n where
    "emitExplosion rnd px py col g = g\<lparr>particlesRef := ps, randomCalls := n\<rparr>"
  using emitExplosion_frame by blast

lemma hitPlayer_frame:
  "hitPlayer env rnd p g =
     g\<lparr>running := running (hitPlayer env rnd p g),
       gameOver := gameOver (hitPlayer env rnd p g),
       lives := lives (hitPlayer env rnd p g),
       playerRef := playerRef (hitPlayer env rnd p g),
       particlesRef := particlesRef (hitPlayer env rnd p g),
       randomCalls := randomCalls (hitPlayer env rnd p g)\<rparr>"
proof -
  obtain ps n where
    e: "emitExplosion rnd (xc (pos p)) (yc (pos p)) ''hsl(var(--destructive))'' g =
          g\<lparr>particlesRef := ps, randomCalls := n\<rparr>"
    by (rule emitExplosion_obtain)
  show ?thesis by (simp add: hitPlayer_def Let_def e)
qed

lemma enemiesVsPlayer_frame:
  "enemiesVsPlayer env rnd g =
     g\<lparr>running := running (enemiesVsPlayer env rnd g),
       gameOver := gameOver (enemiesVsPlayer env rnd g),
       lives := lives (enemiesVsPlayer env rnd g),
       playerRef := playerRef (enemiesVsPlayer env rnd g),
       enemiesRef := enemiesRef (enemiesVsPlayer env rnd g),
       particlesRef := particlesRef (enemiesVsPlayer env rnd g),
       randomCalls := randomCalls (enemiesVsPlayer env rnd g)\<rparr>"
proof (cases "playerRef g")
  case None
  then show ?thesis by simp
next
  case (Some p)
  obtain es g' where l: "playerLoop env rnd p (enemiesRef g) g = (es, g')"
    by (metis surj_pair)
  with Some have r: "enemiesVsPlayer env rnd g = g'\<lparr>enemiesRef := es\<rparr>"
    by (simp add: enemiesVsPlayer_def)
  obtain ps n where
    e: "emitExplosion rnd (xc (pos p)) (yc (pos p)) ''hsl(var(--destructive))'' g =
          g\<lparr>particlesRef := ps, randomCalls := n\<rparr>"
    by (rule emitExplosion_obtain)
  from l have "g' = g \<or> g' = hitPlayer env rnd p g"
    by (rule playerLoop_cases)
  then show ?thesis
  proof
    assume "g' = g"
    then show ?thesis unfolding r by simp
  next
    assume "g' = hitPlayer env rnd p g"
    then show ?thesis unfolding r by (simp add: hitPlayer_def Let_def e)
  qed
qed

lemma enemiesVsPlayer_fields [simp]:
  "score (enemiesVsPlayer env rnd g) = score g"
  "paused (enemiesVsPlayer env rnd g) = paused g"
  "keys (enemiesVsPlayer env rnd g) = keys g"
  "bulletsRef (enemiesVsPlayer env rnd g) = bulletsRef g"
  "timeRef (enemiesVsPlayer env rnd g) = timeRef g"
  "lastTimeRef (enemiesVsPlayer env rnd g) = lastTimeRef g"
  "spawnTimerRef (enemiesVsPlayer env rnd g) = spawnTimerRef g"
  "aimRef (enemiesVsPlayer env rnd g) = aimRef g"
  "firingRef (enemiesVsPlayer env rnd g) = firingRef g"
  by (subst enemiesVsPlayer_frame, simp)+

text \<open>The blocks that are plain record updates.\<close>

lemma movePlayer_frame:
  "movePlayer dt g = g\<lparr>playerRef := playerRef (movePlayer dt g)\<rparr>"
  by (simp add: movePlayer_def Let_def split: option.splits)

lemma shoot_frame:
  "shoot dt g = g\<lparr>playerRef := playerRef (shoot dt g), bulletsRef := bulletsRef (shoot dt g)\<rparr>"
  by (simp add: shoot_def Let_def split: option.splits)

lemma spawnEnemies_frame:
  "spawnEnemies env rnd dt g =
     g\<lparr>enemiesRef := enemiesRef (spawnEnemies env rnd dt g),
       spawnTimerRef := spawnTimerRef (spawnEnemies env rnd dt g),
       randomCalls := randomCalls (spawnEnemies env rnd dt g)\<rparr>"
proof -
  let ?g1 = "g\<lparr>spawnTimerRef := spawnTimerRef g - dt\<rparr>"
  obtain es n where w: "spawnWave env rnd ?g1 = ?g1\<lparr>enemiesRef := es, randomCalls := n\<rparr>"
    using spawnWave_frame by blast
  show ?thesis by (simp add: spawnEnemies_def Let_def w)
qed

lemma movePlayer_fields [simp]:
  "running (movePlayer dt g) = running g"
  "paused (movePlayer dt g) = paused g"
  "gameOver (movePlayer dt g) = gameOver g"
  "score (movePlayer dt g) = score g"
  "lives (movePlayer dt g) = lives g"
  "keys (movePlayer dt g) = keys g"
  "bulletsRef (movePlayer dt g) = bulletsRef g"
  "enemiesRef (movePlayer dt g) = enemiesRef g"
  "particlesRef (movePlayer dt g) = particlesRef g"
  "timeRef (movePlayer dt g) = timeRef g"
  "lastTimeRef (movePlayer dt g) = lastTimeRef g"
  "spawnTimerRef (movePlayer dt g) = spawnTimerRef g"
  "aimRef (movePlayer dt g) = aimRef g"
  "firingRef (movePlayer dt g) = firingRef g"
  "randomCalls (movePlayer dt g) = randomCalls g"
  by (subst movePlayer_frame, simp)+

lemma shoot_fields [simp]:
  "running (shoot dt g) = running g"
  "paused (shoot dt g) = paused g"
  "gameOver (shoot dt g) = gameOver g"
  "score (shoot dt g) = score g"
  "lives (shoot dt g) = lives g"
  "keys (shoot dt g) = keys g"
  "enemiesRef (shoot dt g) = enemiesRef g"
  "particlesRef (shoot dt g) = particlesRef g"
  "timeRef (shoot dt g) = timeRef g"
  "lastTimeRef (shoot dt g) = lastTimeRef g"
  "spawnTimerRef (shoot dt g) = spawnTimerRef g"
  "aimRef (shoot dt g) = aimRef g"
  "firingRef (shoot dt g) = firingRef g"
  "randomCalls (shoot dt g) = randomCalls g"
  by (subst shoot_frame, simp)+

lemma spawnEnemies_fields [simp]:
  "running (spawnEnemies env rnd dt g) = running g"
  "paused (spawnEnemies env rnd dt g) = paused g"
  "gameOver (spawnEnemies env rnd dt g) = gameOver g"
  "score (spawnEnemies env rnd dt g) = score g"
  "lives (spawnEnemies env rnd dt g) = lives g"
  "keys (spawnEnemies env rnd dt g) = keys g"
  "playerRef (spawnEnemies env rnd dt g) = playerRef g"
  "bulletsRef (spawnEnemies env rnd dt g) = bulletsRef g"
  "particlesRef (spawnEnemies env rnd dt g) = particlesRef g"
  "timeRef (spawnEnemies env rnd dt g) = timeRef g"
  "lastTimeRef (spawnEnemies env rnd dt g) = lastTimeRef g"
  "aimRef (spawnEnemies env rnd dt g) = aimRef g"
  "firingRef (spawnEnemies env rnd dt g) = firingRef g"
  by (subst spawnEnemies_frame, simp)+

lemma updateBullets_fields [simp]:
  "running (updateBullets dt g) = running g"
  "paused (updateBullets dt g) = paused g"
  "gameOver (updateBullets dt g) = gameOver g"
  "score (updateBullets dt g) = score g"
  "lives (updateBullets dt g) = lives g"
  "keys (updateBullets dt g) = keys g"
  "playerRef (updateBullets dt g) = playerRef g"
  "enemiesRef (updateBullets dt g) = enemiesRef g"
  "particlesRef (updateBullets dt g) = particlesRef g"
  "timeRef (updateBullets dt g) = timeRef g"
  "lastTimeRef (updateBullets dt g) = lastTimeRef g"
  "spawnTimerRef (updateBullets dt g) = spawnTimerRef g"
  "aimRef (updateBullets dt g) = aimRef g"
  "firingRef (updateBullets dt g) = firingRef g"
  "randomCalls (updateBullets dt g) = randomCalls g"
  by (simp_all add: updateBullets_def)

lemma updateEnemies_fields [simp]:
  "running (updateEnemies env dt g) = running g"
  "paused (updateEnemies env dt g) = paused g"
  "gameOver (updateEnemies env dt g) = gameOver g"
  "score (updateEnemies env dt g) = score g"
  "lives (updateEnemies env dt g) = lives g"
  "keys (updateEnemies env dt g) = keys g"
  "playerRef (updateEnemies env dt g) = playerRef g"
  "bulletsRef (updateEnemies env dt g) = bulletsRef g"
  "particlesRef (updateEnemies env dt g) = particlesRef g"
  "timeRef (updateEnemies env dt g) = timeRef g"
  "lastTimeRef (updateEnemies env dt g) = lastTimeRef g"
  "spawnTimerRef (updateEnemies env dt g) = spawnTimerRef g"
  "aimRef (updateEnemies env dt g) = aimRef g"
  "firingRef (updateEnemies env dt g) = firingRef g"
  "randomCalls (updateEnemies env dt g) = randomCalls g"
  by (simp_all add: updateEnemies_def)

lemma updateParticles_fields [simp]:
  "running (updateParticles dt g) = running g"
  "paused (updateParticles dt g) = paused g"
  "gameOver (updateParticles dt g) = gameOver g"
  "score (updateParticles dt g) = score g"
  "lives (updateParticles dt g) = lives g"
  "keys (updateParticles dt g) = keys g"
  "playerRef (updateParticles dt g) = playerRef g"
  "bulletsRef (updateParticles dt g) = bulletsRef g"
  "enemiesRef (updateParticles dt g) = enemiesRef g"
  "timeRef (updateParticles dt g) = timeRef g"
  "lastTimeRef (updateParticles dt g) = lastTimeRef g"
  "spawnTimerRef (updateParticles dt g) = spawnTimerRef g"
  "aimRef (updateParticles dt g) = aimRef g"
  "firingRef (updateParticles dt g) = firingRef g"
  "randomCalls (updateParticles dt g) = randomCalls g"
  by (simp_all add: updateParticles_def)

section \<open>The player through one step\<close>

lemma clamp_between: "mn \<le> mx \<Longrightarrow> mn \<le> clamp v mn mx \<and> clamp v mn mx \<le> mx"
  by (simp add: clamp_def)

lemma movePlayer_pos:
  "playerRef g = Some p \<Longrightarrow>
     \<exists>p' a b. playerRef (movePlayer dt g) = Some p' \<and>
       pos p' = \<lparr>xc = clamp a 15 (INTERNAL_WIDTH - 15), yc = clamp b 15 (INTERNAL_HEIGHT - 15)\<rparr>"
  unfolding movePlayer_def Let_def by (simp del: One_nat_def) blast

lemma movePlayer_inField:
  assumes "playerRef g = Some p"
  shows "\<exists>p'. playerRef (movePlayer dt g) = Some p' \<and> inField (pos p')"
proof -
  from movePlayer_pos [OF assms, of dt] obtain p' a b where
    p': "playerRef (movePlayer dt g) = Some p'" and
    xy: "pos p' = \<lparr>xc = clamp a 15 (INTERNAL_WIDTH - 15), yc = clamp b 15 (INTERNAL_HEIGHT - 15)\<rparr>"
    by blast
  have "inField (pos p')"
    unfolding xy inField_def
    using clamp_between [of 15 "INTERNAL_WIDTH - 15" a] clamp_between [of 15 "INTERNAL_HEIGHT - 15" b]
    by (simp add: INTERNAL_WIDTH_def INTERNAL_HEIGHT_def)
  with p' show ?thesis by blast
qed

lemma shoot_pos:
  "map_option pos (playerRef (shoot dt g)) = map_option pos (playerRef g)"
  by (simp add: shoot_def Let_def split: option.splits)

lemma startPos_inField: "inField startPos"
  by (simp add: inField_def startPos_def INTERNAL_WIDTH_def INTERNAL_HEIGHT_def)

lemma enemiesVsPlayer_player:
  assumes "playerRef g = Some p"
  shows "playerRef (enemiesVsPlayer env rnd g) = Some p \<or>
         playerRef (enemiesVsPlayer env rnd g) = playerRef (hitPlayer env rnd p g)"
proof (rule enemiesVsPlayer_cases [OF assms, of env rnd])
  fix es
  assume "enemiesVsPlayer env rnd g = g\<lparr>enemiesRef := es\<rparr>"
  with assms show ?thesis by simp
next
  fix es
  assume "enemiesVsPlayer env rnd g = (hitPlayer env rnd p g)\<lparr>enemiesRef := es\<rparr>"
  then show ?thesis by simp
qed

lemma hitPlayer_inField:
  "inField (pos p) \<Longrightarrow> \<exists>p'. playerRef (hitPlayer env rnd p g) = Some p' \<and> inField (pos p')"
  by (simp add: startPos_inField)


lemma update_inField:
  assumes "playerRef g = Some p"
  shows "\<exists>p'. playerRef (update env rnd dt g) = Some p' \<and> inField (pos p')"
proof -
  let ?g1 = "g\<lparr>timeRef := timeRef g + dt\<rparr>"
  let ?g7 = "bulletsVsEnemies rnd (updateEnemies env dt (spawnEnemies env rnd dt
               (updateBullets dt (shoot dt (movePlayer dt ?g1)))))"
  from assms have "playerRef ?g1 = Some p" by simp
  then obtain p2 where p2: "playerRef (movePlayer dt ?g1) = Some p2" and in2: "inField (pos p2)"
    using movePlayer_inField by blast
  from p2 shoot_pos [of dt "movePlayer dt ?g1"]
  obtain p3 where p3: "playerRef (shoot dt (movePlayer dt ?g1)) = Some p3" and "pos p3 = pos p2"
    by (cases "playerRef (shoot dt (movePlayer dt ?g1))") auto
  with in2 have in3: "inField (pos p3)" by simp
  from p3 have p7: "playerRef ?g7 = Some p3" by simp
  have u: "update env rnd dt g = updateParticles dt (enemiesVsPlayer env rnd ?g7)"
    using assms by (simp add: update_def Let_def)
  from enemiesVsPlayer_player [OF p7, of env rnd]
  have "\<exists>p'. playerRef (enemiesVsPlayer env rnd ?g7) = Some p' \<and> inField (pos p')"
  proof
    assume "playerRef (enemiesVsPlayer env rnd ?g7) = Some p3"
    with in3 show ?thesis by blast
  next
    assume "playerRef (enemiesVsPlayer env rnd ?g7) = playerRef (hitPlayer env rnd p3 ?g7)"
    with hitPlayer_inField [OF in3, of env rnd ?g7] show ?thesis by simp
  qed
  then show ?thesis
    unfolding u by simp
qed

text \<open>
  Claim C4. Whatever keys are held and whatever \<open>dt\<close> is, the player's position after a
  step lies in \<open>[15, 465] \<times> [15, 705]\<close>, the 480 by 720 playfield minus the margin of 15:
  the movement block clamps to it, the player-hit reposition keeps it, and so does the
  whole step.
\<close>

theorem player_stays_in_field:
  assumes "playerRef g = Some p"
  shows "(\<exists>p'. playerRef (movePlayer dt g) = Some p' \<and> inField (pos p')) \<and>
         (inField (pos p) \<longrightarrow>
            (\<exists>p'. playerRef (hitPlayer env rnd p g) = Some p' \<and> inField (pos p'))) \<and>
         (\<exists>p'. playerRef (update env rnd dt g) = Some p' \<and> inField (pos p'))"
  using assms movePlayer_inField hitPlayer_inField update_inField by blast

text \<open>The fields of the started session.\<close>

lemma started_simps [simp]:
  "running started" "\<not> paused started" "\<not> gameOver started"
  "score started = 0" "lives started = 3" "keys started = noKeys"
  "playerRef started = Some newPlayer" "bulletsRef started = []" "enemiesRef started = []"
  "particlesRef started = []" "timeRef started = 0" "lastTimeRef started = None"
  "spawnTimerRef started = 0"
  "aimRef started = \<lparr>xc = INTERNAL_WIDTH / 2, yc = INTERNAL_HEIGHT / 2 - 120\<rparr>"
  "\<not> firingRef started" "randomCalls started = 0"
  by (simp_all add: started_def initGame_def mounted_def)

lemma startedEnv_simps [simp]:
  "running startedEnv" "\<not> paused startedEnv" "\<not> gameOver startedEnv"
  "score startedEnv = 0" "lives startedEnv = 3"
  by (simp_all add: startedEnv_def snapshot_def)

text \<open>
  The hypothesis holds for the session just started, stepped by 16 ms.
\<close>

theorem player_stays_in_field_witness:
  "playerRef started = Some newPlayer \<and> inField (pos newPlayer) \<and>
   (\<exists>p'. playerRef (movePlayer (16 / 1000) started) = Some p' \<and> inField (pos p')) \<and>
   (\<exists>p'. playerRef (hitPlayer startedEnv zeroRandom newPlayer started) = Some p' \<and> inField (pos p')) \<and>
   (\<exists>p'. playerRef (update startedEnv zeroRandom (16 / 1000) started) = Some p' \<and> inField (pos p'))"
proof -
  have h: "playerRef started = Some newPlayer" by simp
  have i: "inField (pos newPlayer)" by (simp add: newPlayer_def startPos_inField)
  show ?thesis
    using h i player_stays_in_field [OF h, of "16 / 1000" startedEnv zeroRandom] by blast
qed

section \<open>The spawn timer\<close>

lemma spawnLoop_length:
  "length (enemiesRef (spawnLoop env rnd k g)) = length (enemiesRef g) + k"
  by (induction k arbitrary: g) (simp_all add: spawnEnemy_def Let_def)

lemma spawnWave_length:
  "length (enemiesRef (spawnWave env rnd g)) =
     length (enemiesRef g) + nat (4 + \<lfloor>rnd (randomCalls g) * 3\<rfloor> + \<lfloor>real_of_int (score env) / 500\<rfloor>)"
  by (simp add: spawnWave_def Let_def spawnLoop_length)

lemma update_spawnTimer:
  "playerRef g \<noteq> None \<Longrightarrow>
     spawnTimerRef (update env rnd dt g) =
       (if spawnTimerRef g - dt \<le> 0 then spawnInterval (score env) else spawnTimerRef g - dt)"
  by (auto simp: update_def Let_def spawnEnemies_def)

text \<open>
  The spawn block. When the spawn timer, decremented by \<open>dt\<close>, is at or below 0, the
  block generates a wave (of \<open>4 + \<lfloor>3 r\<rfloor> + \<lfloor>score / 500\<rfloor>\<close> enemies) and resets the timer
  to \<open>max 0.8 (2.0 - 0.001 score)\<close>, which is also the timer after the whole step; this
  value does not increase when the score grows and is never below 0.8. The score read
  is the one of the render \<open>env\<close> that \<^verbatim>\<open>update\<close> belongs to, not the score cell.
\<close>

lemma spawnEnemies_reset:
  assumes "spawnTimerRef g - dt \<le> 0"
  shows "spawnEnemies env rnd dt g =
           (spawnWave env rnd (g\<lparr>spawnTimerRef := spawnTimerRef g - dt\<rparr>))
             \<lparr>spawnTimerRef := max 0.8 (2.0 - real_of_int (score env) * 0.001)\<rparr> \<and>
         length (enemiesRef (spawnEnemies env rnd dt g)) =
           length (enemiesRef g) +
           nat (4 + \<lfloor>rnd (randomCalls g) * 3\<rfloor> + \<lfloor>real_of_int (score env) / 500\<rfloor>) \<and>
         (playerRef g \<noteq> None \<longrightarrow>
           spawnTimerRef (update env rnd dt g) = max 0.8 (2.0 - real_of_int (score env) * 0.001)) \<and>
         (sc \<le> sc' \<longrightarrow>
           max 0.8 (2.0 - real_of_int sc' * 0.001) \<le> max 0.8 (2.0 - real_of_int sc * 0.001)) \<and>
         0.8 \<le> max (0.8 :: real) (2.0 - real_of_int sc * 0.001)"
proof (intro conjI)
  show w: "spawnEnemies env rnd dt g =
           (spawnWave env rnd (g\<lparr>spawnTimerRef := spawnTimerRef g - dt\<rparr>))
             \<lparr>spawnTimerRef := max 0.8 (2.0 - real_of_int (score env) * 0.001)\<rparr>"
    using assms by (simp add: spawnEnemies_def Let_def spawnInterval_def)
  show "length (enemiesRef (spawnEnemies env rnd dt g)) =
           length (enemiesRef g) +
           nat (4 + \<lfloor>rnd (randomCalls g) * 3\<rfloor> + \<lfloor>real_of_int (score env) / 500\<rfloor>)"
    unfolding w by (simp add: spawnWave_length)
  show "playerRef g \<noteq> None \<longrightarrow>
           spawnTimerRef (update env rnd dt g) = max 0.8 (2.0 - real_of_int (score env) * 0.001)"
    using assms by (simp add: update_spawnTimer spawnInterval_def)
  show "sc \<le> sc' \<longrightarrow>
           max 0.8 (2.0 - real_of_int sc' * 0.001) \<le> max 0.8 (2.0 - real_of_int sc * 0.001)"
    by auto
  show "0.8 \<le> max (0.8 :: real) (2.0 - real_of_int sc * 0.001)"
    by simp
qed

section \<open>Movement\<close>

lemma movePlayer_Some:
  assumes "playerRef g = Some p"
  shows "\<exists>vx vy. movePlayer dt g =
           g\<lparr>playerRef := Some (p\<lparr>vel := \<lparr>xc = vx, yc = vy\<rparr>,
                   pos := \<lparr>xc = clamp (xc (pos p) + (vx / orOne (hypot vx vy)) * speed p * dt)
                                  15 (INTERNAL_WIDTH - 15),
                           yc = clamp (yc (pos p) + (vy / orOne (hypot vx vy)) * speed p * dt)
                                  15 (INTERNAL_HEIGHT - 15)\<rparr>\<rparr>)\<rparr>"
  unfolding movePlayer_def Let_def assms option.case
  by (intro exI) (rule refl)

lemma movePlayer_result:
  assumes "playerRef g = Some p" and "playerRef (movePlayer dt g) = Some p'"
  shows "pos p' =
           \<lparr>xc = clamp (xc (pos p) + (xc (vel p') / orOne (hypot (xc (vel p')) (yc (vel p')))) * speed p * dt)
                   15 (INTERNAL_WIDTH - 15),
            yc = clamp (yc (pos p) + (yc (vel p') / orOne (hypot (xc (vel p')) (yc (vel p')))) * speed p * dt)
                   15 (INTERNAL_HEIGHT - 15)\<rparr>"
proof -
  from movePlayer_Some [OF assms(1), of dt] obtain vx vy where
    "movePlayer dt g =
           g\<lparr>playerRef := Some (p\<lparr>vel := \<lparr>xc = vx, yc = vy\<rparr>,
                   pos := \<lparr>xc = clamp (xc (pos p) + (vx / orOne (hypot vx vy)) * speed p * dt)
                                  15 (INTERNAL_WIDTH - 15),
                           yc = clamp (yc (pos p) + (vy / orOne (hypot vx vy)) * speed p * dt)
                                  15 (INTERNAL_HEIGHT - 15)\<rparr>\<rparr>)\<rparr>"
    by blast
  with assms(2) have "p' = p\<lparr>vel := \<lparr>xc = vx, yc = vy\<rparr>,
                   pos := \<lparr>xc = clamp (xc (pos p) + (vx / orOne (hypot vx vy)) * speed p * dt)
                                  15 (INTERNAL_WIDTH - 15),
                           yc = clamp (yc (pos p) + (vy / orOne (hypot vx vy)) * speed p * dt)
                                  15 (INTERNAL_HEIGHT - 15)\<rparr>\<rparr>"
    by simp
  then show ?thesis by simp
qed

lemma clamp_inside: "mn < clamp v mn mx \<Longrightarrow> clamp v mn mx < mx \<Longrightarrow> clamp v mn mx = v"
  by (auto simp: clamp_def max_def min_def split: if_splits)

lemma hypot_diagonal: "hypot a a = \<bar>a\<bar> * sqrt 2"
proof -
  have "a * a + a * a = a\<^sup>2 * 2" by (simp add: power2_eq_square)
  then show ?thesis by (simp add: hypot_def real_sqrt_mult)
qed

lemma hypot_axial: "hypot a 0 = \<bar>a\<bar>"
  by (simp add: hypot_def flip: power2_eq_square)


text \<open>
  Claim C9. Take the same player in two games, one stepped with movement intent
  \<open>(1, 1)\<close> and one with intent \<open>(1, 0)\<close> (the intent is what the step stores in
  \<^verbatim>\<open>player.vel\<close>), by the same \<open>dt\<close>, both ending strictly inside the clamp range, so that
  the clamp did not act. Then the two displacements have the same length,
  \<open>\<bar>speed * dt\<bar>\<close>. Lengths are taken over the reals.
\<close>

theorem diagonal_step_same_length:
  assumes "playerRef gd = Some p" and "playerRef ga = Some p"
    and "playerRef (movePlayer dt gd) = Some pd" and "playerRef (movePlayer dt ga) = Some pa"
    and "vel pd = \<lparr>xc = 1, yc = 1\<rparr>" and "vel pa = \<lparr>xc = 1, yc = 0\<rparr>"
    and "15 < xc (pos pd)" and "xc (pos pd) < INTERNAL_WIDTH - 15"
    and "15 < yc (pos pd)" and "yc (pos pd) < INTERNAL_HEIGHT - 15"
    and "15 < xc (pos pa)" and "xc (pos pa) < INTERNAL_WIDTH - 15"
    and "15 < yc (pos pa)" and "yc (pos pa) < INTERNAL_HEIGHT - 15"
  shows "hypot (xc (pos pd) - xc (pos p)) (yc (pos pd) - yc (pos p)) = \<bar>speed p * dt\<bar> \<and>
         hypot (xc (pos pa) - xc (pos p)) (yc (pos pa) - yc (pos p)) = \<bar>speed p * dt\<bar>"
proof
  have s2: "sqrt 2 \<noteq> 0" by simp
  have len: "orOne (hypot 1 1) = sqrt 2"
    by (simp add: orOne_def hypot_def)
  let ?d = "(1 / sqrt 2) * speed p * dt"
  from movePlayer_result [OF assms(1) assms(3)] assms(5)
  have pd: "pos pd = \<lparr>xc = clamp (xc (pos p) + ?d) 15 (INTERNAL_WIDTH - 15),
                       yc = clamp (yc (pos p) + ?d) 15 (INTERNAL_HEIGHT - 15)\<rparr>"
    by (simp add: len)
  from pd assms(7,8) have x: "xc (pos pd) = xc (pos p) + ?d"
    using clamp_inside [of 15 "xc (pos p) + ?d" "INTERNAL_WIDTH - 15"] by simp
  from pd assms(9,10) have y: "yc (pos pd) = yc (pos p) + ?d"
    using clamp_inside [of 15 "yc (pos p) + ?d" "INTERNAL_HEIGHT - 15"] by simp
  have "hypot ?d ?d = \<bar>?d\<bar> * sqrt 2" by (rule hypot_diagonal)
  also have "\<dots> = \<bar>speed p * dt\<bar>"
  proof -
    have "\<bar>?d\<bar> = \<bar>speed p * dt\<bar> / sqrt 2"
      by (simp add: abs_mult abs_divide)
    then show ?thesis by simp
  qed
  finally show "hypot (xc (pos pd) - xc (pos p)) (yc (pos pd) - yc (pos p)) = \<bar>speed p * dt\<bar>"
    by (simp add: x y)
next
  have len: "orOne (hypot 1 0) = 1"
    by (simp add: orOne_def hypot_def)
  from movePlayer_result [OF assms(2) assms(4)] assms(6)
  have pa: "pos pa = \<lparr>xc = clamp (xc (pos p) + speed p * dt) 15 (INTERNAL_WIDTH - 15),
                       yc = clamp (yc (pos p)) 15 (INTERNAL_HEIGHT - 15)\<rparr>"
    by (simp add: len)
  from pa assms(11,12) have x: "xc (pos pa) = xc (pos p) + speed p * dt"
    using clamp_inside [of 15 "xc (pos p) + speed p * dt" "INTERNAL_WIDTH - 15"] by simp
  from pa assms(13,14) have y: "yc (pos pa) = yc (pos p)"
    using clamp_inside [of 15 "yc (pos p)" "INTERNAL_HEIGHT - 15"] by simp
  show "hypot (xc (pos pa) - xc (pos p)) (yc (pos pa) - yc (pos p)) = \<bar>speed p * dt\<bar>"
    by (simp add: x y hypot_axial)
qed

text \<open>Bounds used to evaluate the two steps.\<close>

lemma clamp_id: "mn \<le> v \<Longrightarrow> v \<le> mx \<Longrightarrow> clamp v mn mx = v"
  by (simp add: clamp_def)

lemma diag_offset_bounds: "0 < 72 / (25 * sqrt 2)" "72 / (25 * sqrt 2) < (3 :: real)"
proof -
  show "0 < 72 / (25 * sqrt 2)" by simp
  have "1 \<le> sqrt 2" by simp
  then have "72 / (25 * sqrt 2) \<le> 72 / (25 * 1)"
    by (intro divide_left_mono) simp_all
  then show "72 / (25 * sqrt 2) < (3 :: real)" by simp
qed

lemma movePlayer_gameDiag:
  "movePlayer (16 / 1000) gameDiag =
     gameDiag\<lparr>playerRef := Some (newPlayer\<lparr>vel := \<lparr>xc = 1, yc = 1\<rparr>,
        pos := \<lparr>xc = 240 + 72 / (25 * sqrt 2), yc = 360 + 72 / (25 * sqrt 2)\<rparr>\<rparr>)\<rparr>"
proof -
  have cx: "clamp (240 + 72 / (25 * sqrt 2)) 15 465 = 240 + 72 / (25 * sqrt 2)"
    using diag_offset_bounds by (intro clamp_id) linarith+
  have cy: "clamp (360 + 72 / (25 * sqrt 2)) 15 705 = 360 + 72 / (25 * sqrt 2)"
    using diag_offset_bounds by (intro clamp_id) linarith+
  show ?thesis
    by (simp add: movePlayer_def Let_def gameDiag_def holdRightDown_def newPlayer_def startPos_def
        INTERNAL_WIDTH_def INTERNAL_HEIGHT_def orOne_def hypot_def cx cy)
qed

lemma movePlayer_gameAxial:
  "movePlayer (16 / 1000) gameAxial =
     gameAxial\<lparr>playerRef := Some (newPlayer\<lparr>vel := \<lparr>xc = 1, yc = 0\<rparr>,
        pos := \<lparr>xc = 240 + 72 / 25, yc = 360\<rparr>\<rparr>)\<rparr>"
  by (simp add: movePlayer_def Let_def gameAxial_def holdRight_def newPlayer_def startPos_def
        INTERNAL_WIDTH_def INTERNAL_HEIGHT_def orOne_def hypot_def clamp_def)


text \<open>
  The hypotheses hold for the started session stepped by 16 ms with \<^verbatim>\<open>d\<close> and \<^verbatim>\<open>s\<close>
  held, and with \<^verbatim>\<open>d\<close> alone: both displacements have length \<open>72 / 25 = 180 * 0.016\<close>.
\<close>

theorem diagonal_step_same_length_witness:
  "playerRef gameDiag = Some newPlayer \<and> playerRef gameAxial = Some newPlayer \<and>
   playerRef (movePlayer (16 / 1000) gameDiag) =
     Some (newPlayer\<lparr>vel := \<lparr>xc = 1, yc = 1\<rparr>,
        pos := \<lparr>xc = 240 + 72 / (25 * sqrt 2), yc = 360 + 72 / (25 * sqrt 2)\<rparr>\<rparr>) \<and>
   playerRef (movePlayer (16 / 1000) gameAxial) =
     Some (newPlayer\<lparr>vel := \<lparr>xc = 1, yc = 0\<rparr>, pos := \<lparr>xc = 240 + 72 / 25, yc = 360\<rparr>\<rparr>) \<and>
   15 < 240 + 72 / (25 * sqrt 2) \<and> 240 + 72 / (25 * sqrt 2) < INTERNAL_WIDTH - 15 \<and>
   15 < 360 + 72 / (25 * sqrt 2) \<and> 360 + 72 / (25 * sqrt 2) < INTERNAL_HEIGHT - 15 \<and>
   hypot (72 / (25 * sqrt 2)) (72 / (25 * sqrt 2)) = 72 / 25 \<and>
   hypot (72 / 25) 0 = 72 / 25"
proof -
  let ?pd = "newPlayer\<lparr>vel := \<lparr>xc = 1, yc = 1\<rparr>,
        pos := \<lparr>xc = 240 + 72 / (25 * sqrt 2), yc = 360 + 72 / (25 * sqrt 2)\<rparr>\<rparr>"
  let ?pa = "newPlayer\<lparr>vel := \<lparr>xc = 1, yc = 0\<rparr>, pos := \<lparr>xc = 240 + 72 / 25, yc = 360\<rparr>\<rparr>"
  have h1: "playerRef gameDiag = Some newPlayer" by (simp add: gameDiag_def)
  have h2: "playerRef gameAxial = Some newPlayer" by (simp add: gameAxial_def)
  have h3: "playerRef (movePlayer (16 / 1000) gameDiag) = Some ?pd"
    by (subst movePlayer_gameDiag) simp
  have h4: "playerRef (movePlayer (16 / 1000) gameAxial) = Some ?pa"
    by (subst movePlayer_gameAxial) simp
  have h5: "vel ?pd = \<lparr>xc = 1, yc = 1\<rparr>" by simp
  have h6: "vel ?pa = \<lparr>xc = 1, yc = 0\<rparr>" by simp
  have b: "15 < 240 + 72 / (25 * sqrt 2) \<and> 240 + 72 / (25 * sqrt 2) < INTERNAL_WIDTH - 15 \<and>
           15 < 360 + 72 / (25 * sqrt 2) \<and> 360 + 72 / (25 * sqrt 2) < INTERNAL_HEIGHT - 15"
    using diag_offset_bounds unfolding INTERNAL_WIDTH_def INTERNAL_HEIGHT_def by linarith
  have h7: "15 < xc (pos ?pd)" and h8: "xc (pos ?pd) < INTERNAL_WIDTH - 15"
    and h9: "15 < yc (pos ?pd)" and h10: "yc (pos ?pd) < INTERNAL_HEIGHT - 15"
    using b by simp_all
  have h11: "15 < xc (pos ?pa)" and h12: "xc (pos ?pa) < INTERNAL_WIDTH - 15"
    and h13: "15 < yc (pos ?pa)" and h14: "yc (pos ?pa) < INTERNAL_HEIGHT - 15"
    by (simp_all add: INTERNAL_WIDTH_def INTERNAL_HEIGHT_def)
  have "hypot (xc (pos ?pd) - xc (pos newPlayer)) (yc (pos ?pd) - yc (pos newPlayer)) =
          \<bar>speed newPlayer * (16 / 1000)\<bar> \<and>
        hypot (xc (pos ?pa) - xc (pos newPlayer)) (yc (pos ?pa) - yc (pos newPlayer)) =
          \<bar>speed newPlayer * (16 / 1000)\<bar>"
    by (rule diagonal_step_same_length [OF h1 h2 h3 h4 h5 h6 h7 h8 h9 h10 h11 h12 h13 h14])
  then have "hypot (72 / (25 * sqrt 2)) (72 / (25 * sqrt 2)) = 72 / 25 \<and> hypot (72 / 25) 0 = 72 / 25"
    by (simp add: newPlayer_def startPos_def INTERNAL_WIDTH_def INTERNAL_HEIGHT_def)
  with h1 h2 h3 h4 b show ?thesis by simp
qed

section \<open>The bullet pass\<close>







section \<open>The fire rate\<close>

lemma movePlayer_cooldown:
  "playerRef g = Some p \<Longrightarrow>
     \<exists>p'. playerRef (movePlayer dt g) = Some p' \<and> cooldown p' = cooldown p"
  using movePlayer_Some [of g p dt] by auto

lemma firing_movePlayer [simp]: "firing (movePlayer dt g) = firing g"
  by (simp add: firing_def)

lemma shoot_Some:
  assumes "playerRef g = Some p"
  shows "\<exists>b. shoot dt g =
           (if firing g \<and> cooldown p - dt \<le> 0
            then g\<lparr>bulletsRef := bulletsRef g @ [b], playerRef := Some (p\<lparr>cooldown := 0.08\<rparr>)\<rparr>
            else g\<lparr>playerRef := Some (p\<lparr>cooldown := cooldown p - dt\<rparr>)\<rparr>)"
  unfolding shoot_def Let_def assms option.case
  by (cases "firing g \<and> cooldown p - dt \<le> 0") auto

lemma step_shot:
  assumes "playerRef g = Some p"
  shows "pushedBullets dt g = (if firing g \<and> cooldown p - dt \<le> 0 then 1 else 0) \<and>
         cooldownOf (shoot dt (movePlayer dt g)) =
           (if firing g \<and> cooldown p - dt \<le> 0 then 0.08 else cooldown p - dt)"
proof -
  from movePlayer_cooldown [OF assms, of dt] obtain p' where
    p': "playerRef (movePlayer dt g) = Some p'" and c: "cooldown p' = cooldown p"
    by blast
  from shoot_Some [OF p', of dt] obtain b where
    s: "shoot dt (movePlayer dt g) =
           (if firing g \<and> cooldown p - dt \<le> 0
            then (movePlayer dt g)\<lparr>bulletsRef := bulletsRef (movePlayer dt g) @ [b],
                   playerRef := Some (p'\<lparr>cooldown := 0.08\<rparr>)\<rparr>
            else (movePlayer dt g)\<lparr>playerRef := Some (p'\<lparr>cooldown := cooldown p' - dt\<rparr>)\<rparr>)"
    by (auto simp: c)
  show ?thesis
    unfolding pushedBullets_def cooldownOf_def s using assms c by simp
qed

lemma hitPlayer_cooldownOf:
  "cooldownOf (hitPlayer env rnd p g) = cooldown p"
  by (simp add: cooldownOf_def)

lemma enemiesVsPlayer_cooldownOf:
  "cooldownOf (enemiesVsPlayer env rnd g) = cooldownOf g"
proof (cases "playerRef g")
  case None
  then show ?thesis by simp
next
  case (Some p)
  show ?thesis
  proof (rule enemiesVsPlayer_cases [OF Some, of env rnd])
    fix es
    assume "enemiesVsPlayer env rnd g = g\<lparr>enemiesRef := es\<rparr>"
    then show ?thesis by (simp add: cooldownOf_def)
  next
    fix es
    assume "enemiesVsPlayer env rnd g = (hitPlayer env rnd p g)\<lparr>enemiesRef := es\<rparr>"
    with Some show ?thesis by (simp add: cooldownOf_def)
  qed
qed

lemma update_cooldownOf:
  assumes "playerRef g = Some p"
  shows "cooldownOf (update env rnd dt g) =
           (if firing g \<and> cooldown p - dt \<le> 0 then 0.08 else cooldown p - dt)"
proof -
  let ?g1 = "g\<lparr>timeRef := timeRef g + dt\<rparr>"
  have p1: "playerRef ?g1 = Some p" using assms by simp
  have f1: "firing ?g1 = firing g" by (simp add: firing_def)
  let ?g3 = "shoot dt (movePlayer dt ?g1)"
  let ?g7 = "bulletsVsEnemies rnd (updateEnemies env dt (spawnEnemies env rnd dt
               (updateBullets dt ?g3)))"
  have "update env rnd dt g = updateParticles dt (enemiesVsPlayer env rnd ?g7)"
    using assms by (simp add: update_def Let_def)
  then have "cooldownOf (update env rnd dt g) = cooldownOf (enemiesVsPlayer env rnd ?g7)"
    by (simp add: cooldownOf_def)
  also have "\<dots> = cooldownOf ?g7"
    by (rule enemiesVsPlayer_cooldownOf)
  also have "\<dots> = cooldownOf ?g3"
    by (simp add: cooldownOf_def)
  finally have "cooldownOf (update env rnd dt g) = cooldownOf ?g3" .
  with step_shot [OF p1, of dt] f1 show ?thesis by simp
qed

lemma update_None:
  "playerRef g = None \<Longrightarrow> playerRef (update env rnd dt g) = None"
  by (simp add: update_def)


lemma update_Some:
  "playerRef g \<noteq> None \<Longrightarrow> playerRef (update env rnd dt g) \<noteq> None"
  using update_inField by fastforce

lemma step_shot_cooldownOf:
  assumes "playerRef g \<noteq> None"
  shows "pushedBullets dt g = (if firing g \<and> cooldownOf g - dt \<le> 0 then 1 else 0)"
    and "cooldownOf (update env rnd dt g) =
           (if firing g \<and> cooldownOf g - dt \<le> 0 then 0.08 else cooldownOf g - dt)"
proof -
  from assms obtain p where p: "playerRef g = Some p" by blast
  then have c: "cooldownOf g = cooldown p" by (simp add: cooldownOf_def)
  from step_shot [OF p, of dt]
  show "pushedBullets dt g = (if firing g \<and> cooldownOf g - dt \<le> 0 then 1 else 0)"
    unfolding c by simp
  from update_cooldownOf [OF p, of env rnd dt]
  show "cooldownOf (update env rnd dt g) =
           (if firing g \<and> cooldownOf g - dt \<le> 0 then 0.08 else cooldownOf g - dt)"
    unfolding c by simp
qed

lemma pushedBullets_None: "playerRef g = None \<Longrightarrow> pushedBullets dt g = 0"
  by (simp add: pushedBullets_def)

lemma applyInput_fields [simp]:
  "playerRef (applyInput i g) = playerRef g"
  "cooldownOf (applyInput i g) = cooldownOf g"
  "firing (applyInput i g) = (pointerDown i \<or> heldKeys i '' '' \<or> heldKeys i ''space'')"
  by (simp_all add: applyInput_def cooldownOf_def firing_def)

lemma duration_nonneg:
  "\<forall>(env, i, dt)\<in>set ticks. 0 \<le> dt \<Longrightarrow> 0 \<le> duration ticks"
  by (induction ticks rule: duration.induct) auto

lemma fire_arith:
  fixes n T c dt :: real
  assumes "2 / 25 * n \<le> T" and "c \<le> dt"
  shows "2 / 25 * (1 + n) \<le> dt + T + 2 / 25 - c"
proof -
  have "2 / 25 * (1 + n) = 2 / 25 + 2 / 25 * n" by (simp add: distrib_left)
  with assms show ?thesis by linarith
qed

lemma fire_rate_aux:
  assumes "\<forall>(env, i, dt)\<in>set ticks. 0 \<le> dt"
  shows "2 / 25 * real (bulletsSpawned rnd ticks g)
           \<le> max 0 (duration ticks + 2 / 25 - max 0 (cooldownOf g))"
  using assms
proof (induction ticks arbitrary: g rule: duration.induct)
  case 1
  show ?case by simp
next
  case (2 env i dt ticks)
  let ?g0 = "applyInput i g"
  let ?g' = "update env rnd dt ?g0"
  let ?n = "bulletsSpawned rnd ticks ?g'"
  from "2.prems" have dt: "0 \<le> dt" and rest: "\<forall>(env, i, dt)\<in>set ticks. 0 \<le> dt"
    by auto
  from rest have T: "0 \<le> duration ticks" by (rule duration_nonneg)
  from rest have IH: "2 / 25 * real ?n \<le> max 0 (duration ticks + 2 / 25 - max 0 (cooldownOf ?g'))"
    by (rule "2.IH")
  show ?case
  proof (cases "playerRef g = None")
    case True
    then have "playerRef ?g' = None" by (simp add: update_None)
    then have c': "cooldownOf ?g' = 0" by (simp add: cooldownOf_def)
    from True have c: "cooldownOf g = 0" by (simp add: cooldownOf_def)
    from True have "pushedBullets dt ?g0 = 0" by (simp add: pushedBullets_None)
    with IH c c' dt T show ?thesis by simp
  next
    case False
    then have some: "playerRef ?g0 \<noteq> None" by simp
    show ?thesis
    proof (cases "firing ?g0 \<and> cooldownOf g - dt \<le> 0")
      case True
      with step_shot_cooldownOf(1) [OF some, of dt] step_shot_cooldownOf(2) [OF some, of env rnd dt]
      have n: "pushedBullets dt ?g0 = 1" and c': "cooldownOf ?g' = 2 / 25" by simp_all
      from IH c' T have "2 / 25 * real ?n \<le> duration ticks" by simp
      moreover from True dt have "max 0 (cooldownOf g) \<le> dt" by simp
      ultimately have "2 / 25 * (1 + real ?n) \<le> dt + duration ticks + 2 / 25 - max 0 (cooldownOf g)"
        by (rule fire_arith)
      then have "2 / 25 * real (1 + ?n) \<le> max 0 (dt + duration ticks + 2 / 25 - max 0 (cooldownOf g))"
        by simp
      with n show ?thesis by simp
    next
      case False
      with step_shot_cooldownOf(1) [OF some, of dt] step_shot_cooldownOf(2) [OF some, of env rnd dt]
      have n: "pushedBullets dt ?g0 = 0" and c': "cooldownOf ?g' = cooldownOf g - dt" by auto
      from dt have "max 0 (cooldownOf g) - dt \<le> max 0 (cooldownOf g - dt)" by simp
      then have "duration ticks + 2 / 25 - max 0 (cooldownOf g - dt)
                   \<le> dt + duration ticks + 2 / 25 - max 0 (cooldownOf g)"
        by linarith
      then have "max 0 (duration ticks + 2 / 25 - max 0 (cooldownOf g - dt))
                   \<le> max 0 (dt + duration ticks + 2 / 25 - max 0 (cooldownOf g))"
        by (rule max.mono [OF order_refl])
      moreover from IH have "2 / 25 * real ?n
                   \<le> max 0 (duration ticks + 2 / 25 - max 0 (cooldownOf g - dt))"
        unfolding c' .
      ultimately have "2 / 25 * real ?n \<le> max 0 (dt + duration ticks + 2 / 25 - max 0 (cooldownOf g))"
        by (rule order_trans [rotated])
      with n show ?thesis by simp
    qed
  qed
qed

text \<open>
  Claim C5. Over any run of steps with non-negative deltas, whatever the inputs (so also
  with the fire signal held throughout), the number of bullets pushed is at most
  \<open>\<lfloor>T / 0.08\<rfloor> + 1\<close>, \<open>T\<close> being the sum of the deltas. One step pushes at most one
  bullet, and it pushes one only when the fire signal is on and the cooldown, decremented
  by \<open>dt\<close>, is at or below 0; the cooldown is then 0.08 after the step.
\<close>

theorem fire_rate_cap:
  assumes "\<forall>(env, i, dt)\<in>set ticks. 0 \<le> dt"
  shows "int (bulletsSpawned rnd ticks g) \<le> \<lfloor>duration ticks / 0.08\<rfloor> + 1 \<and>
         pushedBullets dt1 g1 \<le> 1 \<and>
         (pushedBullets dt1 g1 = 1 \<longrightarrow>
            firing g1 \<and> cooldownOf g1 - dt1 \<le> 0 \<and> cooldownOf (update env1 rnd dt1 g1) = 0.08)"
proof (intro conjI impI)
  let ?n = "bulletsSpawned rnd ticks g"
  from assms have T: "0 \<le> duration ticks" by (rule duration_nonneg)
  from assms have "2 / 25 * real ?n \<le> max 0 (duration ticks + 2 / 25 - max 0 (cooldownOf g))"
    by (rule fire_rate_aux)
  also have "\<dots> \<le> duration ticks + 2 / 25" using T by simp
  finally have "real ?n - 1 \<le> duration ticks / 0.08" by simp
  then have "real_of_int (int ?n - 1) \<le> duration ticks / 0.08" by simp
  then have "int ?n - 1 \<le> \<lfloor>duration ticks / 0.08\<rfloor>" by (simp only: le_floor_iff)
  then show "int ?n \<le> \<lfloor>duration ticks / 0.08\<rfloor> + 1" by simp
next
  show "pushedBullets dt1 g1 \<le> 1"
  proof (cases "playerRef g1 = None")
    case True
    then show ?thesis by (simp add: pushedBullets_None)
  next
    case False
    then show ?thesis by (simp add: step_shot_cooldownOf(1))
  qed
next
  assume one: "pushedBullets dt1 g1 = 1"
  have some: "playerRef g1 \<noteq> None"
  proof
    assume "playerRef g1 = None"
    then have "pushedBullets dt1 g1 = 0" by (rule pushedBullets_None)
    with one show False by simp
  qed
  have f: "firing g1 \<and> cooldownOf g1 - dt1 \<le> 0"
  proof (rule ccontr)
    assume "\<not> (firing g1 \<and> cooldownOf g1 - dt1 \<le> 0)"
    with step_shot_cooldownOf(1) [OF some, of dt1] have "pushedBullets dt1 g1 = 0" by simp
    with one show False by simp
  qed
  then show "firing g1" and "cooldownOf g1 - dt1 \<le> 0" by simp_all
  from f step_shot_cooldownOf(2) [OF some, of env1 rnd dt1]
  show "cooldownOf (update env1 rnd dt1 g1) = 0.08" by simp
qed

text \<open>
  Six steps of 16 ms with the pointer held down from the start last 0.096 s: the bound is
  2, and 2 bullets are pushed (in the first and in the sixth step).
\<close>

theorem fire_rate_cap_witness:
  "(0 :: real) \<le> 16 / 1000 \<and>
   int (bulletsSpawned zeroRandom fireRun started) \<le> \<lfloor>duration fireRun / 0.08\<rfloor> + 1 \<and>
   \<lfloor>duration fireRun / 0.08\<rfloor> + 1 = 2 \<and>
   bulletsSpawned zeroRandom fireRun started = 2 \<and>
   pushedBullets (16 / 1000) (applyInput holdFire started) = 1 \<and>
   firing (applyInput holdFire started) \<and>
   cooldownOf (applyInput holdFire started) - 16 / 1000 \<le> 0 \<and>
   cooldownOf (update startedEnv zeroRandom (16 / 1000) (applyInput holdFire started)) = 0.08"
proof -
  have h: "\<forall>(env, i, dt)\<in>set fireRun. 0 \<le> dt"
    by (simp add: fireRun_def fireTick_def)
  have s: "playerRef (applyInput holdFire started) \<noteq> None" by simp
  have c: "cooldownOf started = 0" by (simp add: cooldownOf_def newPlayer_def)
  have f: "pointerDown holdFire" by (simp add: holdFire_def)
  have one: "pushedBullets (16 / 1000) (applyInput holdFire started) = 1"
    using step_shot_cooldownOf(1) [OF s, of "16 / 1000"] c f by simp
  have d: "duration fireRun = 96 / 1000"
    by (simp add: fireRun_def fireTick_def)
  have fl: "\<lfloor>duration fireRun / 0.08\<rfloor> = 1"
    unfolding d by simp
  have n: "bulletsSpawned zeroRandom fireRun started = 2"
    by (simp add: fireRun_def fireTick_def step_shot_cooldownOf update_Some c f)
  from fire_rate_cap [OF h, of zeroRandom started "16 / 1000" "applyInput holdFire started" startedEnv]
    one fl n c f
  show ?thesis by simp
qed

section \<open>Evaluating a step\<close>

lemma update_collisions:
  "playerRef g \<noteq> None \<Longrightarrow>
     update env rnd dt g =
       updateParticles dt (enemiesVsPlayer env rnd (bulletsVsEnemies rnd (beforeCollisions env rnd dt g)))"
  by (auto simp: update_def Let_def beforeCollisions_def)

lemma hypot_0 [simp]: "hypot 0 b = \<bar>b\<bar>" "hypot a 0 = \<bar>a\<bar>"
  by (simp_all add: hypot_def flip: power2_eq_square)

text \<open>The step of 16 ms from \<open>crossfire\<close>.\<close>

lemma crossfire_before:
  "beforeCollisions startedEnv zeroRandom (16 / 1000) crossfire =
     crossfire\<lparr>timeRef := 2 / 125,
       playerRef := Some (newPlayer\<lparr>cooldown := - (2 / 125)\<rparr>),
       bulletsRef := [bulletAt 240 (1518 / 5), bulletAt 240 (1468 / 5)],
       spawnTimerRef := 123 / 125,
       enemiesRef := [(enemyAt 240 (7264 / 25) 1)\<lparr>t := 2 / 125\<rparr>]\<rparr>"
  by (simp add: beforeCollisions_def crossfire_def movePlayer_def shoot_def updateBullets_def
      spawnEnemies_def updateEnemies_def steerEnemy_def moveBullet_def Let_def firing_def
      noKeys_def newPlayer_def startPos_def bulletAt_def enemyAt_def orOne_def clamp_def
      INTERNAL_WIDTH_def INTERNAL_HEIGHT_def)

text \<open>
  Claim C3 at a failing input. In \<open>crossfire\<close> both bullets overlap the one enemy after
  the moves of a 16 ms step. The first kills it (hit-points 1 to 0, score + 100); the
  second, scanning the same collection, hits the enemy already marked not-alive (hit-points
  - 1) and the score grows by 100 again: 200 for one enemy killed.
\<close>

theorem one_enemy_scored_twice:
  "map hp (enemiesRef crossfire) = [1] \<and> map alive (enemiesRef crossfire) = [True] \<and>
   map alive (bulletsRef crossfire) = [True, True] \<and> score crossfire = 0 \<and>
   score (update startedEnv zeroRandom (16 / 1000) crossfire) = 200 \<and>
   map hp (enemiesRef (update startedEnv zeroRandom (16 / 1000) crossfire)) = [- 1] \<and>
   map alive (bulletsRef (update startedEnv zeroRandom (16 / 1000) crossfire)) = [False, False]"
proof -
  have p: "playerRef crossfire \<noteq> None" by (simp add: crossfire_def)
  have u: "update startedEnv zeroRandom (16 / 1000) crossfire =
      updateParticles (16 / 1000) (enemiesVsPlayer startedEnv zeroRandom
       (bulletsVsEnemies zeroRandom (beforeCollisions startedEnv zeroRandom (16 / 1000) crossfire)))"
    using p by (rule update_collisions)
  let ?g = "crossfire\<lparr>timeRef := 2 / 125,
       playerRef := Some (newPlayer\<lparr>cooldown := - (2 / 125)\<rparr>),
       bulletsRef := [bulletAt 240 (1518 / 5), bulletAt 240 (1468 / 5)],
       spawnTimerRef := 123 / 125,
       enemiesRef := [(enemyAt 240 (7264 / 25) 1)\<lparr>t := 2 / 125\<rparr>]\<rparr>"
  define G where "G = bulletsVsEnemies zeroRandom ?g"
  have sc: "score crossfire = 0" by (simp add: crossfire_def)
  have b: "score G = 200"
    "map hp (enemiesRef G) = [- 1]"
    "map alive (enemiesRef G) = [False]"
    "map pos (enemiesRef G) = [\<lparr>xc = 240, yc = 7264 / 25\<rparr>]"
    "map radius (enemiesRef G) = [14]"
    "map alive (bulletsRef G) = [False, False]"
    unfolding G_def
    by (simp_all add: bulletsVsEnemies_def Let_def dist2_def bulletAt_def enemyAt_def sc)
  have pl: "playerRef G = Some (newPlayer\<lparr>cooldown := - (2 / 125)\<rparr>)"
    unfolding G_def by simp
  from b(2-5) obtain e where es: "enemiesRef G = [e]"
    and e: "hp e = - 1" "alive e = False" "pos e = \<lparr>xc = 240, yc = 7264 / 25\<rparr>" "radius e = 14"
    by (cases "enemiesRef G") auto
  have c: "enemiesRef (enemiesVsPlayer startedEnv zeroRandom G) = [e]"
    by (simp add: enemiesVsPlayer_def pl es e Let_def dist2_def newPlayer_def startPos_def
        INTERNAL_WIDTH_def INTERNAL_HEIGHT_def)
  have "score (update startedEnv zeroRandom (16 / 1000) crossfire) = 200 \<and>
   map hp (enemiesRef (update startedEnv zeroRandom (16 / 1000) crossfire)) = [- 1] \<and>
   map alive (bulletsRef (update startedEnv zeroRandom (16 / 1000) crossfire)) = [False, False]"
    unfolding u unfolding crossfire_before unfolding G_def [symmetric]
    using b c e by simp
  then show ?thesis
    by (simp add: crossfire_def bulletAt_def enemyAt_def)
qed

section \<open>The time delta\<close>

lemma update_timeRef: "timeRef (update env rnd dt g) = timeRef g + dt"
  by (simp add: update_def Let_def split: option.splits)

text \<open>
  Claim C8 as stated fails: a step from the started session with \<open>dt = - 0.01\<close> (what
  the loop computes for a timestamp 10 ms before the last one) raises the cooldown and the
  spawn timer from 0 to 0.01, while a step with \<open>dt = 0\<close> leaves the cooldown at 0.
\<close>

theorem negative_dt_counterexample:
  "frameDt 0 10 = - (1 / 100) \<and>
   cooldownOf started = 0 \<and> spawnTimerRef started = 0 \<and> timeRef started = 0 \<and>
   cooldownOf (update startedEnv zeroRandom (- (1 / 100)) started) = 1 / 100 \<and>
   spawnTimerRef (update startedEnv zeroRandom (- (1 / 100)) started) = 1 / 100 \<and>
   timeRef (update startedEnv zeroRandom (- (1 / 100)) started) = - (1 / 100) \<and>
   cooldownOf (update startedEnv zeroRandom 0 started) = 0"
proof -
  have p: "playerRef started \<noteq> None" by simp
  have c: "cooldownOf started = 0" by (simp add: cooldownOf_def newPlayer_def)
  have f: "\<not> firing started" by (simp add: firing_def noKeys_def)
  show ?thesis
    using step_shot_cooldownOf(2) [OF p, of startedEnv zeroRandom "- (1 / 100)"]
      step_shot_cooldownOf(2) [OF p, of startedEnv zeroRandom 0]
      update_spawnTimer [OF p, of startedEnv zeroRandom "- (1 / 100)"]
      c f
    by (simp add: update_timeRef frameDt_def)
qed

text \<open>
  Claim C8, amended. A negative \<open>dt\<close> is not treated as 0. The frame loop clamps the delta
  from above only: it is \<open>min 0.033 ((now - last) / 1000)\<close>, negative when the timestamp
  lies before the last one. \<^verbatim>\<open>update\<close> applies the delta as it is given: the time
  accumulator grows by \<open>dt\<close>, and with a player present the cooldown and the spawn timer
  are decremented by \<open>dt\<close> before their tests, so a negative \<open>dt\<close> raises them.
\<close>

theorem dt_clamped_from_above_only:
  "frameDt now prev \<le> 0.033 \<and>
   (now < prev \<longrightarrow> frameDt now prev = (now - prev) / 1000 \<and> frameDt now prev < 0) \<and>
   timeRef (update env rnd dt g) = timeRef g + dt \<and>
   (playerRef g \<noteq> None \<longrightarrow>
      cooldownOf (update env rnd dt g) =
        (if firing g \<and> cooldownOf g - dt \<le> 0 then 0.08 else cooldownOf g - dt) \<and>
      spawnTimerRef (update env rnd dt g) =
        (if spawnTimerRef g - dt \<le> 0 then max 0.8 (2.0 - real_of_int (score env) * 0.001)
         else spawnTimerRef g - dt)) \<and>
   (playerRef g \<noteq> None \<and> dt < 0 \<and> 0 \<le> cooldownOf g \<and> 0 \<le> spawnTimerRef g \<longrightarrow>
      cooldownOf (update env rnd dt g) = cooldownOf g - dt \<and>
      spawnTimerRef (update env rnd dt g) = spawnTimerRef g - dt)"
proof (intro conjI impI)
  show "frameDt now prev \<le> 0.033" by (simp add: frameDt_def)
next
  assume "now < prev"
  then show "frameDt now prev = (now - prev) / 1000" and "frameDt now prev < 0"
    by (simp_all add: frameDt_def)
next
  show "timeRef (update env rnd dt g) = timeRef g + dt" by (rule update_timeRef)
next
  assume "playerRef g \<noteq> None"
  then show "cooldownOf (update env rnd dt g) =
        (if firing g \<and> cooldownOf g - dt \<le> 0 then 0.08 else cooldownOf g - dt)"
    by (rule step_shot_cooldownOf(2))
next
  assume "playerRef g \<noteq> None"
  then show "spawnTimerRef (update env rnd dt g) =
        (if spawnTimerRef g - dt \<le> 0 then max 0.8 (2.0 - real_of_int (score env) * 0.001)
         else spawnTimerRef g - dt)"
    by (simp add: update_spawnTimer spawnInterval_def)
next
  assume a: "playerRef g \<noteq> None \<and> dt < 0 \<and> 0 \<le> cooldownOf g \<and> 0 \<le> spawnTimerRef g"
  then have p: "playerRef g \<noteq> None" by simp
  from a step_shot_cooldownOf(2) [OF p, of env rnd dt]
  show "cooldownOf (update env rnd dt g) = cooldownOf g - dt" by simp
  from a update_spawnTimer [OF p, of env rnd dt]
  show "spawnTimerRef (update env rnd dt g) = spawnTimerRef g - dt" by simp
qed

text \<open>The hypotheses hold for the started session and \<open>dt = - 0.01\<close>.\<close>

theorem dt_clamped_from_above_only_witness:
  "(0 :: real) < 10 \<and> frameDt 0 10 = - (1 / 100) \<and> frameDt 0 10 \<le> 0.033 \<and>
   playerRef started \<noteq> None \<and> - (1 / 100) < (0 :: real) \<and>
   0 \<le> cooldownOf started \<and> 0 \<le> spawnTimerRef started \<and>
   timeRef (update startedEnv zeroRandom (- (1 / 100)) started) = timeRef started + - (1 / 100) \<and>
   cooldownOf (update startedEnv zeroRandom (- (1 / 100)) started) = cooldownOf started + 1 / 100 \<and>
   spawnTimerRef (update startedEnv zeroRandom (- (1 / 100)) started) = spawnTimerRef started + 1 / 100"
proof -
  have p: "playerRef started \<noteq> None" by simp
  have c: "cooldownOf started = 0" by (simp add: cooldownOf_def newPlayer_def)
  from dt_clamped_from_above_only [of 0 10 startedEnv zeroRandom "- (1 / 100)" started] p c
  show ?thesis by simp
qed

section \<open>The culls\<close>

lemma movePlayer_eq:
  "movePlayer dt g =
     (case playerRef g of None \<Rightarrow> g
      | Some player \<Rightarrow> g\<lparr>playerRef := Some (movedPlayer (keys g) dt player)\<rparr>)"
  unfolding movePlayer_def movedPlayer_def Let_def by (rule refl)

lemma shoot_eq:
  "shoot dt g =
     (case playerRef g of None \<Rightarrow> g
      | Some player \<Rightarrow>
          if firing g \<and> cooldown player - dt \<le> 0
          then g\<lparr>bulletsRef := bulletsRef g @ [shotBullet (aimRef g) player],
                 playerRef := Some (player\<lparr>cooldown := 0.08\<rparr>)\<rparr>
          else g\<lparr>playerRef := Some (player\<lparr>cooldown := cooldown player - dt\<rparr>)\<rparr>)"
  unfolding shoot_def shotBullet_def Let_def by (rule refl)

lemma spawnEnemy_eq:
  "spawnEnemy env rnd g =
     g\<lparr>enemiesRef := enemiesRef g @ [spawned env rnd (randomCalls g)],
       randomCalls := randomCalls g + 3\<rparr>"
  unfolding spawnEnemy_def spawned_def Let_def by (rule refl)

lemma spawnLoop_eq:
  "spawnLoop env rnd k g =
     g\<lparr>enemiesRef := enemiesRef g @ wave env rnd (randomCalls g) k,
       randomCalls := randomCalls g + 3 * k\<rparr>"
  by (induction k arbitrary: g) (simp_all add: spawnEnemy_eq)

lemma spawnWave_eq:
  "spawnWave env rnd g =
     (let k = nat (4 + \<lfloor>rnd (randomCalls g) * 3\<rfloor> + \<lfloor>real_of_int (score env) / 500\<rfloor>)
      in g\<lparr>enemiesRef := enemiesRef g @ wave env rnd (randomCalls g + 1) k,
           randomCalls := randomCalls g + 1 + 3 * k\<rparr>)"
  by (simp add: spawnWave_def Let_def spawnLoop_eq)


lemma moveBullet_dead: "\<not> alive b \<Longrightarrow> \<not> alive (moveBullet dt b)"
  by (simp add: moveBullet_def Let_def)

lemma steerEnemy_alive [simp]: "alive (steerEnemy env dt pl e) = alive e"
  by (simp add: steerEnemy_def Let_def split: option.splits)

lemma cull_moved_bullets:
  "filter alive (map (moveBullet dt) (filter alive bs)) = filter alive (map (moveBullet dt) bs)"
  by (induction bs) (simp_all add: moveBullet_dead)

lemma cull_steered_enemies:
  "filter alive (map (steerEnemy env dt pl) (filter alive es)) =
   filter alive (map (steerEnemy env dt pl) es)"
  by (induction es) simp_all

lemma movePlayer_lists:
  "movePlayer dt (g\<lparr>bulletsRef := bs, enemiesRef := es\<rparr>) =
     (movePlayer dt g)\<lparr>bulletsRef := bs, enemiesRef := es\<rparr>"
  by (simp add: movePlayer_eq split: option.splits)

lemma firing_lists [simp]: "firing (g\<lparr>bulletsRef := bs, enemiesRef := es\<rparr>) = firing g"
  by (simp add: firing_def)

lemma shoot_lists:
  "\<exists>new. \<forall>bs es. shoot dt (g\<lparr>bulletsRef := bs, enemiesRef := es\<rparr>) =
     (shoot dt g)\<lparr>bulletsRef := bs @ new, enemiesRef := es\<rparr>"
proof (cases "playerRef g")
  case None
  then have "\<forall>bs es. shoot dt (g\<lparr>bulletsRef := bs, enemiesRef := es\<rparr>) =
     (shoot dt g)\<lparr>bulletsRef := bs @ [], enemiesRef := es\<rparr>"
    by (simp add: shoot_eq)
  then show ?thesis by blast
next
  case (Some p)
  show ?thesis
  proof (cases "firing g \<and> cooldown p - dt \<le> 0")
    case True
    with Some have "\<forall>bs es. shoot dt (g\<lparr>bulletsRef := bs, enemiesRef := es\<rparr>) =
       (shoot dt g)\<lparr>bulletsRef := bs @ [shotBullet (aimRef g) p], enemiesRef := es\<rparr>"
      by (simp add: shoot_eq)
    then show ?thesis by blast
  next
    case False
    with Some have "\<forall>bs es. shoot dt (g\<lparr>bulletsRef := bs, enemiesRef := es\<rparr>) =
       (shoot dt g)\<lparr>bulletsRef := bs @ [], enemiesRef := es\<rparr>"
      by (auto simp add: shoot_eq)
    then show ?thesis by blast
  qed
qed

lemma spawnEnemies_lists:
  "\<exists>new. \<forall>bs es. spawnEnemies env rnd dt (g\<lparr>bulletsRef := bs, enemiesRef := es\<rparr>) =
     (spawnEnemies env rnd dt g)\<lparr>bulletsRef := bs, enemiesRef := es @ new\<rparr>"
proof (cases "spawnTimerRef g - dt \<le> 0")
  case True
  let ?k = "nat (4 + \<lfloor>rnd (randomCalls g) * 3\<rfloor> + \<lfloor>real_of_int (score env) / 500\<rfloor>)"
  from True have "\<forall>bs es. spawnEnemies env rnd dt (g\<lparr>bulletsRef := bs, enemiesRef := es\<rparr>) =
     (spawnEnemies env rnd dt g)\<lparr>bulletsRef := bs,
        enemiesRef := es @ wave env rnd (randomCalls g + 1) ?k\<rparr>"
    by (simp add: spawnEnemies_def spawnWave_eq Let_def)
  then show ?thesis by blast
next
  case False
  then have "\<forall>bs es. spawnEnemies env rnd dt (g\<lparr>bulletsRef := bs, enemiesRef := es\<rparr>) =
     (spawnEnemies env rnd dt g)\<lparr>bulletsRef := bs, enemiesRef := es @ []\<rparr>"
    by (simp add: spawnEnemies_def Let_def)
  then show ?thesis by blast
qed


lemma beforeCollisions_lists:
  "\<exists>newBs newEs. \<forall>bs es.
     beforeCollisions env rnd dt (g\<lparr>bulletsRef := bs, enemiesRef := es\<rparr>) =
       (beforeCollisions env rnd dt g)
         \<lparr>bulletsRef := filter alive (map (moveBullet dt) (bs @ newBs)),
          enemiesRef := filter alive (map (steerEnemy env dt
            (playerRef (beforeCollisions env rnd dt g))) (es @ newEs))\<rparr>"
proof -
  let ?g1 = "g\<lparr>timeRef := timeRef g + dt\<rparr>"
  let ?g2 = "movePlayer dt ?g1"
  let ?g3 = "shoot dt ?g2"
  let ?g4 = "updateBullets dt ?g3"
  let ?g5 = "spawnEnemies env rnd dt ?g4"
  obtain newBs where s: "\<And>bs es. shoot dt (?g2\<lparr>bulletsRef := bs, enemiesRef := es\<rparr>) =
     ?g3\<lparr>bulletsRef := bs @ newBs, enemiesRef := es\<rparr>"
    using shoot_lists [of dt ?g2] by blast
  obtain newEs where w: "\<And>bs es. spawnEnemies env rnd dt (?g4\<lparr>bulletsRef := bs, enemiesRef := es\<rparr>) =
     ?g5\<lparr>bulletsRef := bs, enemiesRef := es @ newEs\<rparr>"
    using spawnEnemies_lists [of env rnd dt ?g4] by blast
  have "beforeCollisions env rnd dt (g\<lparr>bulletsRef := bs, enemiesRef := es\<rparr>) =
       (beforeCollisions env rnd dt g)
         \<lparr>bulletsRef := filter alive (map (moveBullet dt) (bs @ newBs)),
          enemiesRef := filter alive (map (steerEnemy env dt
            (playerRef (beforeCollisions env rnd dt g))) (es @ newEs))\<rparr>" for bs es
  proof -
    have 1: "(g\<lparr>bulletsRef := bs, enemiesRef := es\<rparr>)\<lparr>timeRef :=
        timeRef (g\<lparr>bulletsRef := bs, enemiesRef := es\<rparr>) + dt\<rparr> = ?g1\<lparr>bulletsRef := bs, enemiesRef := es\<rparr>"
      by simp
    have 2: "movePlayer dt (?g1\<lparr>bulletsRef := bs, enemiesRef := es\<rparr>) =
        ?g2\<lparr>bulletsRef := bs, enemiesRef := es\<rparr>"
      by (rule movePlayer_lists)
    have 4: "updateBullets dt (?g3\<lparr>bulletsRef := bs @ newBs, enemiesRef := es\<rparr>) =
        ?g4\<lparr>bulletsRef := filter alive (map (moveBullet dt) (bs @ newBs)), enemiesRef := es\<rparr>"
      by (simp add: updateBullets_def)
    have 5: "spawnEnemies env rnd dt
        (?g4\<lparr>bulletsRef := filter alive (map (moveBullet dt) (bs @ newBs)), enemiesRef := es\<rparr>) =
        ?g5\<lparr>bulletsRef := filter alive (map (moveBullet dt) (bs @ newBs)), enemiesRef := es @ newEs\<rparr>"
      by (rule w)
    have 6: "updateEnemies env dt
        (?g5\<lparr>bulletsRef := filter alive (map (moveBullet dt) (bs @ newBs)), enemiesRef := es @ newEs\<rparr>) =
        (updateEnemies env dt ?g5)\<lparr>bulletsRef := filter alive (map (moveBullet dt) (bs @ newBs)),
          enemiesRef := filter alive (map (steerEnemy env dt (playerRef ?g5)) (es @ newEs))\<rparr>"
      by (simp add: updateEnemies_def)
    have p: "playerRef (beforeCollisions env rnd dt g) = playerRef ?g5"
      by (simp add: beforeCollisions_def)
    show ?thesis
      unfolding p unfolding beforeCollisions_def 1 2 s 4 5 6 ..
  qed
  then show ?thesis by blast
qed

lemma beforeCollisions_culled:
  "beforeCollisions env rnd dt (culled g) = beforeCollisions env rnd dt g"
proof -
  obtain newBs newEs where l: "\<And>bs es.
     beforeCollisions env rnd dt (g\<lparr>bulletsRef := bs, enemiesRef := es\<rparr>) =
       (beforeCollisions env rnd dt g)
         \<lparr>bulletsRef := filter alive (map (moveBullet dt) (bs @ newBs)),
          enemiesRef := filter alive (map (steerEnemy env dt
            (playerRef (beforeCollisions env rnd dt g))) (es @ newEs))\<rparr>"
    using beforeCollisions_lists [of env rnd dt g] by blast
  have "beforeCollisions env rnd dt (culled g) =
      beforeCollisions env rnd dt (g\<lparr>bulletsRef := bulletsRef g, enemiesRef := enemiesRef g\<rparr>)"
    unfolding culled_def l by (simp add: cull_moved_bullets cull_steered_enemies)
  then show ?thesis by simp
qed

lemma scanEnemies_pos:
  "scanEnemies rnd b es g = (b', es', g') \<Longrightarrow> pos b' = pos b"
proof (induction es arbitrary: es')
  case Nil
  then show ?case by simp
next
  case (Cons e es)
  show ?case
  proof (cases "dist2 (pos b) (pos e) \<le> (radius b + radius e) * (radius b + radius e)")
    case True
    with Cons.prems have "b' = b\<lparr>alive := False\<rparr>"
      by (simp add: Let_def split: if_splits)
    then show ?thesis by simp
  next
    case False
    with Cons.prems obtain es1 where "scanEnemies rnd b es g = (b', es1, g')"
      by (auto simp: Let_def split: prod.splits)
    then show ?thesis by (rule Cons.IH)
  qed
qed

lemma bulletLoop_pos:
  "bulletLoop rnd bs es g = (bs', es', g') \<Longrightarrow> map pos bs' = map pos bs"
proof (induction bs arbitrary: es g bs')
  case Nil
  then show ?case by simp
next
  case (Cons b bs)
  show ?case
  proof (cases "fromPlayer b")
    case False
    with Cons.prems obtain bs1 where "bulletLoop rnd bs es g = (bs1, es', g')" and "bs' = b # bs1"
      by (auto split: prod.splits)
    with Cons.IH show ?thesis by auto
  next
    case True
    with Cons.prems obtain b1 es1 g1 bs1 where
      s: "scanEnemies rnd b es g = (b1, es1, g1)" and
      l: "bulletLoop rnd bs es1 g1 = (bs1, es', g')" and e: "bs' = b1 # bs1"
      by (auto split: prod.splits)
    from s have "pos b1 = pos b" by (rule scanEnemies_pos)
    moreover from l have "map pos bs1 = map pos bs" by (rule Cons.IH)
    ultimately show ?thesis using e by simp
  qed
qed

lemma bulletsVsEnemies_pos:
  "map pos (bulletsRef (bulletsVsEnemies rnd g)) = map pos (bulletsRef g)"
proof -
  obtain bs es g' where l: "bulletLoop rnd (bulletsRef g) (enemiesRef g) g = (bs, es, g')"
    by (metis prod_cases3)
  then have "bulletsRef (bulletsVsEnemies rnd g) = bs"
    by (simp add: bulletsVsEnemies_def)
  with bulletLoop_pos [OF l] show ?thesis by simp
qed

lemma moveBullet_alive_inBounds: "alive (moveBullet dt b) \<Longrightarrow> inBounds (pos (moveBullet dt b))"
  by (auto simp: moveBullet_def Let_def inBounds_def split: if_splits)

lemma beforeCollisions_bullets:
  "list_all alive (bulletsRef (beforeCollisions env rnd dt g)) \<and>
   list_all inBounds (map pos (bulletsRef (beforeCollisions env rnd dt g)))"
proof -
  have "list_all alive (filter alive (map (moveBullet dt) bs)) \<and>
        list_all inBounds (map pos (filter alive (map (moveBullet dt) bs)))" for bs
    by (induction bs) (simp_all add: moveBullet_alive_inBounds)
  then show ?thesis
    by (simp add: beforeCollisions_def updateBullets_def)
qed

lemma beforeCollisions_enemies:
  "list_all alive (enemiesRef (beforeCollisions env rnd dt g))"
  by (simp add: beforeCollisions_def updateEnemies_def list_all_iff)

lemma update_bullets_inBounds:
  "playerRef g \<noteq> None \<Longrightarrow> list_all inBounds (map pos (bulletsRef (update env rnd dt g)))"
  by (simp add: update_collisions bulletsVsEnemies_pos beforeCollisions_bullets)

lemma update_particles_live:
  "playerRef g \<noteq> None \<Longrightarrow> list_all (\<lambda>p. 0 < life p) (particlesRef (update env rnd dt g))"
  by (simp add: update_collisions updateParticles_def list_all_iff)

lemma update_culled:
  assumes "playerRef g \<noteq> None"
  shows "update env rnd dt (culled g) = update env rnd dt g"
proof -
  from assms have "playerRef (culled g) \<noteq> None" by (simp add: culled_def)
  then show ?thesis
    using assms by (simp add: update_collisions beforeCollisions_culled)
qed

text \<open>The step of 16 ms from \<open>oneShot\<close>.\<close>

lemma oneShot_before:
  "beforeCollisions startedEnv zeroRandom (16 / 1000) oneShot =
     oneShot\<lparr>timeRef := 2 / 125,
       playerRef := Some (newPlayer\<lparr>cooldown := - (2 / 125)\<rparr>),
       bulletsRef := [bulletAt 240 (518 / 5)],
       spawnTimerRef := 123 / 125,
       enemiesRef := [(enemyAt 240 (2514 / 25) 1)\<lparr>t := 2 / 125\<rparr>]\<rparr>"
  by (simp add: beforeCollisions_def oneShot_def movePlayer_def shoot_def updateBullets_def
      spawnEnemies_def updateEnemies_def steerEnemy_def moveBullet_def Let_def firing_def
      noKeys_def newPlayer_def startPos_def bulletAt_def enemyAt_def orOne_def clamp_def
      INTERNAL_WIDTH_def INTERNAL_HEIGHT_def)

lemma oneShot_after:
  "map alive (bulletsRef (update startedEnv zeroRandom (16 / 1000) oneShot)) = [False] \<and>
   map alive (enemiesRef (update startedEnv zeroRandom (16 / 1000) oneShot)) = [False]"
proof -
  have p: "playerRef oneShot \<noteq> None" by (simp add: oneShot_def)
  have u: "update startedEnv zeroRandom (16 / 1000) oneShot =
      updateParticles (16 / 1000) (enemiesVsPlayer startedEnv zeroRandom
       (bulletsVsEnemies zeroRandom (beforeCollisions startedEnv zeroRandom (16 / 1000) oneShot)))"
    using p by (rule update_collisions)
  let ?g = "oneShot\<lparr>timeRef := 2 / 125,
       playerRef := Some (newPlayer\<lparr>cooldown := - (2 / 125)\<rparr>),
       bulletsRef := [bulletAt 240 (518 / 5)],
       spawnTimerRef := 123 / 125,
       enemiesRef := [(enemyAt 240 (2514 / 25) 1)\<lparr>t := 2 / 125\<rparr>]\<rparr>"
  define G where "G = bulletsVsEnemies zeroRandom ?g"
  have b: "map alive (enemiesRef G) = [False]"
    "map pos (enemiesRef G) = [\<lparr>xc = 240, yc = 2514 / 25\<rparr>]"
    "map radius (enemiesRef G) = [14]"
    "map alive (bulletsRef G) = [False]"
    unfolding G_def
    by (simp_all add: bulletsVsEnemies_def Let_def dist2_def bulletAt_def enemyAt_def)
  have pl: "playerRef G = Some (newPlayer\<lparr>cooldown := - (2 / 125)\<rparr>)"
    unfolding G_def by simp
  from b(1-3) obtain e where es: "enemiesRef G = [e]"
    and e: "alive e = False" "pos e = \<lparr>xc = 240, yc = 2514 / 25\<rparr>" "radius e = 14"
    by (cases "enemiesRef G") auto
  have c: "enemiesRef (enemiesVsPlayer startedEnv zeroRandom G) = [e]"
    by (simp add: enemiesVsPlayer_def pl es e Let_def dist2_def newPlayer_def startPos_def
        INTERNAL_WIDTH_def INTERNAL_HEIGHT_def)
  show ?thesis
    unfolding u unfolding oneShot_before unfolding G_def [symmetric]
    using b c e by simp
qed

text \<open>
  Claim C7 as stated fails: in \<open>oneShot\<close> all entities are alive; after one step of 16 ms,
  in which the bullet kills the enemy, both are marked not-alive and both are still in
  their collections, where the next step finds them.
\<close>

theorem dead_entities_counterexample:
  "map alive (bulletsRef oneShot) = [True] \<and> map alive (enemiesRef oneShot) = [True] \<and>
   map alive (bulletsRef (update startedEnv zeroRandom (16 / 1000) oneShot)) = [False] \<and>
   map alive (enemiesRef (update startedEnv zeroRandom (16 / 1000) oneShot)) = [False]"
  using oneShot_after by (simp add: oneShot_def bulletAt_def enemyAt_def)

text \<open>
  Claim C7, amended. The culls of bullets and enemies run inside the step, before the
  collision passes: a bullet or enemy marked not-alive in a collision pass stays in its
  collection until the next step and is removed by that step's cull, so that the collision
  passes start on alive entities only and the step is the same as if the not-alive ones
  had been removed before it began (an entity marked not-alive during the passes is still
  met later in the same step). A bullet that left the bounds (the playfield plus a margin
  of 10) and a particle whose lifetime is 0 or less are removed in the step that finds
  them so: after a step every bullet is within the bounds and every particle has a
  positive lifetime. (All this for a step with a player; without one \<^verbatim>\<open>update\<close> returns
  at once.)
\<close>

theorem dead_entities_culled_in_next_step:
  assumes "playerRef g \<noteq> None"
  shows "update env rnd dt (culled g) = update env rnd dt g \<and>
         list_all alive (bulletsRef (beforeCollisions env rnd dt g)) \<and>
         list_all alive (enemiesRef (beforeCollisions env rnd dt g)) \<and>
         list_all inBounds (map pos (bulletsRef (update env rnd dt g))) \<and>
         list_all (\<lambda>p. 0 < life p) (particlesRef (update env rnd dt g))"
  using assms
  by (simp add: update_culled beforeCollisions_bullets beforeCollisions_enemies
      update_bullets_inBounds update_particles_live)

text \<open>
  The hypothesis holds after the step from \<open>oneShot\<close>, where a not-alive bullet and a
  not-alive enemy are in the collections.
\<close>

theorem dead_entities_culled_in_next_step_witness:
  "playerRef (update startedEnv zeroRandom (16 / 1000) oneShot) \<noteq> None \<and>
   map alive (bulletsRef (update startedEnv zeroRandom (16 / 1000) oneShot)) = [False] \<and>
   map alive (enemiesRef (update startedEnv zeroRandom (16 / 1000) oneShot)) = [False] \<and>
   bulletsRef (culled (update startedEnv zeroRandom (16 / 1000) oneShot)) = [] \<and>
   enemiesRef (culled (update startedEnv zeroRandom (16 / 1000) oneShot)) = [] \<and>
   update startedEnv zeroRandom (16 / 1000) (culled (update startedEnv zeroRandom (16 / 1000) oneShot)) =
     update startedEnv zeroRandom (16 / 1000) (update startedEnv zeroRandom (16 / 1000) oneShot) \<and>
   list_all alive (bulletsRef (beforeCollisions startedEnv zeroRandom (16 / 1000)
     (update startedEnv zeroRandom (16 / 1000) oneShot))) \<and>
   list_all alive (enemiesRef (beforeCollisions startedEnv zeroRandom (16 / 1000)
     (update startedEnv zeroRandom (16 / 1000) oneShot))) \<and>
   list_all inBounds (map pos (bulletsRef (update startedEnv zeroRandom (16 / 1000)
     (update startedEnv zeroRandom (16 / 1000) oneShot)))) \<and>
   list_all (\<lambda>p. 0 < life p) (particlesRef (update startedEnv zeroRandom (16 / 1000)
     (update startedEnv zeroRandom (16 / 1000) oneShot)))"
proof -
  let ?G = "update startedEnv zeroRandom (16 / 1000) oneShot"
  have "playerRef oneShot \<noteq> None" by (simp add: oneShot_def)
  then have p: "playerRef ?G \<noteq> None" by (rule update_Some)
  from oneShot_after have a: "map alive (bulletsRef ?G) = [False]" "map alive (enemiesRef ?G) = [False]"
    by simp_all
  from a(1) obtain b where b: "bulletsRef ?G = [b]" "\<not> alive b"
    by (cases "bulletsRef ?G") auto
  from a(2) obtain e where e: "enemiesRef ?G = [e]" "\<not> alive e"
    by (cases "enemiesRef ?G") auto
  have c: "bulletsRef (culled ?G) = []" "enemiesRef (culled ?G) = []"
    using b e by (simp_all add: culled_def)
  note T = dead_entities_culled_in_next_step [OF p, of startedEnv zeroRandom "16 / 1000"]
  from T p a c show ?thesis
    by - (intro conjI; (elim conjE, assumption))
qed

section \<open>Three player hits in three frames\<close>

lemma bulletsVsEnemies_no_bullets: "bulletsRef g = [] \<Longrightarrow> bulletsVsEnemies rnd g = g"
  by (simp add: bulletsVsEnemies_def)

lemma hit_step_1:
  "\<exists>ps' n'. update startedEnv zeroRandom (2 / 125)
     (started\<lparr>enemiesRef := [(enemyAt 240 (667 / 2) 1), (enemyAt 240 (667 / 2) 1), (enemyAt 240 (667 / 2) 1)],
         spawnTimerRef := 1,
         lastTimeRef := lt\<rparr>) =
     started\<lparr>enemiesRef := [(enemyAt 240 (16703 / 50) 1)\<lparr>t := 2 / 125, alive := False\<rparr>, (enemyAt 240 (16703 / 50) 1)\<lparr>t := 2 / 125\<rparr>, (enemyAt 240 (16703 / 50) 1)\<lparr>t := 2 / 125\<rparr>],
       spawnTimerRef := 123 / 125,
       lastTimeRef := lt,
       timeRef := 2 / 125,
       playerRef := Some (newPlayer\<lparr>cooldown := - (2 / 125)\<rparr>),
       lives := 2,
       particlesRef := ps',
       randomCalls := n'\<rparr>"
proof -
  let ?s = "started\<lparr>enemiesRef := [(enemyAt 240 (667 / 2) 1), (enemyAt 240 (667 / 2) 1), (enemyAt 240 (667 / 2) 1)],
       spawnTimerRef := 1,
       lastTimeRef := lt\<rparr>"
  let ?b = "started\<lparr>enemiesRef := [(enemyAt 240 (16703 / 50) 1)\<lparr>t := 2 / 125\<rparr>, (enemyAt 240 (16703 / 50) 1)\<lparr>t := 2 / 125\<rparr>, (enemyAt 240 (16703 / 50) 1)\<lparr>t := 2 / 125\<rparr>],
       spawnTimerRef := 123 / 125,
       lastTimeRef := lt,
       timeRef := 2 / 125,
       playerRef := Some (newPlayer\<lparr>cooldown := - (2 / 125)\<rparr>)\<rparr>"
  have p: "playerRef ?s \<noteq> None" by simp
  have u: "update startedEnv zeroRandom (2 / 125) ?s =
      updateParticles (2 / 125) (enemiesVsPlayer startedEnv zeroRandom
       (bulletsVsEnemies zeroRandom (beforeCollisions startedEnv zeroRandom (2 / 125) ?s)))"
    using p by (rule update_collisions)
  have b: "beforeCollisions startedEnv zeroRandom (2 / 125) ?s = ?b"
    by (simp add: beforeCollisions_def movePlayer_def shoot_def updateBullets_def
      spawnEnemies_def updateEnemies_def steerEnemy_def moveBullet_def Let_def firing_def
      noKeys_def newPlayer_def startPos_def enemyAt_def orOne_def clamp_def
      INTERNAL_WIDTH_def INTERNAL_HEIGHT_def)
  have c: "bulletsVsEnemies zeroRandom ?b = ?b"
    by (rule bulletsVsEnemies_no_bullets) simp
  obtain ps2 n2 where e: "emitExplosion zeroRandom 240 360 ''hsl(var(--destructive))'' ?b =
      ?b\<lparr>particlesRef := ps2, randomCalls := n2\<rparr>"
    by (rule emitExplosion_obtain)
  have h: "enemiesVsPlayer startedEnv zeroRandom ?b =
     started\<lparr>enemiesRef := [(enemyAt 240 (16703 / 50) 1)\<lparr>t := 2 / 125, alive := False\<rparr>, (enemyAt 240 (16703 / 50) 1)\<lparr>t := 2 / 125\<rparr>, (enemyAt 240 (16703 / 50) 1)\<lparr>t := 2 / 125\<rparr>],
       spawnTimerRef := 123 / 125,
       lastTimeRef := lt,
       timeRef := 2 / 125,
       playerRef := Some (newPlayer\<lparr>cooldown := - (2 / 125)\<rparr>),
       lives := 2,
       particlesRef := ps2,
       randomCalls := n2\<rparr>"
    unfolding enemiesVsPlayer_def
    apply (simp add: Let_def dist2_def enemyAt_def newPlayer_def startPos_def hitPlayer_def
       INTERNAL_WIDTH_def INTERNAL_HEIGHT_def)
    apply (simp add: e [unfolded enemyAt_def newPlayer_def startPos_def INTERNAL_WIDTH_def
       INTERNAL_HEIGHT_def, simplified])
    done
  show ?thesis
    unfolding u unfolding b unfolding c unfolding h
    by (rule exI [where x = "filter (\<lambda>p. 0 < life p) (map (moveParticle (2 / 125)) ps2)"],
        rule exI [where x = n2])
       (simp add: updateParticles_def)
qed

lemma hit_step_2:
  "\<exists>ps' n'. update startedEnv zeroRandom (2 / 125)
     (started\<lparr>enemiesRef := [(enemyAt 240 (16703 / 50) 1)\<lparr>t := 2 / 125, alive := False\<rparr>, (enemyAt 240 (16703 / 50) 1)\<lparr>t := 2 / 125\<rparr>, (enemyAt 240 (16703 / 50) 1)\<lparr>t := 2 / 125\<rparr>],
         spawnTimerRef := 123 / 125,
         lastTimeRef := lt,
         timeRef := 2 / 125,
         playerRef := Some (newPlayer\<lparr>cooldown := - (2 / 125)\<rparr>),
         lives := 2,
         particlesRef := ps,
         randomCalls := n\<rparr>) =
     started\<lparr>enemiesRef := [(enemyAt 240 (16731 / 50) 1)\<lparr>t := 4 / 125, alive := False\<rparr>, (enemyAt 240 (16731 / 50) 1)\<lparr>t := 4 / 125\<rparr>],
       spawnTimerRef := 121 / 125,
       lastTimeRef := lt,
       timeRef := 4 / 125,
       playerRef := Some (newPlayer\<lparr>cooldown := - (4 / 125)\<rparr>),
       lives := 1,
       particlesRef := ps',
       randomCalls := n'\<rparr>"
proof -
  let ?s = "started\<lparr>enemiesRef := [(enemyAt 240 (16703 / 50) 1)\<lparr>t := 2 / 125, alive := False\<rparr>, (enemyAt 240 (16703 / 50) 1)\<lparr>t := 2 / 125\<rparr>, (enemyAt 240 (16703 / 50) 1)\<lparr>t := 2 / 125\<rparr>],
       spawnTimerRef := 123 / 125,
       lastTimeRef := lt,
       timeRef := 2 / 125,
       playerRef := Some (newPlayer\<lparr>cooldown := - (2 / 125)\<rparr>),
       lives := 2,
       particlesRef := ps,
       randomCalls := n\<rparr>"
  let ?b = "started\<lparr>enemiesRef := [(enemyAt 240 (16731 / 50) 1)\<lparr>t := 4 / 125\<rparr>, (enemyAt 240 (16731 / 50) 1)\<lparr>t := 4 / 125\<rparr>],
       spawnTimerRef := 121 / 125,
       lastTimeRef := lt,
       timeRef := 4 / 125,
       playerRef := Some (newPlayer\<lparr>cooldown := - (4 / 125)\<rparr>),
       lives := 2,
       particlesRef := ps,
       randomCalls := n\<rparr>"
  have p: "playerRef ?s \<noteq> None" by simp
  have u: "update startedEnv zeroRandom (2 / 125) ?s =
      updateParticles (2 / 125) (enemiesVsPlayer startedEnv zeroRandom
       (bulletsVsEnemies zeroRandom (beforeCollisions startedEnv zeroRandom (2 / 125) ?s)))"
    using p by (rule update_collisions)
  have b: "beforeCollisions startedEnv zeroRandom (2 / 125) ?s = ?b"
    by (simp add: beforeCollisions_def movePlayer_def shoot_def updateBullets_def
      spawnEnemies_def updateEnemies_def steerEnemy_def moveBullet_def Let_def firing_def
      noKeys_def newPlayer_def startPos_def enemyAt_def orOne_def clamp_def
      INTERNAL_WIDTH_def INTERNAL_HEIGHT_def)
  have c: "bulletsVsEnemies zeroRandom ?b = ?b"
    by (rule bulletsVsEnemies_no_bullets) simp
  obtain ps2 n2 where e: "emitExplosion zeroRandom 240 360 ''hsl(var(--destructive))'' ?b =
      ?b\<lparr>particlesRef := ps2, randomCalls := n2\<rparr>"
    by (rule emitExplosion_obtain)
  have h: "enemiesVsPlayer startedEnv zeroRandom ?b =
     started\<lparr>enemiesRef := [(enemyAt 240 (16731 / 50) 1)\<lparr>t := 4 / 125, alive := False\<rparr>, (enemyAt 240 (16731 / 50) 1)\<lparr>t := 4 / 125\<rparr>],
       spawnTimerRef := 121 / 125,
       lastTimeRef := lt,
       timeRef := 4 / 125,
       playerRef := Some (newPlayer\<lparr>cooldown := - (4 / 125)\<rparr>),
       lives := 1,
       particlesRef := ps2,
       randomCalls := n2\<rparr>"
    unfolding enemiesVsPlayer_def
    apply (simp add: Let_def dist2_def enemyAt_def newPlayer_def startPos_def hitPlayer_def
       INTERNAL_WIDTH_def INTERNAL_HEIGHT_def)
    apply (simp add: e [unfolded enemyAt_def newPlayer_def startPos_def INTERNAL_WIDTH_def
       INTERNAL_HEIGHT_def, simplified])
    done
  show ?thesis
    unfolding u unfolding b unfolding c unfolding h
    by (rule exI [where x = "filter (\<lambda>p. 0 < life p) (map (moveParticle (2 / 125)) ps2)"],
        rule exI [where x = n2])
       (simp add: updateParticles_def)
qed

lemma hit_step_3:
  "\<exists>ps' n'. update startedEnv zeroRandom (2 / 125)
     (started\<lparr>enemiesRef := [(enemyAt 240 (16731 / 50) 1)\<lparr>t := 4 / 125, alive := False\<rparr>, (enemyAt 240 (16731 / 50) 1)\<lparr>t := 4 / 125\<rparr>],
         spawnTimerRef := 121 / 125,
         lastTimeRef := lt,
         timeRef := 4 / 125,
         playerRef := Some (newPlayer\<lparr>cooldown := - (4 / 125)\<rparr>),
         lives := 1,
         particlesRef := ps,
         randomCalls := n\<rparr>) =
     started\<lparr>enemiesRef := [(enemyAt 240 (16759 / 50) 1)\<lparr>t := 6 / 125, alive := False\<rparr>],
       spawnTimerRef := 119 / 125,
       lastTimeRef := lt,
       timeRef := 6 / 125,
       playerRef := Some (newPlayer\<lparr>cooldown := - (6 / 125)\<rparr>),
       lives := 0,
       particlesRef := ps',
       randomCalls := n'\<rparr>"
proof -
  let ?s = "started\<lparr>enemiesRef := [(enemyAt 240 (16731 / 50) 1)\<lparr>t := 4 / 125, alive := False\<rparr>, (enemyAt 240 (16731 / 50) 1)\<lparr>t := 4 / 125\<rparr>],
       spawnTimerRef := 121 / 125,
       lastTimeRef := lt,
       timeRef := 4 / 125,
       playerRef := Some (newPlayer\<lparr>cooldown := - (4 / 125)\<rparr>),
       lives := 1,
       particlesRef := ps,
       randomCalls := n\<rparr>"
  let ?b = "started\<lparr>enemiesRef := [(enemyAt 240 (16759 / 50) 1)\<lparr>t := 6 / 125\<rparr>],
       spawnTimerRef := 119 / 125,
       lastTimeRef := lt,
       timeRef := 6 / 125,
       playerRef := Some (newPlayer\<lparr>cooldown := - (6 / 125)\<rparr>),
       lives := 1,
       particlesRef := ps,
       randomCalls := n\<rparr>"
  have p: "playerRef ?s \<noteq> None" by simp
  have u: "update startedEnv zeroRandom (2 / 125) ?s =
      updateParticles (2 / 125) (enemiesVsPlayer startedEnv zeroRandom
       (bulletsVsEnemies zeroRandom (beforeCollisions startedEnv zeroRandom (2 / 125) ?s)))"
    using p by (rule update_collisions)
  have b: "beforeCollisions startedEnv zeroRandom (2 / 125) ?s = ?b"
    by (simp add: beforeCollisions_def movePlayer_def shoot_def updateBullets_def
      spawnEnemies_def updateEnemies_def steerEnemy_def moveBullet_def Let_def firing_def
      noKeys_def newPlayer_def startPos_def enemyAt_def orOne_def clamp_def
      INTERNAL_WIDTH_def INTERNAL_HEIGHT_def)
  have c: "bulletsVsEnemies zeroRandom ?b = ?b"
    by (rule bulletsVsEnemies_no_bullets) simp
  obtain ps2 n2 where e: "emitExplosion zeroRandom 240 360 ''hsl(var(--destructive))'' ?b =
      ?b\<lparr>particlesRef := ps2, randomCalls := n2\<rparr>"
    by (rule emitExplosion_obtain)
  have h: "enemiesVsPlayer startedEnv zeroRandom ?b =
     started\<lparr>enemiesRef := [(enemyAt 240 (16759 / 50) 1)\<lparr>t := 6 / 125, alive := False\<rparr>],
       spawnTimerRef := 119 / 125,
       lastTimeRef := lt,
       timeRef := 6 / 125,
       playerRef := Some (newPlayer\<lparr>cooldown := - (6 / 125)\<rparr>),
       lives := 0,
       particlesRef := ps2,
       randomCalls := n2\<rparr>"
    unfolding enemiesVsPlayer_def
    apply (simp add: Let_def dist2_def enemyAt_def newPlayer_def startPos_def hitPlayer_def
       INTERNAL_WIDTH_def INTERNAL_HEIGHT_def)
    apply (simp add: e [unfolded enemyAt_def newPlayer_def startPos_def INTERNAL_WIDTH_def
       INTERNAL_HEIGHT_def, simplified])
    done
  show ?thesis
    unfolding u unfolding b unfolding c unfolding h
    by (rule exI [where x = "filter (\<lambda>p. 0 < life p) (map (moveParticle (2 / 125)) ps2)"],
        rule exI [where x = n2])
       (simp add: updateParticles_def)
qed

text \<open>A frame of the running loop, and a render that changes none of the three flags.\<close>

lemma frame_running:
  assumes "running (closure a)" and "\<not> paused (closure a)" and "\<not> gameOver (closure a)"
    and "lastTimeRef (game a) = Some prev"
  shows "frame rnd now a =
           commit rnd (a\<lparr>game := update (closure a) rnd (frameDt now prev)
                                   ((game a)\<lparr>lastTimeRef := Some now\<rparr>)\<rparr>)"
  using assms by (simp add: frame_def loop_def Let_def)

lemma commit_same:
  assumes "running (game a) = running (closure a)" and "paused (game a) = paused (closure a)"
    and "gameOver (game a) = gameOver (closure a)"
  shows "commit rnd a = a"
  using assms by (simp add: commit_def Let_def)

lemma frameDt_16: "frameDt 16 0 = 2 / 125" "frameDt 32 16 = 2 / 125" "frameDt 48 32 = 2 / 125"
  by (simp_all add: frameDt_def)

lemma hit_frame_1:
  "\<exists>ps' n'. frame zeroRandom 16
     \<lparr>game = started\<lparr>enemiesRef := [(enemyAt 240 (667 / 2) 1), (enemyAt 240 (667 / 2) 1), (enemyAt 240 (667 / 2) 1)],
         spawnTimerRef := 1,
         lastTimeRef := Some 0\<rparr>,
      closure = startedEnv\<rparr> =
     \<lparr>game = started\<lparr>enemiesRef := [(enemyAt 240 (16703 / 50) 1)\<lparr>t := 2 / 125, alive := False\<rparr>, (enemyAt 240 (16703 / 50) 1)\<lparr>t := 2 / 125\<rparr>, (enemyAt 240 (16703 / 50) 1)\<lparr>t := 2 / 125\<rparr>],
       spawnTimerRef := 123 / 125,
       lastTimeRef := Some 16,
       timeRef := 2 / 125,
       playerRef := Some (newPlayer\<lparr>cooldown := - (2 / 125)\<rparr>),
       lives := 2,
       particlesRef := ps',
       randomCalls := n'\<rparr>,
      closure = startedEnv\<rparr>"
proof -
  let ?a = "\<lparr>game = started\<lparr>enemiesRef := [(enemyAt 240 (667 / 2) 1), (enemyAt 240 (667 / 2) 1), (enemyAt 240 (667 / 2) 1)],
       spawnTimerRef := 1,
       lastTimeRef := Some 0\<rparr>,
      closure = startedEnv\<rparr>"
  from hit_step_1 [where lt = "Some 16"] obtain ps' n' where
    u: "update startedEnv zeroRandom (2 / 125)
     (started\<lparr>enemiesRef := [(enemyAt 240 (667 / 2) 1), (enemyAt 240 (667 / 2) 1), (enemyAt 240 (667 / 2) 1)],
         spawnTimerRef := 1,
         lastTimeRef := Some 16\<rparr>) =
     started\<lparr>enemiesRef := [(enemyAt 240 (16703 / 50) 1)\<lparr>t := 2 / 125, alive := False\<rparr>, (enemyAt 240 (16703 / 50) 1)\<lparr>t := 2 / 125\<rparr>, (enemyAt 240 (16703 / 50) 1)\<lparr>t := 2 / 125\<rparr>],
       spawnTimerRef := 123 / 125,
       lastTimeRef := Some 16,
       timeRef := 2 / 125,
       playerRef := Some (newPlayer\<lparr>cooldown := - (2 / 125)\<rparr>),
       lives := 2,
       particlesRef := ps',
       randomCalls := n'\<rparr>"
    by blast
  have g: "(game ?a)\<lparr>lastTimeRef := Some 16\<rparr> =
     started\<lparr>enemiesRef := [(enemyAt 240 (667 / 2) 1), (enemyAt 240 (667 / 2) 1), (enemyAt 240 (667 / 2) 1)],
         spawnTimerRef := 1,
         lastTimeRef := Some 16\<rparr>"
    by simp
  have c: "closure ?a = startedEnv" by simp
  have "frame zeroRandom 16 ?a =
      commit zeroRandom (?a\<lparr>game := update (closure ?a) zeroRandom (frameDt 16 0)
                                   ((game ?a)\<lparr>lastTimeRef := Some 16\<rparr>)\<rparr>)"
    by (rule frame_running) simp_all
  also have "\<dots> = commit zeroRandom \<lparr>game = started\<lparr>enemiesRef := [(enemyAt 240 (16703 / 50) 1)\<lparr>t := 2 / 125, alive := False\<rparr>, (enemyAt 240 (16703 / 50) 1)\<lparr>t := 2 / 125\<rparr>, (enemyAt 240 (16703 / 50) 1)\<lparr>t := 2 / 125\<rparr>],
       spawnTimerRef := 123 / 125,
       lastTimeRef := Some 16,
       timeRef := 2 / 125,
       playerRef := Some (newPlayer\<lparr>cooldown := - (2 / 125)\<rparr>),
       lives := 2,
       particlesRef := ps',
       randomCalls := n'\<rparr>,
      closure = startedEnv\<rparr>"
    unfolding frameDt_16 g c u by simp
  also have "\<dots> = \<lparr>game = started\<lparr>enemiesRef := [(enemyAt 240 (16703 / 50) 1)\<lparr>t := 2 / 125, alive := False\<rparr>, (enemyAt 240 (16703 / 50) 1)\<lparr>t := 2 / 125\<rparr>, (enemyAt 240 (16703 / 50) 1)\<lparr>t := 2 / 125\<rparr>],
       spawnTimerRef := 123 / 125,
       lastTimeRef := Some 16,
       timeRef := 2 / 125,
       playerRef := Some (newPlayer\<lparr>cooldown := - (2 / 125)\<rparr>),
       lives := 2,
       particlesRef := ps',
       randomCalls := n'\<rparr>,
      closure = startedEnv\<rparr>"
    by (rule commit_same) simp_all
  finally show ?thesis by blast
qed

lemma hit_frame_2:
  "\<exists>ps' n'. frame zeroRandom 32
     \<lparr>game = started\<lparr>enemiesRef := [(enemyAt 240 (16703 / 50) 1)\<lparr>t := 2 / 125, alive := False\<rparr>, (enemyAt 240 (16703 / 50) 1)\<lparr>t := 2 / 125\<rparr>, (enemyAt 240 (16703 / 50) 1)\<lparr>t := 2 / 125\<rparr>],
         spawnTimerRef := 123 / 125,
         lastTimeRef := Some 16,
         timeRef := 2 / 125,
         playerRef := Some (newPlayer\<lparr>cooldown := - (2 / 125)\<rparr>),
         lives := 2,
         particlesRef := ps,
         randomCalls := n\<rparr>,
      closure = startedEnv\<rparr> =
     \<lparr>game = started\<lparr>enemiesRef := [(enemyAt 240 (16731 / 50) 1)\<lparr>t := 4 / 125, alive := False\<rparr>, (enemyAt 240 (16731 / 50) 1)\<lparr>t := 4 / 125\<rparr>],
       spawnTimerRef := 121 / 125,
       lastTimeRef := Some 32,
       timeRef := 4 / 125,
       playerRef := Some (newPlayer\<lparr>cooldown := - (4 / 125)\<rparr>),
       lives := 1,
       particlesRef := ps',
       randomCalls := n'\<rparr>,
      closure = startedEnv\<rparr>"
proof -
  let ?a = "\<lparr>game = started\<lparr>enemiesRef := [(enemyAt 240 (16703 / 50) 1)\<lparr>t := 2 / 125, alive := False\<rparr>, (enemyAt 240 (16703 / 50) 1)\<lparr>t := 2 / 125\<rparr>, (enemyAt 240 (16703 / 50) 1)\<lparr>t := 2 / 125\<rparr>],
       spawnTimerRef := 123 / 125,
       lastTimeRef := Some 16,
       timeRef := 2 / 125,
       playerRef := Some (newPlayer\<lparr>cooldown := - (2 / 125)\<rparr>),
       lives := 2,
       particlesRef := ps,
       randomCalls := n\<rparr>,
      closure = startedEnv\<rparr>"
  from hit_step_2 [where lt = "Some 32" and ps = ps and n = n] obtain ps' n' where
    u: "update startedEnv zeroRandom (2 / 125)
     (started\<lparr>enemiesRef := [(enemyAt 240 (16703 / 50) 1)\<lparr>t := 2 / 125, alive := False\<rparr>, (enemyAt 240 (16703 / 50) 1)\<lparr>t := 2 / 125\<rparr>, (enemyAt 240 (16703 / 50) 1)\<lparr>t := 2 / 125\<rparr>],
         spawnTimerRef := 123 / 125,
         lastTimeRef := Some 32,
         timeRef := 2 / 125,
         playerRef := Some (newPlayer\<lparr>cooldown := - (2 / 125)\<rparr>),
         lives := 2,
         particlesRef := ps,
         randomCalls := n\<rparr>) =
     started\<lparr>enemiesRef := [(enemyAt 240 (16731 / 50) 1)\<lparr>t := 4 / 125, alive := False\<rparr>, (enemyAt 240 (16731 / 50) 1)\<lparr>t := 4 / 125\<rparr>],
       spawnTimerRef := 121 / 125,
       lastTimeRef := Some 32,
       timeRef := 4 / 125,
       playerRef := Some (newPlayer\<lparr>cooldown := - (4 / 125)\<rparr>),
       lives := 1,
       particlesRef := ps',
       randomCalls := n'\<rparr>"
    by blast
  have g: "(game ?a)\<lparr>lastTimeRef := Some 32\<rparr> =
     started\<lparr>enemiesRef := [(enemyAt 240 (16703 / 50) 1)\<lparr>t := 2 / 125, alive := False\<rparr>, (enemyAt 240 (16703 / 50) 1)\<lparr>t := 2 / 125\<rparr>, (enemyAt 240 (16703 / 50) 1)\<lparr>t := 2 / 125\<rparr>],
         spawnTimerRef := 123 / 125,
         lastTimeRef := Some 32,
         timeRef := 2 / 125,
         playerRef := Some (newPlayer\<lparr>cooldown := - (2 / 125)\<rparr>),
         lives := 2,
         particlesRef := ps,
         randomCalls := n\<rparr>"
    by simp
  have c: "closure ?a = startedEnv" by simp
  have "frame zeroRandom 32 ?a =
      commit zeroRandom (?a\<lparr>game := update (closure ?a) zeroRandom (frameDt 32 16)
                                   ((game ?a)\<lparr>lastTimeRef := Some 32\<rparr>)\<rparr>)"
    by (rule frame_running) simp_all
  also have "\<dots> = commit zeroRandom \<lparr>game = started\<lparr>enemiesRef := [(enemyAt 240 (16731 / 50) 1)\<lparr>t := 4 / 125, alive := False\<rparr>, (enemyAt 240 (16731 / 50) 1)\<lparr>t := 4 / 125\<rparr>],
       spawnTimerRef := 121 / 125,
       lastTimeRef := Some 32,
       timeRef := 4 / 125,
       playerRef := Some (newPlayer\<lparr>cooldown := - (4 / 125)\<rparr>),
       lives := 1,
       particlesRef := ps',
       randomCalls := n'\<rparr>,
      closure = startedEnv\<rparr>"
    unfolding frameDt_16 g c u by simp
  also have "\<dots> = \<lparr>game = started\<lparr>enemiesRef := [(enemyAt 240 (16731 / 50) 1)\<lparr>t := 4 / 125, alive := False\<rparr>, (enemyAt 240 (16731 / 50) 1)\<lparr>t := 4 / 125\<rparr>],
       spawnTimerRef := 121 / 125,
       lastTimeRef := Some 32,
       timeRef := 4 / 125,
       playerRef := Some (newPlayer\<lparr>cooldown := - (4 / 125)\<rparr>),
       lives := 1,
       particlesRef := ps',
       randomCalls := n'\<rparr>,
      closure = startedEnv\<rparr>"
    by (rule commit_same) simp_all
  finally show ?thesis by blast
qed

lemma hit_frame_3:
  "\<exists>ps' n'. frame zeroRandom 48
     \<lparr>game = started\<lparr>enemiesRef := [(enemyAt 240 (16731 / 50) 1)\<lparr>t := 4 / 125, alive := False\<rparr>, (enemyAt 240 (16731 / 50) 1)\<lparr>t := 4 / 125\<rparr>],
         spawnTimerRef := 121 / 125,
         lastTimeRef := Some 32,
         timeRef := 4 / 125,
         playerRef := Some (newPlayer\<lparr>cooldown := - (4 / 125)\<rparr>),
         lives := 1,
         particlesRef := ps,
         randomCalls := n\<rparr>,
      closure = startedEnv\<rparr> =
     \<lparr>game = started\<lparr>enemiesRef := [(enemyAt 240 (16759 / 50) 1)\<lparr>t := 6 / 125, alive := False\<rparr>],
       spawnTimerRef := 119 / 125,
       lastTimeRef := Some 48,
       timeRef := 6 / 125,
       playerRef := Some (newPlayer\<lparr>cooldown := - (6 / 125)\<rparr>),
       lives := 0,
       particlesRef := ps',
       randomCalls := n'\<rparr>,
      closure = startedEnv\<rparr>"
proof -
  let ?a = "\<lparr>game = started\<lparr>enemiesRef := [(enemyAt 240 (16731 / 50) 1)\<lparr>t := 4 / 125, alive := False\<rparr>, (enemyAt 240 (16731 / 50) 1)\<lparr>t := 4 / 125\<rparr>],
       spawnTimerRef := 121 / 125,
       lastTimeRef := Some 32,
       timeRef := 4 / 125,
       playerRef := Some (newPlayer\<lparr>cooldown := - (4 / 125)\<rparr>),
       lives := 1,
       particlesRef := ps,
       randomCalls := n\<rparr>,
      closure = startedEnv\<rparr>"
  from hit_step_3 [where lt = "Some 48" and ps = ps and n = n] obtain ps' n' where
    u: "update startedEnv zeroRandom (2 / 125)
     (started\<lparr>enemiesRef := [(enemyAt 240 (16731 / 50) 1)\<lparr>t := 4 / 125, alive := False\<rparr>, (enemyAt 240 (16731 / 50) 1)\<lparr>t := 4 / 125\<rparr>],
         spawnTimerRef := 121 / 125,
         lastTimeRef := Some 48,
         timeRef := 4 / 125,
         playerRef := Some (newPlayer\<lparr>cooldown := - (4 / 125)\<rparr>),
         lives := 1,
         particlesRef := ps,
         randomCalls := n\<rparr>) =
     started\<lparr>enemiesRef := [(enemyAt 240 (16759 / 50) 1)\<lparr>t := 6 / 125, alive := False\<rparr>],
       spawnTimerRef := 119 / 125,
       lastTimeRef := Some 48,
       timeRef := 6 / 125,
       playerRef := Some (newPlayer\<lparr>cooldown := - (6 / 125)\<rparr>),
       lives := 0,
       particlesRef := ps',
       randomCalls := n'\<rparr>"
    by blast
  have g: "(game ?a)\<lparr>lastTimeRef := Some 48\<rparr> =
     started\<lparr>enemiesRef := [(enemyAt 240 (16731 / 50) 1)\<lparr>t := 4 / 125, alive := False\<rparr>, (enemyAt 240 (16731 / 50) 1)\<lparr>t := 4 / 125\<rparr>],
         spawnTimerRef := 121 / 125,
         lastTimeRef := Some 48,
         timeRef := 4 / 125,
         playerRef := Some (newPlayer\<lparr>cooldown := - (4 / 125)\<rparr>),
         lives := 1,
         particlesRef := ps,
         randomCalls := n\<rparr>"
    by simp
  have c: "closure ?a = startedEnv" by simp
  have "frame zeroRandom 48 ?a =
      commit zeroRandom (?a\<lparr>game := update (closure ?a) zeroRandom (frameDt 48 32)
                                   ((game ?a)\<lparr>lastTimeRef := Some 48\<rparr>)\<rparr>)"
    by (rule frame_running) simp_all
  also have "\<dots> = commit zeroRandom \<lparr>game = started\<lparr>enemiesRef := [(enemyAt 240 (16759 / 50) 1)\<lparr>t := 6 / 125, alive := False\<rparr>],
       spawnTimerRef := 119 / 125,
       lastTimeRef := Some 48,
       timeRef := 6 / 125,
       playerRef := Some (newPlayer\<lparr>cooldown := - (6 / 125)\<rparr>),
       lives := 0,
       particlesRef := ps',
       randomCalls := n'\<rparr>,
      closure = startedEnv\<rparr>"
    unfolding frameDt_16 g c u by simp
  also have "\<dots> = \<lparr>game = started\<lparr>enemiesRef := [(enemyAt 240 (16759 / 50) 1)\<lparr>t := 6 / 125, alive := False\<rparr>],
       spawnTimerRef := 119 / 125,
       lastTimeRef := Some 48,
       timeRef := 6 / 125,
       playerRef := Some (newPlayer\<lparr>cooldown := - (6 / 125)\<rparr>),
       lives := 0,
       particlesRef := ps',
       randomCalls := n'\<rparr>,
      closure = startedEnv\<rparr>"
    by (rule commit_same) simp_all
  finally show ?thesis by blast
qed


lemma clickStart_mounted:
  "clickStart rnd mountedApp = \<lparr>game = started, closure = startedEnv\<rparr>"
  by (simp add: clickStart_def commit_def mountedApp_def started_def startedEnv_def
      snapshot_def initGame_def mounted_def Let_def)

text \<open>
  While the render of the running loop has more than one life, no step ends the session,
  whatever the \<^verbatim>\<open>lives\<close> cell holds.
\<close>

lemma update_no_game_over:
  assumes "1 < lives env"
  shows "gameOver (update env rnd dt g) = gameOver g \<and> running (update env rnd dt g) = running g"
proof (cases "playerRef g")
  case None
  then show ?thesis by (simp add: update_def)
next
  case (Some p)
  let ?b = "bulletsVsEnemies rnd (beforeCollisions env rnd dt g)"
  have u: "update env rnd dt g = updateParticles dt (enemiesVsPlayer env rnd ?b)"
    using Some by (simp add: update_collisions)
  have f: "gameOver ?b = gameOver g" "running ?b = running g"
    by (simp_all add: beforeCollisions_def)
  have "gameOver (enemiesVsPlayer env rnd ?b) = gameOver ?b \<and>
        running (enemiesVsPlayer env rnd ?b) = running ?b"
  proof (cases "playerRef ?b")
    case None
    then show ?thesis by simp
  next
    case (Some q)
    show ?thesis
    proof (rule enemiesVsPlayer_cases [OF Some, of env rnd])
      fix es
      assume "enemiesVsPlayer env rnd ?b = ?b\<lparr>enemiesRef := es\<rparr>"
      then show ?thesis by simp
    next
      fix es
      assume "enemiesVsPlayer env rnd ?b = (hitPlayer env rnd q ?b)\<lparr>enemiesRef := es\<rparr>"
      with assms show ?thesis by simp
    qed
  qed
  with f show ?thesis unfolding u by simp
qed

text \<open>
  What the test of \<^verbatim>\<open>hitPlayer\<close> does when it reads a fresh value: with the render's
  \<^verbatim>\<open>lives\<close> equal to the cell, the session ends exactly when the cell reaches 0 or less.
  A render replaces the loop's closure only when one of the three flags changed, as the
  pause toggle does; a player hit alone changes none of them.
\<close>

lemma hitPlayer_fresh:
  "lives env = lives g \<Longrightarrow>
     gameOver (hitPlayer env rnd p g) = (lives (hitPlayer env rnd p g) \<le> 0 \<or> gameOver g)"
  by simp

lemma commit_closure:
  "closure (commit rnd a) =
     (if running (game a) \<noteq> running (closure a) \<or> paused (game a) \<noteq> paused (closure a)
         \<or> gameOver (game a) \<noteq> gameOver (closure a)
      then snapshot (game a) else closure a)"
  by (simp add: commit_def Let_def)

lemma togglePause_closure:
  "paused (game a) = paused (closure a) \<Longrightarrow>
     closure (togglePause rnd a) = snapshot ((game a)\<lparr>paused := \<not> paused (game a)\<rparr>)"
  by (auto simp: togglePause_def commit_closure)

text \<open>
  Claim C1 at a failing input. A click on \<^verbatim>\<open>Start Game\<close> gives the started session with
  3 lives and installs the loop of that render. In \<open>threeClose\<close>, three frames 16 ms
  apart each bring one enemy into contact: each frame takes one life and puts the player
  at the start position. After the third hit the \<^verbatim>\<open>lives\<close> cell is 0, but the session
  is not over: \<^verbatim>\<open>gameOver\<close> is false, \<^verbatim>\<open>running\<close> is true and the player is alive,
  because the test \<^verbatim>\<open>lives - 1 <= 0\<close> reads \<^verbatim>\<open>lives\<close> from the render of the running loop,
  which still holds 3.
\<close>

theorem no_game_over_on_third_hit:
  "clickStart zeroRandom mountedApp = \<lparr>game = started, closure = startedEnv\<rparr> \<and>
   closure threeClose = startedEnv \<and> lives (game threeClose) = 3 \<and>
   lives (game (frame zeroRandom 16 threeClose)) = 2 \<and>
   map_option pos (playerRef (game (frame zeroRandom 16 threeClose))) = Some startPos \<and>
   \<not> gameOver (game (frame zeroRandom 16 threeClose)) \<and>
   lives (game (frame zeroRandom 32 (frame zeroRandom 16 threeClose))) = 1 \<and>
   map_option pos (playerRef (game (frame zeroRandom 32 (frame zeroRandom 16 threeClose)))) =
     Some startPos \<and>
   \<not> gameOver (game (frame zeroRandom 32 (frame zeroRandom 16 threeClose))) \<and>
   lives (game (frame zeroRandom 48 (frame zeroRandom 32 (frame zeroRandom 16 threeClose)))) = 0 \<and>
   \<not> gameOver (game (frame zeroRandom 48 (frame zeroRandom 32 (frame zeroRandom 16 threeClose)))) \<and>
   running (game (frame zeroRandom 48 (frame zeroRandom 32 (frame zeroRandom 16 threeClose)))) \<and>
   map_option alive (playerRef (game
     (frame zeroRandom 48 (frame zeroRandom 32 (frame zeroRandom 16 threeClose))))) = Some True \<and>
   map_option pos (playerRef (game
     (frame zeroRandom 48 (frame zeroRandom 32 (frame zeroRandom 16 threeClose))))) = Some startPos \<and>
   lives (closure (frame zeroRandom 48 (frame zeroRandom 32 (frame zeroRandom 16 threeClose)))) = 3"
proof -
  have t: "threeClose = \<lparr>game = started\<lparr>enemiesRef := [(enemyAt 240 (667 / 2) 1), (enemyAt 240 (667 / 2) 1), (enemyAt 240 (667 / 2) 1)],
       spawnTimerRef := 1,
       lastTimeRef := Some 0\<rparr>,
      closure = startedEnv\<rparr>"
    by (simp add: threeClose_def)
  from hit_frame_1 obtain ps1 n1 where
    f1: "frame zeroRandom 16 threeClose = \<lparr>game = started\<lparr>enemiesRef := [(enemyAt 240 (16703 / 50) 1)\<lparr>t := 2 / 125, alive := False\<rparr>, (enemyAt 240 (16703 / 50) 1)\<lparr>t := 2 / 125\<rparr>, (enemyAt 240 (16703 / 50) 1)\<lparr>t := 2 / 125\<rparr>],
       spawnTimerRef := 123 / 125,
       lastTimeRef := Some 16,
       timeRef := 2 / 125,
       playerRef := Some (newPlayer\<lparr>cooldown := - (2 / 125)\<rparr>),
       lives := 2,
       particlesRef := ps1,
       randomCalls := n1\<rparr>,
      closure = startedEnv\<rparr>"
    unfolding t by blast
  from hit_frame_2 [where ps = ps1 and n = n1] obtain ps2 n2 where
    f2: "frame zeroRandom 32 (\<lparr>game = started\<lparr>enemiesRef := [(enemyAt 240 (16703 / 50) 1)\<lparr>t := 2 / 125, alive := False\<rparr>, (enemyAt 240 (16703 / 50) 1)\<lparr>t := 2 / 125\<rparr>, (enemyAt 240 (16703 / 50) 1)\<lparr>t := 2 / 125\<rparr>],
       spawnTimerRef := 123 / 125,
       lastTimeRef := Some 16,
       timeRef := 2 / 125,
       playerRef := Some (newPlayer\<lparr>cooldown := - (2 / 125)\<rparr>),
       lives := 2,
       particlesRef := ps1,
       randomCalls := n1\<rparr>,
      closure = startedEnv\<rparr>) = \<lparr>game = started\<lparr>enemiesRef := [(enemyAt 240 (16731 / 50) 1)\<lparr>t := 4 / 125, alive := False\<rparr>, (enemyAt 240 (16731 / 50) 1)\<lparr>t := 4 / 125\<rparr>],
       spawnTimerRef := 121 / 125,
       lastTimeRef := Some 32,
       timeRef := 4 / 125,
       playerRef := Some (newPlayer\<lparr>cooldown := - (4 / 125)\<rparr>),
       lives := 1,
       particlesRef := ps2,
       randomCalls := n2\<rparr>,
      closure = startedEnv\<rparr>"
    by blast
  from hit_frame_3 [where ps = ps2 and n = n2] obtain ps3 n3 where
    f3: "frame zeroRandom 48 (\<lparr>game = started\<lparr>enemiesRef := [(enemyAt 240 (16731 / 50) 1)\<lparr>t := 4 / 125, alive := False\<rparr>, (enemyAt 240 (16731 / 50) 1)\<lparr>t := 4 / 125\<rparr>],
       spawnTimerRef := 121 / 125,
       lastTimeRef := Some 32,
       timeRef := 4 / 125,
       playerRef := Some (newPlayer\<lparr>cooldown := - (4 / 125)\<rparr>),
       lives := 1,
       particlesRef := ps2,
       randomCalls := n2\<rparr>,
      closure = startedEnv\<rparr>) = \<lparr>game = started\<lparr>enemiesRef := [(enemyAt 240 (16759 / 50) 1)\<lparr>t := 6 / 125, alive := False\<rparr>],
       spawnTimerRef := 119 / 125,
       lastTimeRef := Some 48,
       timeRef := 6 / 125,
       playerRef := Some (newPlayer\<lparr>cooldown := - (6 / 125)\<rparr>),
       lives := 0,
       particlesRef := ps3,
       randomCalls := n3\<rparr>,
      closure = startedEnv\<rparr>"
    by blast
  have c: "clickStart zeroRandom mountedApp = \<lparr>game = started, closure = startedEnv\<rparr>"
    by (rule clickStart_mounted)
  have s: "closure threeClose = startedEnv" "lives (game threeClose) = 3"
    by (simp_all add: threeClose_def)
  show ?thesis
    unfolding f1 f2 f3 using c s by (simp add: newPlayer_def)
qed

section \<open>A session that reaches contact\<close>

text \<open>The first wave under \<open>centreRandom\<close>.\<close>

lemma wave_4:
  "wave env rnd n 4 = [spawned env rnd n, spawned env rnd (n + 3), spawned env rnd (n + 6),
     spawned env rnd (n + 9)]"
proof -
  have "(4 :: nat) = Suc (Suc (Suc (Suc 0)))" by simp
  then show ?thesis by (simp only: wave.simps) (simp add: add.assoc)
qed

lemma spawned_first: "spawned startedEnv centreRandom (Suc 0) = incoming 0"
  by (simp add: spawned_def centreRandom_def incoming_def enemyAt_def INTERNAL_WIDTH_def Let_def)

lemma spawned_rear: "2 \<le> n \<Longrightarrow> spawned startedEnv centreRandom n = rear 0"
  by (simp add: spawned_def centreRandom_def rear_def enemyAt_def INTERNAL_WIDTH_def
      INTERNAL_HEIGHT_def Let_def)

lemma wave_centre:
  "wave startedEnv centreRandom (Suc 0) 4 = [incoming 0, rear 0, rear 0, rear 0]"
  by (simp add: wave_4 spawned_first spawned_rear)

text \<open>The player pass changes nothing when no enemy overlaps the player.\<close>

lemma playerLoop_miss:
  "\<forall>e\<in>set es. \<not> dist2 (pos p) (pos e) \<le> (radius p + radius e) * (radius p + radius e) \<Longrightarrow>
     playerLoop env rnd p es g = (es, g)"
  by (induction es) (simp_all add: Let_def)

lemma enemiesVsPlayer_miss:
  "playerRef g = Some p \<Longrightarrow>
   \<forall>e\<in>set (enemiesRef g). \<not> dist2 (pos p) (pos e) \<le> (radius p + radius e) * (radius p + radius e) \<Longrightarrow>
     enemiesVsPlayer env rnd g = g"
  by (simp add: enemiesVsPlayer_def playerLoop_miss)


text \<open>
  The first frame after the start, with \<^verbatim>\<open>w\<close> held: the delta is 0 and the first wave is
  generated.
\<close>

lemma approach_first_before:
  "beforeCollisions startedEnv centreRandom 0 ((applyInput goUp started)\<lparr>lastTimeRef := Some 0\<rparr>) =
     approach 0"
  by (simp add: beforeCollisions_def movePlayer_def shoot_def updateBullets_def
      spawnEnemies_def spawnWave_eq spawnInterval_def updateEnemies_def Let_def firing_def
      applyInput_def goUp_def holdUp_def centreRandom_def wave_centre
      steerEnemy_def incoming_def rear_def enemyAt_def newPlayer_def startPos_def orOne_def clamp_def
      INTERNAL_WIDTH_def INTERNAL_HEIGHT_def approach_def started_def initGame_def mounted_def)


lemma approach_simps [simp]:
  "playerRef (approach k) = Some (newPlayer\<lparr>vel := \<lparr>xc = 0, yc = - 1\<rparr>,
        pos := \<lparr>xc = 240, yc = 360 - 297 / 50 * real k\<rparr>,
        cooldown := - (33 / 1000 * real k)\<rparr>)"
  "enemiesRef (approach k) = [incoming k, rear k, rear k, rear k]"
  "bulletsRef (approach k) = []" "particlesRef (approach k) = []"
  "running (approach k)" "\<not> paused (approach k)" "\<not> gameOver (approach k)"
  "lastTimeRef (approach k) = Some (33 * real k)"
  "lives (approach k) = 3" "score (approach k) = 0"
  by (simp_all add: approach_def)

lemma incoming_simps [simp]:
  "pos (incoming k) = \<lparr>xc = 240, yc = - 25 + 231 / 200 * real k\<rparr>"
  "radius (incoming k) = 14" "alive (incoming k)" "hp (incoming k) = 1"
  "t (incoming k) = 33 / 1000 * real k"
  by (simp_all add: incoming_def enemyAt_def)

lemma rear_simps [simp]:
  "pos (rear k) = \<lparr>xc = 240, yc = 745 - 231 / 200 * real k\<rparr>"
  "radius (rear k) = 14" "alive (rear k)" "hp (rear k) = 1"
  "t (rear k) = 33 / 1000 * real k"
  by (simp_all add: rear_def enemyAt_def)

lemma rear_gap:
  "\<not> dist2 \<lparr>xc = 240, yc = 360 - 297 / 50 * real k\<rparr> (pos (rear k)) \<le> (12 + 14) * (12 + 14)"
proof -
  let ?d = "385 + 957 / 200 * real k"
  have d: "26 < ?d" by (simp add: add_pos_nonneg)
  then have "26 * 26 < ?d * ?d"
    by (intro mult_strict_mono) simp_all
  moreover have "dist2 \<lparr>xc = 240, yc = 360 - 297 / 50 * real k\<rparr> (pos (rear k)) = ?d * ?d"
    by (simp add: dist2_def Let_def algebra_simps)
  ultimately show ?thesis by simp
qed

lemma approach_gap:
  assumes "k \<le> 50"
  shows "\<not> dist2 \<lparr>xc = 240, yc = 360 - 297 / 50 * real k\<rparr> (pos (incoming k)) \<le> (12 + 14) * (12 + 14)"
proof -
  let ?d = "385 - 1419 / 200 * real k"
  from assms have "real k \<le> 50" by simp
  then have d: "26 < ?d" by simp
  then have "26 * 26 < ?d * ?d"
    by (intro mult_strict_mono) simp_all
  moreover have "dist2 \<lparr>xc = 240, yc = 360 - 297 / 50 * real k\<rparr> (pos (incoming k)) = ?d * ?d"
    by (simp add: dist2_def Let_def algebra_simps)
  ultimately show ?thesis by simp
qed

lemma approach_first:
  "update startedEnv centreRandom 0 ((applyInput goUp started)\<lparr>lastTimeRef := Some 0\<rparr>) = approach 0"
proof -
  let ?s = "(applyInput goUp started)\<lparr>lastTimeRef := Some 0\<rparr>"
  have p: "playerRef ?s \<noteq> None" by simp
  have u: "update startedEnv centreRandom 0 ?s =
      updateParticles 0 (enemiesVsPlayer startedEnv centreRandom
       (bulletsVsEnemies centreRandom (beforeCollisions startedEnv centreRandom 0 ?s)))"
    using p by (rule update_collisions)
  have c: "bulletsVsEnemies centreRandom (approach 0) = approach 0"
    by (rule bulletsVsEnemies_no_bullets) simp
  have h: "enemiesVsPlayer startedEnv centreRandom (approach 0) = approach 0"
    using approach_gap [of 0] rear_gap [of 0]
    by (intro enemiesVsPlayer_miss [OF approach_simps(1)]) (simp add: newPlayer_def)
  have q: "updateParticles 0 (approach 0) = approach 0"
    by (simp add: updateParticles_def approach_def)
  show ?thesis
    unfolding u approach_first_before c h q ..
qed


text \<open>An enemy straight above or below the player moves along the vertical.\<close>

lemma steer_down:
  assumes "xc (pos p) = xc (pos e)" and "yc (pos e) < yc (pos p)"
  shows "steerEnemy env dt (Some p) e =
     e\<lparr>t := t e + dt,
       pos := \<lparr>xc = xc (pos e),
               yc = yc (pos e) + (35 + min 80 (real_of_int (score env) * 0.03)) * dt\<rparr>\<rparr>"
proof -
  let ?dy = "yc (pos p) - yc (pos e)"
  from assms(2) have "yc (pos p) \<noteq> yc (pos e)" "\<bar>?dy\<bar> = ?dy" by simp_all
  then show ?thesis using assms(1) by (simp add: steerEnemy_def Let_def orOne_def)
qed

lemma steer_up:
  assumes "xc (pos p) = xc (pos e)" and "yc (pos p) < yc (pos e)"
  shows "steerEnemy env dt (Some p) e =
     e\<lparr>t := t e + dt,
       pos := \<lparr>xc = xc (pos e),
               yc = yc (pos e) - (35 + min 80 (real_of_int (score env) * 0.03)) * dt\<rparr>\<rparr>"
proof -
  let ?dy = "yc (pos p) - yc (pos e)"
  let ?b = "35 + min 80 (real_of_int (score env) * 0.03)"
  from assms(2) have a: "orOne \<bar>?dy\<bar> = yc (pos e) - yc (pos p)" by (simp add: orOne_def)
  from assms(2) have q: "?dy / - ?dy = - 1" by (simp add: divide_eq_minus_1_iff)
  have "yc (pos e) + ?dy / - ?dy * ?b * dt = yc (pos e) + (- 1) * ?b * dt"
    by (simp only: q)
  also have "\<dots> = yc (pos e) - ?b * dt" by (simp add: algebra_simps)
  finally show ?thesis
    using assms(1) a by (simp add: steerEnemy_def Let_def)
qed

lemma movedPlayer_up:
  "movedPlayer holdUp dt p =
     p\<lparr>vel := \<lparr>xc = 0, yc = - 1\<rparr>,
       pos := \<lparr>xc = clamp (xc (pos p)) 15 (INTERNAL_WIDTH - 15),
               yc = clamp (yc (pos p) - speed p * dt) 15 (INTERNAL_HEIGHT - 15)\<rparr>\<rparr>"
  by (simp add: movedPlayer_def holdUp_def Let_def orOne_def)

text \<open>One more frame of 33 ms of the approach: no shot, no wave, no contact.\<close>

lemma approach_step_before:
  assumes "k < 50"
  shows "beforeCollisions startedEnv rnd (33 / 1000) ((approach k)\<lparr>lastTimeRef := Some (33 * real (Suc k))\<rparr>) =
     approach (Suc k)"
proof -
  let ?g = "(approach k)\<lparr>lastTimeRef := Some (33 * real (Suc k))\<rparr>"
  let ?p = "newPlayer\<lparr>vel := \<lparr>xc = 0, yc = - 1\<rparr>,
        pos := \<lparr>xc = 240, yc = 360 - 297 / 50 * real k\<rparr>,
        cooldown := - (33 / 1000 * real k)\<rparr>"
  let ?p1 = "newPlayer\<lparr>vel := \<lparr>xc = 0, yc = - 1\<rparr>,
        pos := \<lparr>xc = 240, yc = 360 - 297 / 50 * real (Suc k)\<rparr>,
        cooldown := - (33 / 1000 * real k)\<rparr>"
  let ?p2 = "newPlayer\<lparr>vel := \<lparr>xc = 0, yc = - 1\<rparr>,
        pos := \<lparr>xc = 240, yc = 360 - 297 / 50 * real (Suc k)\<rparr>,
        cooldown := - (33 / 1000 * real (Suc k))\<rparr>"
  from assms have k: "real k < 50" by simp
  have m: "movedPlayer holdUp (33 / 1000) ?p = ?p1"
  proof -
    have a: "360 - 297 / 50 * real k - 180 * (33 / 1000) = 360 - 297 / 50 * real (Suc k)"
      by (simp add: field_simps)
    have "15 \<le> 360 - 297 / 50 * real k - 180 * (33 / 1000)"
      "360 - 297 / 50 * real k - 180 * (33 / 1000) \<le> INTERNAL_HEIGHT - 15"
      using k by (simp_all add: INTERNAL_HEIGHT_def)
    then have "clamp (360 - 297 / 50 * real k - 180 * (33 / 1000)) 15 (INTERNAL_HEIGHT - 15) =
        360 - 297 / 50 * real (Suc k)"
      unfolding a [symmetric] by (rule clamp_id)
    moreover have "clamp 240 15 (INTERNAL_WIDTH - 15) = 240"
      by (simp add: clamp_def INTERNAL_WIDTH_def)
    ultimately show ?thesis
      by (simp add: movedPlayer_up newPlayer_def)
  qed
  have s: "steerEnemy startedEnv (33 / 1000) (Some ?p2) (incoming k) = incoming (Suc k)"
    using k by (subst steer_down) (simp_all add: incoming_def enemyAt_def field_simps)
  have r: "steerEnemy startedEnv (33 / 1000) (Some ?p2) (rear k) = rear (Suc k)"
    using k by (subst steer_up) (simp_all add: rear_def enemyAt_def field_simps)
  have 1: "movePlayer (33 / 1000) (?g\<lparr>timeRef := timeRef ?g + 33 / 1000\<rparr>) =
      ?g\<lparr>timeRef := timeRef ?g + 33 / 1000, playerRef := Some ?p1\<rparr>"
    using m by (simp add: movePlayer_eq approach_def)
  have 2: "shoot (33 / 1000) (?g\<lparr>timeRef := timeRef ?g + 33 / 1000, playerRef := Some ?p1\<rparr>) =
      ?g\<lparr>timeRef := timeRef ?g + 33 / 1000, playerRef := Some ?p2\<rparr>"
  proof -
    have "- (33 / 1000 * real k) - 33 / 1000 = - (33 / 1000 * real (Suc k))"
      by (simp add: field_simps)
    then show ?thesis by (simp add: shoot_eq firing_def approach_def holdUp_def)
  qed
  have 3: "updateBullets (33 / 1000) (?g\<lparr>timeRef := timeRef ?g + 33 / 1000, playerRef := Some ?p2\<rparr>) =
      ?g\<lparr>timeRef := timeRef ?g + 33 / 1000, playerRef := Some ?p2\<rparr>"
    by (simp add: updateBullets_def approach_def)
  have 4: "spawnEnemies startedEnv rnd (33 / 1000) (?g\<lparr>timeRef := timeRef ?g + 33 / 1000, playerRef := Some ?p2\<rparr>) =
      ?g\<lparr>timeRef := timeRef ?g + 33 / 1000, playerRef := Some ?p2,
         spawnTimerRef := 2 - 33 / 1000 * real (Suc k)\<rparr>"
  proof -
    have "2 - 33 / 1000 * real k - 33 / 1000 = 2 - 33 / 1000 * real (Suc k)"
      by (simp add: field_simps)
    moreover have "\<not> 2 - 33 / 1000 * real (Suc k) \<le> 0" using k by simp
    ultimately show ?thesis by (simp add: spawnEnemies_def Let_def approach_def)
  qed
  have 5: "updateEnemies startedEnv (33 / 1000) (?g\<lparr>timeRef := timeRef ?g + 33 / 1000, playerRef := Some ?p2,
         spawnTimerRef := 2 - 33 / 1000 * real (Suc k)\<rparr>) = approach (Suc k)"
  proof -
    have "33 / 1000 * real k + 33 / 1000 = 33 / 1000 * real (Suc k)"
      "33 * real k + 33 = 33 * real (Suc k)"
      by (simp_all add: field_simps)
    with s r show ?thesis by (simp add: updateEnemies_def approach_def)
  qed
  show ?thesis
    unfolding beforeCollisions_def 1 2 3 4 5 ..
qed


lemma approach_step:
  assumes "k < 50"
  shows "update startedEnv rnd (33 / 1000) ((approach k)\<lparr>lastTimeRef := Some (33 * real (Suc k))\<rparr>) =
     approach (Suc k)"
proof -
  let ?s = "(approach k)\<lparr>lastTimeRef := Some (33 * real (Suc k))\<rparr>"
  have p: "playerRef ?s \<noteq> None" by simp
  have u: "update startedEnv rnd (33 / 1000) ?s =
      updateParticles (33 / 1000) (enemiesVsPlayer startedEnv rnd
       (bulletsVsEnemies rnd (beforeCollisions startedEnv rnd (33 / 1000) ?s)))"
    using p by (rule update_collisions)
  have c: "bulletsVsEnemies rnd (approach (Suc k)) = approach (Suc k)"
    by (rule bulletsVsEnemies_no_bullets) simp
  have h: "enemiesVsPlayer startedEnv rnd (approach (Suc k)) = approach (Suc k)"
    using approach_gap [of "Suc k"] rear_gap [of "Suc k"] assms
    by (intro enemiesVsPlayer_miss [OF approach_simps(1)]) (simp add: newPlayer_def)
  have q: "updateParticles (33 / 1000) (approach (Suc k)) = approach (Suc k)"
    by (simp add: updateParticles_def approach_def)
  show ?thesis
    unfolding u approach_step_before [OF assms] c h q ..
qed

text \<open>The frames of the approach, as events of the component.\<close>

lemma unitRandom_centre: "unitRandom centreRandom"
  by (simp add: unitRandom_def centreRandom_def)

lemma frameDt_33: "frameDt (33 * real (Suc k)) (33 * real k) = 33 / 1000"
  by (simp add: frameDt_def field_simps)

lemma approach_frame_first:
  "frame centreRandom 0 \<lparr>game = applyInput goUp started, closure = startedEnv\<rparr> =
     \<lparr>game = approach 0, closure = startedEnv\<rparr>"
proof -
  have "frame centreRandom 0 \<lparr>game = applyInput goUp started, closure = startedEnv\<rparr> =
      commit centreRandom \<lparr>game = approach 0, closure = startedEnv\<rparr>"
    using approach_first by (simp add: frame_def loop_def Let_def frameDt_def applyInput_def)
  also have "\<dots> = \<lparr>game = approach 0, closure = startedEnv\<rparr>"
    by (rule commit_same) simp_all
  finally show ?thesis .
qed

lemma approach_frame:
  assumes "k < 50"
  shows "frame rnd (33 * real (Suc k)) \<lparr>game = approach k, closure = startedEnv\<rparr> =
     \<lparr>game = approach (Suc k), closure = startedEnv\<rparr>"
proof -
  have "frame rnd (33 * real (Suc k)) \<lparr>game = approach k, closure = startedEnv\<rparr> =
      commit rnd (\<lparr>game = approach k, closure = startedEnv\<rparr>\<lparr>game :=
        update (closure \<lparr>game = approach k, closure = startedEnv\<rparr>) rnd
          (frameDt (33 * real (Suc k)) (33 * real k))
          ((game \<lparr>game = approach k, closure = startedEnv\<rparr>)\<lparr>lastTimeRef := Some (33 * real (Suc k))\<rparr>)\<rparr>)"
    by (rule frame_running) simp_all
  also have "\<dots> = commit rnd \<lparr>game = approach (Suc k), closure = startedEnv\<rparr>"
    unfolding frameDt_33 using approach_step [OF assms, of rnd] by simp
  also have "\<dots> = \<lparr>game = approach (Suc k), closure = startedEnv\<rparr>"
    by (rule commit_same) simp_all
  finally show ?thesis .
qed

lemma reachable_approach:
  "k \<le> 50 \<Longrightarrow> reachable \<lparr>game = approach k, closure = startedEnv\<rparr>"
proof (induction k)
  case 0
  have "reachable (clickStart centreRandom mountedApp)"
    using reachable.mount unitRandom_centre by (rule reachable.start)
  then have "reachable \<lparr>game = started, closure = startedEnv\<rparr>"
    by (simp add: clickStart_mounted)
  then have "reachable (\<lparr>game = started, closure = startedEnv\<rparr>\<lparr>game :=
      applyInput goUp (game \<lparr>game = started, closure = startedEnv\<rparr>)\<rparr>)"
    by (rule reachable.input)
  then have "reachable \<lparr>game = applyInput goUp started, closure = startedEnv\<rparr>" by simp
  then have "reachable (frame centreRandom 0 \<lparr>game = applyInput goUp started, closure = startedEnv\<rparr>)"
    using unitRandom_centre by (rule reachable.tick) (simp add: notBefore_def applyInput_def)
  then show ?case by (simp only: approach_frame_first)
next
  case (Suc k)
  then have r: "reachable \<lparr>game = approach k, closure = startedEnv\<rparr>" and k: "k < 50" by simp_all
  have "reachable (frame centreRandom (33 * real (Suc k)) \<lparr>game = approach k, closure = startedEnv\<rparr>)"
    using r unitRandom_centre by (rule reachable.tick) (simp add: notBefore_def)
  then show ?case by (simp only: approach_frame [OF k])
qed

lemma reachable_ambush: "reachable ambush"
proof -
  have "reachable \<lparr>game = approach 50, closure = startedEnv\<rparr>"
    by (rule reachable_approach) simp
  then have "reachable (\<lparr>game = approach 50, closure = startedEnv\<rparr>\<lparr>game :=
      applyInput goUpFiring (game \<lparr>game = approach 50, closure = startedEnv\<rparr>)\<rparr>)"
    by (rule reachable.input)
  then show ?thesis by (simp add: ambush_def)
qed


text \<open>The frame at 1683 ms from \<open>ambush\<close>, block by block.\<close>

lemma ambush_before:
  "beforeCollisions startedEnv rnd (33 / 1000) ((game ambush)\<lparr>lastTimeRef := Some 1683\<rparr>) =
     (approach 51)\<lparr>aimRef := \<lparr>xc = 240, yc = 0\<rparr>, firingRef := True,
        bulletsRef := [bulletAt 240 (1443 / 50)],
        playerRef := Some (newPlayer\<lparr>vel := \<lparr>xc = 0, yc = - 1\<rparr>,
          pos := \<lparr>xc = 240, yc = 2853 / 50\<rparr>, cooldown := 2 / 25\<rparr>)\<rparr>"
  by (simp add: beforeCollisions_def ambush_def applyInput_def goUpFiring_def approach_def
      movePlayer_eq movedPlayer_up shoot_eq shotBullet_def firing_def updateBullets_def
      moveBullet_def spawnEnemies_def updateEnemies_def steerEnemy_def Let_def
      incoming_def rear_def enemyAt_def bulletAt_def newPlayer_def orOne_def clamp_def
      INTERNAL_WIDTH_def INTERNAL_HEIGHT_def)


lemma bulletsVsEnemies_kill:
  assumes "bulletsRef g = [b]" and "enemiesRef g = e # es" and "fromPlayer b"
    and "bulletHits b e" and "hp e = 1"
  shows "bulletsRef (bulletsVsEnemies rnd g) = [b\<lparr>alive := False\<rparr>]"
    and "enemiesRef (bulletsVsEnemies rnd g) = e\<lparr>hp := 0, alive := False\<rparr> # es"
    and "score (bulletsVsEnemies rnd g) = score g + 100"
  using assms by (simp_all add: bulletsVsEnemies_def bulletHits_def Let_def)

lemma enemiesVsPlayer_hit:
  assumes "playerRef g = Some p" and "alive p" and "enemiesRef g = e # es"
    and "dist2 (pos p) (pos e) \<le> (radius p + radius e) * (radius p + radius e)"
  shows "enemiesVsPlayer env rnd g = (hitPlayer env rnd p g)\<lparr>enemiesRef := e\<lparr>alive := False\<rparr> # es\<rparr>"
  using assms by (simp add: enemiesVsPlayer_def Let_def)

lemma update_kept:
  assumes "playerRef g \<noteq> None"
  shows "paused (update env rnd dt g) = paused g" and "keys (update env rnd dt g) = keys g"
    and "firingRef (update env rnd dt g) = firingRef g" and "aimRef (update env rnd dt g) = aimRef g"
    and "lastTimeRef (update env rnd dt g) = lastTimeRef g"
  using assms by (simp_all add: update_collisions beforeCollisions_def)

lemma frame_startedEnv:
  assumes "closure a = startedEnv" and "running (game a)" and "\<not> paused (game a)"
    and "\<not> gameOver (game a)" and "playerRef (game a) \<noteq> None"
    and "lastTimeRef (game a) = Some prev"
  shows "frame rnd now a =
     \<lparr>game = update startedEnv rnd (frameDt now prev) ((game a)\<lparr>lastTimeRef := Some now\<rparr>),
      closure = startedEnv\<rparr>"
proof -
  let ?u = "update startedEnv rnd (frameDt now prev) ((game a)\<lparr>lastTimeRef := Some now\<rparr>)"
  have "frame rnd now a = commit rnd (a\<lparr>game := update (closure a) rnd (frameDt now prev)
      ((game a)\<lparr>lastTimeRef := Some now\<rparr>)\<rparr>)"
    using assms by (intro frame_running) simp_all
  also have "\<dots> = commit rnd \<lparr>game = ?u, closure = startedEnv\<rparr>"
    using assms(1) by (cases a) simp
  also have "\<dots> = \<lparr>game = ?u, closure = startedEnv\<rparr>"
  proof (rule commit_same)
    have "1 < lives startedEnv" by simp
    then have "gameOver ?u = gameOver ((game a)\<lparr>lastTimeRef := Some now\<rparr>) \<and>
        running ?u = running ((game a)\<lparr>lastTimeRef := Some now\<rparr>)"
      by (rule update_no_game_over)
    with assms show "running (game \<lparr>game = ?u, closure = startedEnv\<rparr>) =
        running (closure \<lparr>game = ?u, closure = startedEnv\<rparr>)"
      and "gameOver (game \<lparr>game = ?u, closure = startedEnv\<rparr>) =
        gameOver (closure \<lparr>game = ?u, closure = startedEnv\<rparr>)"
      by simp_all
    from assms show "paused (game \<lparr>game = ?u, closure = startedEnv\<rparr>) =
        paused (closure \<lparr>game = ?u, closure = startedEnv\<rparr>)"
      by (simp add: update_kept)
  qed
  finally show ?thesis .
qed

lemma ambush_simps [simp]:
  "closure ambush = startedEnv" "running (game ambush)" "\<not> paused (game ambush)"
  "\<not> gameOver (game ambush)" "lives (game ambush) = 3" "score (game ambush) = 0"
  "lastTimeRef (game ambush) = Some 1650"
  "playerRef (game ambush) = Some (newPlayer\<lparr>vel := \<lparr>xc = 0, yc = - 1\<rparr>,
        pos := \<lparr>xc = 240, yc = 63\<rparr>, cooldown := - (33 / 20)\<rparr>)"
  "enemiesRef (game ambush) = [incoming 50, rear 50, rear 50, rear 50]"
  "bulletsRef (game ambush) = []"
  by (simp_all add: ambush_def applyInput_def approach_def)

lemma frameDt_ambush: "frameDt 1683 1650 = 33 / 1000"
  by (simp add: frameDt_def)

lemma ambush_frame:
  "frame rnd 1683 ambush =
     \<lparr>game = update startedEnv rnd (33 / 1000) ((game ambush)\<lparr>lastTimeRef := Some 1683\<rparr>),
      closure = startedEnv\<rparr>"
  using frame_startedEnv [of ambush 1650 rnd 1683] by (simp add: frameDt_ambush)


lemma ambushMoved_simps:
  "playerRef ambushMoved = Some ambushPlayer"
  "enemiesRef ambushMoved = [incoming 51, rear 51, rear 51, rear 51]"
  "bulletsRef ambushMoved = [bulletAt 240 (1443 / 50)]"
  "score ambushMoved = 0" "lives ambushMoved = 3"
  by (simp_all add: ambushMoved_def ambush_before ambushPlayer_def)

lemma ambush_bullet_hits: "bulletHits (bulletAt 240 (1443 / 50)) (incoming 51)"
  by (simp add: bulletHits_def bulletAt_def dist2_def Let_def)

lemma ambushShot_simps:
  "playerRef ambushShot = Some ambushPlayer"
  "enemiesRef ambushShot = [(incoming 51)\<lparr>hp := 0, alive := False\<rparr>, rear 51, rear 51, rear 51]"
  "bulletsRef ambushShot = [(bulletAt 240 (1443 / 50))\<lparr>alive := False\<rparr>]"
  "score ambushShot = 100" "lives ambushShot = 3"
  unfolding ambushShot_def
  using bulletsVsEnemies_kill [OF ambushMoved_simps(3) ambushMoved_simps(2) _ ambush_bullet_hits,
      of centreRandom]
  by (simp_all add: ambushMoved_simps bulletAt_def)

lemma ambushPlayer_simps [simp]:
  "pos ambushPlayer = \<lparr>xc = 240, yc = 2853 / 50\<rparr>" "radius ambushPlayer = 12"
  "alive ambushPlayer"
  by (simp_all add: ambushPlayer_def newPlayer_def)

lemma ambush_contact:
  "dist2 (pos ambushPlayer) (pos (incoming 51)) \<le>
     (radius ambushPlayer + radius (incoming 51)) * (radius ambushPlayer + radius (incoming 51))"
  "\<not> dist2 (pos ambushPlayer) (pos (rear 51)) \<le>
     (radius ambushPlayer + radius (rear 51)) * (radius ambushPlayer + radius (rear 51))"
  by (simp_all add: dist2_def Let_def)

lemma ambush_hit:
  "enemiesVsPlayer startedEnv centreRandom ambushShot =
     (hitPlayer startedEnv centreRandom ambushPlayer ambushShot)\<lparr>enemiesRef := enemiesRef ambushShot\<rparr>"
  using enemiesVsPlayer_hit [OF ambushShot_simps(1) ambushPlayer_simps(3) ambushShot_simps(2),
      of startedEnv centreRandom] ambush_contact(1)
  by (simp add: ambushShot_simps(2))

lemma ambush_culled:
  "enemiesVsPlayer startedEnv centreRandom (culled ambushShot) = culled ambushShot"
proof (rule enemiesVsPlayer_miss)
  show "playerRef (culled ambushShot) = Some ambushPlayer"
    by (simp add: culled_def ambushShot_simps)
  show "\<forall>e\<in>set (enemiesRef (culled ambushShot)).
      \<not> dist2 (pos ambushPlayer) (pos e) \<le> (radius ambushPlayer + radius e) * (radius ambushPlayer + radius e)"
    using ambush_contact(2) by (simp add: culled_def ambushShot_simps)
qed

lemma ambush_game:
  "game (frame centreRandom 1683 ambush) =
     updateParticles (33 / 1000) (enemiesVsPlayer startedEnv centreRandom ambushShot)"
  by (simp add: ambush_frame update_collisions ambushShot_def ambushMoved_def)

text \<open>
  Claim C10. The state \<open>ambush\<close> is reachable: the component is mounted, the start
  button clicked, the key \<^verbatim>\<open>w\<close> pressed, 51 frames run (the first wave appears in the
  first one) and the pointer pressed with the aim at the top. In it the session has
  3 lives and score 0, the player is at \<open>(240, 63)\<close> and the four enemies are alive, the
  first 30.25 above the player, the others far below. In the next frame, 33 ms later,
  the collision passes find the player at \<open>(240, 57.06)\<close> and the first enemy alive
  with 1 hit-point. The bullet pass kills that enemy with the player's new bullet: it is
  marked not-alive and the score is 100. The player pass, which does not look at the
  \<^verbatim>\<open>alive\<close> flag, finds this not-alive enemy overlapping the player (no alive enemy
  does) and calls the player-hit procedure: a life is lost and the player is put back at
  the start position. Had the not-alive entities been taken out before the player pass,
  it would have changed nothing.
\<close>

theorem dead_enemy_hits_player:
  "reachable ambush \<and> lives (game ambush) = 3 \<and> score (game ambush) = 0 \<and>
   map_option pos (playerRef (game ambush)) = Some \<lparr>xc = 240, yc = 63\<rparr> \<and>
   map pos (enemiesRef (game ambush)) =
     [\<lparr>xc = 240, yc = 131 / 4\<rparr>, \<lparr>xc = 240, yc = 2749 / 4\<rparr>, \<lparr>xc = 240, yc = 2749 / 4\<rparr>,
      \<lparr>xc = 240, yc = 2749 / 4\<rparr>] \<and>
   map alive (enemiesRef (game ambush)) = [True, True, True, True] \<and>
   playerRef ambushMoved = Some ambushPlayer \<and> alive ambushPlayer \<and>
   enemiesRef ambushMoved = [incoming 51, rear 51, rear 51, rear 51] \<and>
   alive (incoming 51) \<and> hp (incoming 51) = 1 \<and> alive (rear 51) \<and>
   playerRef ambushShot = Some ambushPlayer \<and>
   enemiesRef ambushShot = [(incoming 51)\<lparr>hp := 0, alive := False\<rparr>, rear 51, rear 51, rear 51] \<and>
   score ambushShot = 100 \<and> lives ambushShot = 3 \<and>
   dist2 (pos ambushPlayer) (pos (incoming 51)) \<le>
     (radius ambushPlayer + radius (incoming 51)) * (radius ambushPlayer + radius (incoming 51)) \<and>
   \<not> dist2 (pos ambushPlayer) (pos (rear 51)) \<le>
     (radius ambushPlayer + radius (rear 51)) * (radius ambushPlayer + radius (rear 51)) \<and>
   enemiesVsPlayer startedEnv centreRandom ambushShot =
     (hitPlayer startedEnv centreRandom ambushPlayer ambushShot)\<lparr>enemiesRef := enemiesRef ambushShot\<rparr> \<and>
   lives (enemiesVsPlayer startedEnv centreRandom ambushShot) = 2 \<and>
   enemiesVsPlayer startedEnv centreRandom (culled ambushShot) = culled ambushShot \<and>
   lives (culled ambushShot) = 3 \<and>
   game (frame centreRandom 1683 ambush) =
     updateParticles (33 / 1000) (enemiesVsPlayer startedEnv centreRandom ambushShot) \<and>
   lives (game (frame centreRandom 1683 ambush)) = 2 \<and>
   score (game (frame centreRandom 1683 ambush)) = 100 \<and>
   map alive (enemiesRef (game (frame centreRandom 1683 ambush))) = [False, True, True, True] \<and>
   map_option pos (playerRef (game (frame centreRandom 1683 ambush))) = Some startPos"
proof -
  have a: "map_option pos (playerRef (game ambush)) = Some \<lparr>xc = 240, yc = 63\<rparr>"
    "map pos (enemiesRef (game ambush)) =
     [\<lparr>xc = 240, yc = 131 / 4\<rparr>, \<lparr>xc = 240, yc = 2749 / 4\<rparr>, \<lparr>xc = 240, yc = 2749 / 4\<rparr>,
      \<lparr>xc = 240, yc = 2749 / 4\<rparr>]"
    "map alive (enemiesRef (game ambush)) = [True, True, True, True]"
    by simp_all
  have h: "lives (enemiesVsPlayer startedEnv centreRandom ambushShot) = 2"
    "score (enemiesVsPlayer startedEnv centreRandom ambushShot) = 100"
    "map alive (enemiesRef (enemiesVsPlayer startedEnv centreRandom ambushShot)) =
       [False, True, True, True]"
    "map_option pos (playerRef (enemiesVsPlayer startedEnv centreRandom ambushShot)) = Some startPos"
    unfolding ambush_hit by (simp_all add: ambushShot_simps)
  have c: "lives (culled ambushShot) = 3" by (simp add: culled_def ambushShot_simps)
  have f: "lives (game (frame centreRandom 1683 ambush)) = 2"
    "score (game (frame centreRandom 1683 ambush)) = 100"
    "map alive (enemiesRef (game (frame centreRandom 1683 ambush))) = [False, True, True, True]"
    "map_option pos (playerRef (game (frame centreRandom 1683 ambush))) = Some startPos"
    unfolding ambush_game by (simp_all add: h ambushShot_simps)
  show ?thesis
    by (intro conjI)
      (fact reachable_ambush ambush_simps a ambushMoved_simps ambushPlayer_simps incoming_simps
        rear_simps ambushShot_simps ambush_contact ambush_hit h ambush_culled c ambush_game f)+
qed

section \<open>The spawn timer in a session with a score\<close>

text \<open>A step with nothing held, no alive bullet and the player at the start position.\<close>

lemma movedPlayer_still:
  "pos p = startPos \<Longrightarrow> movedPlayer noKeys dt p = p\<lparr>vel := \<lparr>xc = 0, yc = 0\<rparr>\<rparr>"
  by (cases p) (simp add: movedPlayer_def noKeys_def Let_def orOne_def clamp_def startPos_def
      INTERNAL_WIDTH_def INTERNAL_HEIGHT_def)

lemma dead_bullets_culled:
  "list_all (\<lambda>b. \<not> alive b) bs \<Longrightarrow> filter alive (map (moveBullet dt) bs) = []"
  by (induction bs) (simp_all add: moveBullet_dead)

lemma quiet_before:
  assumes "playerRef g = Some p" and "pos p = startPos" and "keys g = noKeys"
    and "\<not> firingRef g" and "list_all (\<lambda>b. \<not> alive b) (bulletsRef g)"
  shows "playerRef (beforeCollisions env rnd dt g) =
           Some (p\<lparr>vel := \<lparr>xc = 0, yc = 0\<rparr>, cooldown := cooldown p - dt\<rparr>)"
    and "bulletsRef (beforeCollisions env rnd dt g) = []"
    and "enemiesRef (beforeCollisions env rnd dt g) =
           filter alive (map (steerEnemy env dt
               (Some (p\<lparr>vel := \<lparr>xc = 0, yc = 0\<rparr>, cooldown := cooldown p - dt\<rparr>)))
             (enemiesRef g @
              (if spawnTimerRef g - dt \<le> 0
               then wave env rnd (randomCalls g + 1)
                 (nat (4 + \<lfloor>rnd (randomCalls g) * 3\<rfloor> + \<lfloor>real_of_int (score env) / 500\<rfloor>))
               else [])))"
    and "spawnTimerRef (beforeCollisions env rnd dt g) =
           (if spawnTimerRef g - dt \<le> 0 then spawnInterval (score env) else spawnTimerRef g - dt)"
    and "score (beforeCollisions env rnd dt g) = score g"
    and "lives (beforeCollisions env rnd dt g) = lives g"
  using assms
  by (simp_all add: beforeCollisions_def movePlayer_eq movedPlayer_still shoot_eq firing_def
      noKeys_def updateBullets_def dead_bullets_culled spawnEnemies_def spawnWave_eq
      updateEnemies_def Let_def)


lemma quiet_update:
  assumes "playerRef g = Some p" and "pos p = startPos" and "keys g = noKeys"
    and "\<not> firingRef g" and "list_all (\<lambda>b. \<not> alive b) (bulletsRef g)"
    and "radius p = 12"
    and "\<forall>e\<in>set (enemiesRef (beforeCollisions env rnd dt g)).
           \<not> dist2 startPos (pos e) \<le> (12 + radius e) * (12 + radius e)"
  shows "update env rnd dt g = updateParticles dt (beforeCollisions env rnd dt g)"
proof -
  let ?B = "beforeCollisions env rnd dt g"
  let ?p = "p\<lparr>vel := \<lparr>xc = 0, yc = 0\<rparr>, cooldown := cooldown p - dt\<rparr>"
  have u: "update env rnd dt g =
      updateParticles dt (enemiesVsPlayer env rnd (bulletsVsEnemies rnd ?B))"
    using assms(1) by (intro update_collisions) simp
  have b: "bulletsVsEnemies rnd ?B = ?B"
    using quiet_before(2) [OF assms(1-5)] by (rule bulletsVsEnemies_no_bullets)
  have h: "enemiesVsPlayer env rnd ?B = ?B"
    using quiet_before(1) [OF assms(1-5)]
  proof (rule enemiesVsPlayer_miss)
    show "\<forall>e\<in>set (enemiesRef ?B).
        \<not> dist2 (pos ?p) (pos e) \<le> (radius ?p + radius e) * (radius ?p + radius e)"
      using assms(2,6,7) by simp
  qed
  show ?thesis unfolding u b h ..
qed

text \<open>The component after the frame of the contact.\<close>

lemma ambushMoved_more:
  "running ambushMoved" "\<not> paused ambushMoved" "\<not> gameOver ambushMoved"
  "spawnTimerRef ambushMoved = 317 / 1000" "lastTimeRef ambushMoved = Some 1683"
  by (simp_all add: ambushMoved_def ambush_before approach_def)

lemma ambushKill_simps:
  "closure (frame centreRandom 1683 ambush) = startedEnv"
  "running (game (frame centreRandom 1683 ambush))"
  "\<not> paused (game (frame centreRandom 1683 ambush))"
  "\<not> gameOver (game (frame centreRandom 1683 ambush))"
  "playerRef (game (frame centreRandom 1683 ambush)) = Some (ambushPlayer\<lparr>pos := startPos\<rparr>)"
  "bulletsRef (game (frame centreRandom 1683 ambush)) = [(bulletAt 240 (1443 / 50))\<lparr>alive := False\<rparr>]"
  "enemiesRef (game (frame centreRandom 1683 ambush)) =
     [(incoming 51)\<lparr>hp := 0, alive := False\<rparr>, rear 51, rear 51, rear 51]"
  "score (game (frame centreRandom 1683 ambush)) = 100"
  "lives (game (frame centreRandom 1683 ambush)) = 2"
  "spawnTimerRef (game (frame centreRandom 1683 ambush)) = 317 / 1000"
  "lastTimeRef (game (frame centreRandom 1683 ambush)) = Some 1683"
proof -
  show "closure (frame centreRandom 1683 ambush) = startedEnv"
    by (simp add: ambush_frame)
  show "running (game (frame centreRandom 1683 ambush))"
    "\<not> paused (game (frame centreRandom 1683 ambush))"
    "\<not> gameOver (game (frame centreRandom 1683 ambush))"
    "playerRef (game (frame centreRandom 1683 ambush)) = Some (ambushPlayer\<lparr>pos := startPos\<rparr>)"
    "bulletsRef (game (frame centreRandom 1683 ambush)) = [(bulletAt 240 (1443 / 50))\<lparr>alive := False\<rparr>]"
    "enemiesRef (game (frame centreRandom 1683 ambush)) =
       [(incoming 51)\<lparr>hp := 0, alive := False\<rparr>, rear 51, rear 51, rear 51]"
    "score (game (frame centreRandom 1683 ambush)) = 100"
    "lives (game (frame centreRandom 1683 ambush)) = 2"
    "spawnTimerRef (game (frame centreRandom 1683 ambush)) = 317 / 1000"
    "lastTimeRef (game (frame centreRandom 1683 ambush)) = Some 1683"
    unfolding ambush_game ambush_hit
    by (simp_all add: ambushShot_simps) (simp_all add: ambushShot_def ambushMoved_more)
qed


text \<open>The enemies from the bottom edge come up the vertical and stay far from the player.\<close>

lemma rear_far:
  assumes "k \<le> 100"
  shows "\<not> dist2 startPos (pos (rear k)) \<le> (12 + radius (rear k)) * (12 + radius (rear k))"
proof -
  let ?d = "385 - 231 / 200 * real k"
  from assms have "real k \<le> 100" by simp
  then have d: "26 < ?d" by simp
  then have "26 * 26 < ?d * ?d"
    by (intro mult_strict_mono) simp_all
  moreover have "dist2 startPos (pos (rear k)) = ?d * ?d"
    by (simp add: dist2_def startPos_def INTERNAL_WIDTH_def INTERNAL_HEIGHT_def Let_def algebra_simps)
  ultimately show ?thesis by simp
qed

lemma steer_rear:
  assumes "k \<le> 100" and "pos p = startPos"
  shows "steerEnemy startedEnv (33 / 1000) (Some p) (rear k) = rear (Suc k)"
proof -
  from assms(1) have k: "real k \<le> 100" by simp
  have "steerEnemy startedEnv (33 / 1000) (Some p) (rear k) =
     (rear k)\<lparr>t := t (rear k) + 33 / 1000,
       pos := \<lparr>xc = xc (pos (rear k)),
               yc = yc (pos (rear k)) -
                 (35 + min 80 (real_of_int (score startedEnv) * 0.03)) * (33 / 1000)\<rparr>\<rparr>"
    using k assms(2)
    by (intro steer_up) (simp_all add: startPos_def INTERNAL_WIDTH_def INTERNAL_HEIGHT_def)
  also have "\<dots> = rear (Suc k)"
    by (simp add: rear_def enemyAt_def field_simps)
  finally show ?thesis .
qed

lemma frameDt_lull: "frameDt (1683 + 33 * real (Suc j)) (1683 + 33 * real j) = 33 / 1000"
  by (simp add: frameDt_def field_simps)

text \<open>A frame without a wave, and the frames up to 1980 ms.\<close>

lemma calm_player:
  assumes "calm j a"
  obtains p where "playerRef (game a) = Some p" and "pos p = startPos" and "radius p = 12"
  using assms unfolding calm_def by (cases "playerRef (game a)") auto

lemma calm_step:
  assumes c: "calm j a" and j: "j \<le> 8"
  shows "calm (Suc j) (frame rnd (1683 + 33 * real (Suc j)) a)"
proof -
  let ?now = "1683 + 33 * real (Suc j)"
  let ?g = "(game a)\<lparr>lastTimeRef := Some ?now\<rparr>"
  let ?B = "beforeCollisions startedEnv rnd (33 / 1000) ?g"
  from c obtain p where p: "playerRef (game a) = Some p" "pos p = startPos" "radius p = 12"
    by (rule calm_player)
  let ?p = "p\<lparr>vel := \<lparr>xc = 0, yc = 0\<rparr>, cooldown := cooldown p - 33 / 1000\<rparr>"
  from c have f: "closure a = startedEnv" "running (game a)" "\<not> paused (game a)"
    "\<not> gameOver (game a)" "keys (game a) = noKeys" "\<not> firingRef (game a)"
    "list_all (\<lambda>b. \<not> alive b) (bulletsRef (game a))"
    "filter alive (enemiesRef (game a)) = [rear (51 + j), rear (51 + j), rear (51 + j)]"
    "score (game a) = 100" "lives (game a) = 2"
    "lastTimeRef (game a) = Some (1683 + 33 * real j)"
    "spawnTimerRef (game a) = 317 / 1000 - 33 / 1000 * real j"
    by (simp_all add: calm_def)
  have q: "playerRef ?g = Some p" "pos p = startPos" "keys ?g = noKeys" "\<not> firingRef ?g"
    "list_all (\<lambda>b. \<not> alive b) (bulletsRef ?g)"
    using p f by simp_all
  from j have jr: "real j \<le> 8" by simp
  have tm: "\<not> spawnTimerRef ?g - 33 / 1000 \<le> 0" using jr by (simp add: f)
  have pp: "pos ?p = startPos" using p by simp
  have "enemiesRef ?B = filter alive (map (steerEnemy startedEnv (33 / 1000) (Some ?p)) (enemiesRef (game a)))"
    using quiet_before(3) [OF q, of startedEnv rnd "33 / 1000"] tm by simp
  also have "\<dots> = filter alive (map (steerEnemy startedEnv (33 / 1000) (Some ?p))
      (filter alive (enemiesRef (game a))))"
    by (simp only: cull_steered_enemies)
  also have "\<dots> = [rear (Suc (51 + j)), rear (Suc (51 + j)), rear (Suc (51 + j))]"
    using j by (simp add: f steer_rear [OF _ pp])
  finally have es: "enemiesRef ?B = [rear (51 + Suc j), rear (51 + Suc j), rear (51 + Suc j)]"
    by simp
  have far: "\<forall>e\<in>set (enemiesRef ?B). \<not> dist2 startPos (pos e) \<le> (12 + radius e) * (12 + radius e)"
    unfolding es using rear_far [of "51 + Suc j"] j by simp
  have u: "update startedEnv rnd (33 / 1000) ?g = updateParticles (33 / 1000) ?B"
    using q p(3) far by (rule quiet_update)
  have fr: "frame rnd ?now a =
      \<lparr>game = update startedEnv rnd (frameDt ?now (1683 + 33 * real j)) ?g, closure = startedEnv\<rparr>"
    using f(1-4) p(1) f(11) by (intro frame_startedEnv) simp_all
  have g': "game (frame rnd ?now a) = updateParticles (33 / 1000) ?B"
    "closure (frame rnd ?now a) = startedEnv"
    unfolding fr frameDt_lull u by simp_all
  have tm': "spawnTimerRef ?B = 317 / 1000 - 33 / 1000 * real (Suc j)"
    using quiet_before(4) [OF q, of startedEnv rnd "33 / 1000"] tm
    by (simp add: f field_simps)
  have fl: "running ?B" "\<not> paused ?B" "\<not> gameOver ?B" "keys ?B = noKeys" "\<not> firingRef ?B"
    "lastTimeRef ?B = Some ?now"
    using f by (simp_all add: beforeCollisions_def)
  show ?thesis
    unfolding calm_def g'
    using quiet_before(1,2,5,6) [OF q, of startedEnv rnd "33 / 1000"] es tm' fl p f(9,10)
    by simp
qed


lemma unitRandom_half: "unitRandom halfRandom"
  by (simp add: unitRandom_def halfRandom_def)

lemma reachable_kill: "reachable (frame centreRandom 1683 ambush)"
  using reachable_ambush unitRandom_centre by (rule reachable.tick) (simp add: notBefore_def)

lemma lull_0:
  "calm 0 (lull 0)" "reachable (lull 0)"
proof -
  show "calm 0 (lull 0)"
    by (simp add: calm_def applyInput_def letGo_def ambushKill_simps)
  show "reachable (lull 0)"
    unfolding lull.simps using reachable_kill by (rule reachable.input)
qed

lemma lull_calm: "j \<le> 9 \<Longrightarrow> calm j (lull j) \<and> reachable (lull j)"
proof (induction j)
  case 0
  show ?case using lull_0 by simp
next
  case (Suc j)
  then have c: "calm j (lull j)" and r: "reachable (lull j)" and j: "j \<le> 8" by simp_all
  from c j have "calm (Suc j) (frame halfRandom (1683 + 33 * real (Suc j)) (lull j))"
    by (rule calm_step)
  moreover have "reachable (frame halfRandom (1683 + 33 * real (Suc j)) (lull j))"
    using r unitRandom_half
  proof (rule reachable.tick)
    from c have "lastTimeRef (game (lull j)) = Some (1683 + 33 * real j)" by (simp add: calm_def)
    then show "notBefore (lastTimeRef (game (lull j))) (1683 + 33 * real (Suc j))"
      by (simp add: notBefore_def)
  qed
  ultimately show ?case by simp
qed

text \<open>The frame in which the timer runs out.\<close>

lemma spawned_half: "spawned startedEnv halfRandom n = rear 0"
  by (simp add: spawned_def halfRandom_def rear_def enemyAt_def INTERNAL_WIDTH_def
      INTERNAL_HEIGHT_def Let_def)

lemma wave_half: "wave startedEnv halfRandom n k = replicate k (rear 0)"
  by (induction k arbitrary: n) (simp_all add: spawned_half)

lemma calm_wave:
  assumes c: "calm 9 a"
  shows "closure (frame halfRandom 2013 a) = startedEnv"
    and "enemiesRef (game (frame halfRandom 2013 a)) =
           [rear 61, rear 61, rear 61, rear 1, rear 1, rear 1, rear 1, rear 1]"
    and "spawnTimerRef (game (frame halfRandom 2013 a)) = spawnInterval (score startedEnv)"
    and "score (game (frame halfRandom 2013 a)) = 100"
proof -
  let ?g = "(game a)\<lparr>lastTimeRef := Some 2013\<rparr>"
  let ?B = "beforeCollisions startedEnv halfRandom (33 / 1000) ?g"
  from c obtain p where p: "playerRef (game a) = Some p" "pos p = startPos" "radius p = 12"
    by (rule calm_player)
  let ?p = "p\<lparr>vel := \<lparr>xc = 0, yc = 0\<rparr>, cooldown := cooldown p - 33 / 1000\<rparr>"
  from c have f: "closure a = startedEnv" "running (game a)" "\<not> paused (game a)"
    "\<not> gameOver (game a)" "keys (game a) = noKeys" "\<not> firingRef (game a)"
    "list_all (\<lambda>b. \<not> alive b) (bulletsRef (game a))"
    "filter alive (enemiesRef (game a)) = [rear 60, rear 60, rear 60]"
    "score (game a) = 100" "lives (game a) = 2"
    "lastTimeRef (game a) = Some 1980"
    "spawnTimerRef (game a) = 1 / 50"
    by (simp_all add: calm_def)
  have q: "playerRef ?g = Some p" "pos p = startPos" "keys ?g = noKeys" "\<not> firingRef ?g"
    "list_all (\<lambda>b. \<not> alive b) (bulletsRef ?g)"
    using p f by simp_all
  have tm: "spawnTimerRef ?g - 33 / 1000 \<le> 0" by (simp add: f)
  have pp: "pos ?p = startPos" using p by simp
  have n: "nat (4 + \<lfloor>halfRandom (randomCalls ?g) * 3\<rfloor> + \<lfloor>real_of_int (score startedEnv) / 500\<rfloor>) = 5"
    by (simp add: halfRandom_def)
  have "enemiesRef ?B = filter alive (map (steerEnemy startedEnv (33 / 1000) (Some ?p))
      (enemiesRef (game a) @ replicate 5 (rear 0)))"
    using quiet_before(3) [OF q, of startedEnv halfRandom "33 / 1000"] tm
    by (simp only: n wave_half if_True) simp
  also have "\<dots> = filter alive (map (steerEnemy startedEnv (33 / 1000) (Some ?p))
      (filter alive (enemiesRef (game a)))) @ replicate 5 (rear 1)"
    by (simp add: cull_steered_enemies steer_rear [OF _ pp])
  also have "\<dots> = [rear 61, rear 61, rear 61] @ replicate 5 (rear 1)"
    using steer_rear [OF _ pp, of 60] by (simp add: f)
  finally have es: "enemiesRef ?B = [rear 61, rear 61, rear 61, rear 1, rear 1, rear 1, rear 1, rear 1]"
    by (simp add: eval_nat_numeral)
  have far: "\<forall>e\<in>set (enemiesRef ?B). \<not> dist2 startPos (pos e) \<le> (12 + radius e) * (12 + radius e)"
    unfolding es using rear_far [of 61] rear_far [of 1] by simp
  have u: "update startedEnv halfRandom (33 / 1000) ?g = updateParticles (33 / 1000) ?B"
    using q p(3) far by (rule quiet_update)
  have fr: "frame halfRandom 2013 a =
      \<lparr>game = update startedEnv halfRandom (frameDt 2013 1980) ?g, closure = startedEnv\<rparr>"
    using f(1-4) p(1) f(11) by (intro frame_startedEnv) simp_all
  have d: "frameDt 2013 1980 = 33 / 1000" by (simp add: frameDt_def)
  have g': "game (frame halfRandom 2013 a) = updateParticles (33 / 1000) ?B"
    "closure (frame halfRandom 2013 a) = startedEnv"
    unfolding fr d u by simp_all
  show "closure (frame halfRandom 2013 a) = startedEnv" by (rule g')
  show "enemiesRef (game (frame halfRandom 2013 a)) =
           [rear 61, rear 61, rear 61, rear 1, rear 1, rear 1, rear 1, rear 1]"
    unfolding g' using es by simp
  show "spawnTimerRef (game (frame halfRandom 2013 a)) = spawnInterval (score startedEnv)"
    unfolding g' using quiet_before(4) [OF q, of startedEnv halfRandom "33 / 1000"] tm by simp
  show "score (game (frame halfRandom 2013 a)) = 100"
    unfolding g' using quiet_before(5) [OF q, of startedEnv halfRandom "33 / 1000"] f by simp
qed

text \<open>
  Claim C6 at a failing input. The state \<open>lull 9\<close> is reachable: it is the session of
  \<open>ambush\<close> after the frame in which the player kills an enemy (score 100), the release
  of the inputs, and nine more frames. Its loop is still the one installed at the start,
  whose render has score 0. The score cell is 100 and the spawn timer is at 0.02. In the
  frame at 2013 ms the timer, decremented by 0.033, is below 0: a wave is generated (five
  enemies, which the same step moves by one step of 1.155, join the three of the session),
  and the timer is reset to 2, the value of \<open>max 0.8 (2.0 - 0.001 score)\<close> for score 0,
  while for the score of the session, 100 before and after the frame, this value is 1.9.
\<close>

theorem spawn_timer_reset_ignores_score:
  "reachable (lull 9) \<and> closure (lull 9) = startedEnv \<and> score startedEnv = 0 \<and>
   score (game (lull 9)) = 100 \<and>
   filter alive (enemiesRef (game (lull 9))) = [rear 60, rear 60, rear 60] \<and>
   lastTimeRef (game (lull 9)) = Some 1980 \<and> frameDt 2013 1980 = 33 / 1000 \<and>
   spawnTimerRef (game (lull 9)) = 1 / 50 \<and>
   spawnTimerRef (game (lull 9)) - frameDt 2013 1980 \<le> 0 \<and>
   enemiesRef (game (frame halfRandom 2013 (lull 9))) =
     [rear 61, rear 61, rear 61, rear 1, rear 1, rear 1, rear 1, rear 1] \<and>
   score (game (frame halfRandom 2013 (lull 9))) = 100 \<and>
   closure (frame halfRandom 2013 (lull 9)) = startedEnv \<and>
   spawnTimerRef (game (frame halfRandom 2013 (lull 9))) = 2 \<and>
   spawnInterval (score (game (lull 9))) = 19 / 10 \<and>
   spawnInterval (score (game (frame halfRandom 2013 (lull 9)))) = 19 / 10"
proof -
  have c: "calm 9 (lull 9)" and r: "reachable (lull 9)"
    using lull_calm [of 9] by simp_all
  from c have f: "closure (lull 9) = startedEnv" "score (game (lull 9)) = 100"
    "filter alive (enemiesRef (game (lull 9))) = [rear 60, rear 60, rear 60]"
    "lastTimeRef (game (lull 9)) = Some 1980" "spawnTimerRef (game (lull 9)) = 1 / 50"
    by (simp_all add: calm_def)
  have d: "frameDt 2013 1980 = 33 / 1000" by (simp add: frameDt_def)
  have t: "spawnTimerRef (game (lull 9)) - frameDt 2013 1980 \<le> 0"
    unfolding f d by simp
  have w: "spawnTimerRef (game (frame halfRandom 2013 (lull 9))) = 2"
    using calm_wave(3) [OF c] by (simp add: spawnInterval_def)
  have i: "spawnInterval (score (game (lull 9))) = 19 / 10"
    "spawnInterval (score (game (frame halfRandom 2013 (lull 9)))) = 19 / 10"
    unfolding f calm_wave(4) [OF c] by (simp_all add: spawnInterval_def)
  have z: "score startedEnv = 0" by simp
  show ?thesis
    by (intro conjI)
      (fact r f z d t w i calm_wave(1) [OF c] calm_wave(2) [OF c] calm_wave(4) [OF c])+
qed

end
